theory Spec2Isabelle
  imports Main "HOL-Library.Multiset" "HOL-Library.Signed_Division" "HOL-Library.Sublist"
begin

section \<open>The C++ fragment the corpus uses\<close>

text \<open>
  The corpus consists of small C++ functions over \<open>int\<close>, \<open>std::vector<int>\<close>, plain
  arrays and singly linked lists. The embedding keeps what C++ leaves to the programmer
  as explicit results:
  \<^item> \<open>int\<close> is 32 bits wide; an \<open>int\<close> operation whose mathematical result is not
    representable is undefined behaviour in C++ and is the error \<open>SignedOverflow\<close> here;
  \<^item> \<open>v[i]\<close> outside \<open>0 \<le> i < v.size()\<close> is undefined behaviour and is the error
    \<open>OutOfBounds\<close> here;
  \<^item> dereferencing a pointer that is neither null nor the address of a live node is
    undefined behaviour and is the error \<open>InvalidPointer\<close> here;
  \<^item> \<open>v.size()\<close> is an unsigned 64-bit value; converting it to \<open>int\<close> keeps the low
    32 bits (two's complement), and comparing an \<open>int\<close> with it converts the \<open>int\<close>
    to unsigned 64 bits first.
  A vector is the list of its elements.
\<close>

datatype error = OutOfBounds | SignedOverflow | InvalidPointer

definition INT_MIN :: int where
  "INT_MIN = - (2 ^ 31)"

definition INT_MAX :: int where
  "INT_MAX = 2 ^ 31 - 1"

text \<open>The result of an \<open>int\<close> operation whose mathematical value is \<open>x\<close>.\<close>

definition chk :: "int \<Rightarrow> error + int" where
  "chk x = (if INT_MIN \<le> x \<and> x \<le> INT_MAX then Inr x else Inl SignedOverflow)"

text \<open>Conversion of an unsigned value to \<open>int\<close> (\<open>int right = v.size() - 1\<close>).\<close>

definition to_int :: "int \<Rightarrow> int" where
  "to_int x = (x + 2 ^ 31) mod 2 ^ 32 - 2 ^ 31"

text \<open>Conversion of an \<open>int\<close> to \<open>size_t\<close>, and \<open>size_t\<close> subtraction.\<close>

definition to_size :: "int \<Rightarrow> int" where
  "to_size x = x mod 2 ^ 64"

definition vec_size :: "'a list \<Rightarrow> int" where
  "vec_size v = int (length v)"

text \<open>\<open>v[i]\<close> as an rvalue and \<open>v[i] = x\<close>, for an \<open>int\<close> index.\<close>

definition vec_at :: "'a list \<Rightarrow> int \<Rightarrow> error + 'a" where
  "vec_at v i = (if 0 \<le> i \<and> i < vec_size v then Inr (v ! nat i) else Inl OutOfBounds)"

definition vec_set :: "'a list \<Rightarrow> int \<Rightarrow> 'a \<Rightarrow> error + 'a list" where
  "vec_set v i x = (if 0 \<le> i \<and> i < vec_size v then Inr (v[nat i := x]) else Inl OutOfBounds)"

section \<open>The sorting programs\<close>

text \<open>
  \<open>Student_8_SelectionSort.cpp\<close> and \<open>Student_3_DebugMode.cpp\<close> are \<open>main\<close> programs
  on the fixed array \<open>{64, 34, 25, 12, 22}\<close> with \<open>n = 5\<close>. What they write to \<open>cout\<close>
  is the list of the items written.
\<close>

datatype out = OutInt int | OutStr string | OutEndl

definition arr_init :: "int list" where
  "arr_init = [64, 34, 25, 12, 22]"

subsection \<open>Selection sort\<close>

text \<open>
  The inner loop \<open>for (int j = i+1; j < n; j++) if (arr[j] < arr[min_idx]) min_idx = j;\<close>
\<close>

function select_min :: "int list \<Rightarrow> int \<Rightarrow> int \<Rightarrow> int \<Rightarrow> error + int" where
  "select_min arr n j min_idx =
     (if j < n then
        (case vec_at arr j of Inl e \<Rightarrow> Inl e | Inr aj \<Rightarrow>
         case vec_at arr min_idx of Inl e \<Rightarrow> Inl e | Inr am \<Rightarrow>
         case chk (j + 1) of Inl e \<Rightarrow> Inl e | Inr j' \<Rightarrow>
           select_min arr n j' (if aj < am then j else min_idx))
      else Inr min_idx)"
  by pat_completeness auto
termination
  by (relation "measure (\<lambda>(arr, n, j, min_idx). nat (n - j))")
     (auto simp: chk_def split: if_splits)

text \<open>The outer loop, with the swap through \<open>temp\<close>.\<close>

function selection_sort_loop :: "int list \<Rightarrow> int \<Rightarrow> int \<Rightarrow> error + int list" where
  "selection_sort_loop arr n i =
     (case chk (n - 1) of Inl e \<Rightarrow> Inl e | Inr n1 \<Rightarrow>
      if i < n1 then
        (case chk (i + 1) of Inl e \<Rightarrow> Inl e | Inr j0 \<Rightarrow>
         case select_min arr n j0 i of Inl e \<Rightarrow> Inl e | Inr min_idx \<Rightarrow>
         case vec_at arr min_idx of Inl e \<Rightarrow> Inl e | Inr temp \<Rightarrow>
         case vec_at arr i of Inl e \<Rightarrow> Inl e | Inr ai \<Rightarrow>
         case vec_set arr min_idx ai of Inl e \<Rightarrow> Inl e | Inr arr1 \<Rightarrow>
         case vec_set arr1 i temp of Inl e \<Rightarrow> Inl e | Inr arr2 \<Rightarrow>
         case chk (i + 1) of Inl e \<Rightarrow> Inl e | Inr i' \<Rightarrow>
           selection_sort_loop arr2 n i')
      else Inr arr)"
  by pat_completeness auto
termination
  by (relation "measure (\<lambda>(arr, n, i). nat (n - i))")
     (auto simp: chk_def split: if_splits)

text \<open>\<open>for (int i = 0; i < n; i++) cout << arr[i] << " ";\<close>\<close>

function print_loop :: "int list \<Rightarrow> int \<Rightarrow> int \<Rightarrow> out list \<Rightarrow> error + out list" where
  "print_loop arr n i outp =
     (if i < n then
        (case vec_at arr i of Inl e \<Rightarrow> Inl e | Inr x \<Rightarrow>
         case chk (i + 1) of Inl e \<Rightarrow> Inl e | Inr i' \<Rightarrow>
           print_loop arr n i' (outp @ [OutInt x, OutStr '' '']))
      else Inr outp)"
  by pat_completeness auto
termination
  by (relation "measure (\<lambda>(arr, n, i, outp). nat (n - i))")
     (auto simp: chk_def split: if_splits)

definition selection_sort_main :: "error + out list" where
  "selection_sort_main =
     (case selection_sort_loop arr_init 5 0 of Inl e \<Rightarrow> Inl e | Inr arr \<Rightarrow>
        print_loop arr 5 0 [])"

subsection \<open>Bubble sort with debug output\<close>

text \<open>
  The inner loop \<open>for (int j = 0; j < n - i - 1; j++)\<close>: adjacent elements out of order
  are swapped and \<open>Swapped!\<close> is printed.
\<close>

function bubble_pass ::
  "int list \<Rightarrow> int \<Rightarrow> int \<Rightarrow> int \<Rightarrow> out list \<Rightarrow> error + (int list \<times> out list)" where
  "bubble_pass arr n i j outp =
     (case chk (n - i) of Inl e \<Rightarrow> Inl e | Inr ni \<Rightarrow>
      case chk (ni - 1) of Inl e \<Rightarrow> Inl e | Inr bound \<Rightarrow>
      if j < bound then
        (case vec_at arr j of Inl e \<Rightarrow> Inl e | Inr aj \<Rightarrow>
         case chk (j + 1) of Inl e \<Rightarrow> Inl e | Inr j1 \<Rightarrow>
         case vec_at arr j1 of Inl e \<Rightarrow> Inl e | Inr aj1 \<Rightarrow>
         if aj > aj1 then
           (case vec_set arr j aj1 of Inl e \<Rightarrow> Inl e | Inr arr1 \<Rightarrow>
            case vec_set arr1 j1 aj of Inl e \<Rightarrow> Inl e | Inr arr2 \<Rightarrow>
              bubble_pass arr2 n i j1 (outp @ [OutStr ''Swapped!'', OutEndl]))
         else bubble_pass arr n i j1 outp)
      else Inr (arr, outp))"
  by pat_completeness auto
termination
  by (relation "measure (\<lambda>(arr, n, i, j, outp). nat (n - i - 1 - j))")
     (auto simp: chk_def split: if_splits)

function bubble_sort_loop ::
  "int list \<Rightarrow> int \<Rightarrow> int \<Rightarrow> out list \<Rightarrow> error + (int list \<times> out list)" where
  "bubble_sort_loop arr n i outp =
     (case chk (n - 1) of Inl e \<Rightarrow> Inl e | Inr n1 \<Rightarrow>
      if i < n1 then
        (case bubble_pass arr n i 0 (outp @ [OutStr ''Pass: '', OutInt i, OutEndl]) of
           Inl e \<Rightarrow> Inl e
         | Inr (arr', outp') \<Rightarrow>
             (case chk (i + 1) of Inl e \<Rightarrow> Inl e | Inr i' \<Rightarrow>
                bubble_sort_loop arr' n i' outp'))
      else Inr (arr, outp))"
  by pat_completeness auto
termination
  by (relation "measure (\<lambda>(arr, n, i, outp). nat (n - i))")
     (auto simp: chk_def split: if_splits)

definition bubble_sort_main :: "error + out list" where
  "bubble_sort_main =
     (case bubble_sort_loop arr_init 5 0 [OutStr ''Starting Sort...'', OutEndl] of
        Inl e \<Rightarrow> Inl e
      | Inr (arr, outp) \<Rightarrow> print_loop arr 5 0 (outp @ [OutStr ''Final Sorted array: '']))"

text \<open>The integers a program wrote after its last string other than the separator.\<close>

fun printed_ints :: "out list \<Rightarrow> int list" where
  "printed_ints [] = []"
| "printed_ints (OutInt x # rest) = x # printed_ints rest"
| "printed_ints (OutStr s # rest) = (if s = '' '' then printed_ints rest else [])"
| "printed_ints (OutEndl # rest) = []"

definition final_ints :: "out list \<Rightarrow> int list" where
  "final_ints outp = rev (printed_ints (rev outp))"

section \<open>Maximum subarray\<close>

text \<open>
  Some properties of the maximum-subarray functions are stated under exact integer
  arithmetic, so these functions take the arithmetic as a parameter: with \<open>Exact\<close> every
  \<open>int\<close> operation yields its mathematical result and conversions keep the value;
  with \<open>Int32\<close> the operations are those of the machine, as above. The elements of a
  \<open>vector<int>\<close> are \<open>int\<close> values in both. The local variables \<open>sum\<close> and
  \<open>curr\<close> of the sources are \<open>sumv\<close> and \<open>currv\<close> here.
\<close>

datatype arith = Exact | Int32

definition arith_chk :: "arith \<Rightarrow> int \<Rightarrow> error + int" where
  "arith_chk m x = (case m of Exact \<Rightarrow> Inr x | Int32 \<Rightarrow> chk x)"

text \<open>\<open>int n = nums.size()\<close> and the comparison \<open>i < nums.size()\<close> for an \<open>int i\<close>.\<close>

definition size_to_int :: "arith \<Rightarrow> int \<Rightarrow> int" where
  "size_to_int m n = (case m of Exact \<Rightarrow> n | Int32 \<Rightarrow> to_int n)"

definition lt_size :: "arith \<Rightarrow> int \<Rightarrow> int \<Rightarrow> bool" where
  "lt_size m i n = (case m of Exact \<Rightarrow> i < n | Int32 \<Rightarrow> to_size i < n)"

definition int_vector :: "int list \<Rightarrow> bool" where
  "int_vector nums = (\<forall>x \<in> set nums. INT_MIN \<le> x \<and> x \<le> INT_MAX)"

subsection \<open>\<open>max_subarray_12.cpp\<close>: Kadane, extending or restarting\<close>

text \<open>The range-based loop \<open>for (int x : nums)\<close> visits the elements in order.\<close>

fun maxSubArray_12_loop :: "arith \<Rightarrow> int list \<Rightarrow> int \<Rightarrow> int \<Rightarrow> error + int" where
  "maxSubArray_12_loop m [] sumv maxi = Inr maxi"
| "maxSubArray_12_loop m (x # rest) sumv maxi =
     (case arith_chk m (sumv + x) of Inl e \<Rightarrow> Inl e | Inr s \<Rightarrow>
        let sumv' = max x s;
            maxi' = max maxi sumv'
        in maxSubArray_12_loop m rest sumv' maxi')"

definition maxSubArray_12 :: "arith \<Rightarrow> int list \<Rightarrow> error + int" where
  "maxSubArray_12 m nums =
     (case vec_at nums 0 of Inl e \<Rightarrow> Inl e | Inr maxi \<Rightarrow>
        maxSubArray_12_loop m nums 0 maxi)"

subsection \<open>\<open>max_subarray_sum_student005.cpp\<close>\<close>

fun solvegpw_loop :: "arith \<Rightarrow> int list \<Rightarrow> int \<Rightarrow> int \<Rightarrow> error + int" where
  "solvegpw_loop m [] max_sum currv = Inr max_sum"
| "solvegpw_loop m (num # rest) max_sum currv =
     (case arith_chk m (currv + num) of Inl e \<Rightarrow> Inl e | Inr s \<Rightarrow>
        let currv' = max num s;
            max_sum' = max max_sum currv'
        in solvegpw_loop m rest max_sum' currv')"

definition solvegpw :: "arith \<Rightarrow> int list \<Rightarrow> error + int" where
  "solvegpw m arr =
     (case vec_at arr 0 of Inl e \<Rightarrow> Inl e | Inr max_sum \<Rightarrow>
        solvegpw_loop m arr max_sum 0)"

subsection \<open>\<open>max_subarray_02.cpp\<close>: Kadane, resetting a negative sum\<close>

function maxSubArray_02_loop ::
  "arith \<Rightarrow> int list \<Rightarrow> int \<Rightarrow> int \<Rightarrow> int \<Rightarrow> error + int" where
  "maxSubArray_02_loop m nums i sumv maxi =
     (if lt_size m i (vec_size nums) then
        (case vec_at nums i of Inl e \<Rightarrow> Inl e | Inr x \<Rightarrow>
         case arith_chk m (sumv + x) of Inl e \<Rightarrow> Inl e | Inr sum1 \<Rightarrow>
           let maxi' = max sum1 maxi;
               sum2 = (if sum1 < 0 then 0 else sum1)
           in (case arith_chk m (i + 1) of Inl e \<Rightarrow> Inl e | Inr i' \<Rightarrow>
                 maxSubArray_02_loop m nums i' sum2 maxi'))
      else Inr maxi)"
  by pat_completeness auto
termination
  by (relation "measure (\<lambda>(m, nums, i, sumv, maxi). nat (vec_size nums - i))")
     (auto simp: arith_chk_def chk_def vec_at_def split: if_splits arith.splits)

definition maxSubArray_02 :: "arith \<Rightarrow> int list \<Rightarrow> error + int" where
  "maxSubArray_02 m nums = maxSubArray_02_loop m nums 0 0 INT_MIN"

subsection \<open>\<open>max_subarray_09.cpp\<close>: Kadane with if/else\<close>

function maxSubArray_09_loop ::
  "arith \<Rightarrow> int list \<Rightarrow> int \<Rightarrow> int \<Rightarrow> int \<Rightarrow> error + int" where
  "maxSubArray_09_loop m nums i maxSum sumv =
     (if lt_size m i (vec_size nums) then
        (case vec_at nums i of Inl e \<Rightarrow> Inl e | Inr x \<Rightarrow>
         case arith_chk m (sumv + x) of Inl e \<Rightarrow> Inl e | Inr s \<Rightarrow>
           let sumv' = (if s \<ge> x then s else x);
               maxSum' = max maxSum sumv'
           in (case arith_chk m (i + 1) of Inl e \<Rightarrow> Inl e | Inr i' \<Rightarrow>
                 maxSubArray_09_loop m nums i' maxSum' sumv'))
      else Inr maxSum)"
  by pat_completeness auto
termination
  by (relation "measure (\<lambda>(m, nums, i, maxSum, sumv). nat (vec_size nums - i))")
     (auto simp: arith_chk_def chk_def vec_at_def split: if_splits arith.splits)

definition maxSubArray_09 :: "arith \<Rightarrow> int list \<Rightarrow> error + int" where
  "maxSubArray_09 m nums = maxSubArray_09_loop m nums 0 INT_MIN 0"

subsection \<open>\<open>max_subarray_03.cpp\<close>: all subarrays, each summed anew\<close>

text \<open>\<open>for (int k = i; k <= j; k++) sum += nums[k];\<close>\<close>

function maxSubArray_03_sum ::
  "arith \<Rightarrow> int list \<Rightarrow> int \<Rightarrow> int \<Rightarrow> int \<Rightarrow> error + int" where
  "maxSubArray_03_sum m nums j k sumv =
     (if k \<le> j then
        (case vec_at nums k of Inl e \<Rightarrow> Inl e | Inr x \<Rightarrow>
         case arith_chk m (sumv + x) of Inl e \<Rightarrow> Inl e | Inr sumv' \<Rightarrow>
         case arith_chk m (k + 1) of Inl e \<Rightarrow> Inl e | Inr k' \<Rightarrow>
           maxSubArray_03_sum m nums j k' sumv')
      else Inr sumv)"
  by pat_completeness auto
termination
  by (relation "measure (\<lambda>(m, nums, j, k, sumv). nat (j + 1 - k))")
     (auto simp: arith_chk_def chk_def split: if_splits arith.splits)

text \<open>\<open>for (int j = i; j < n; j++) { int sum = 0; ...; maxSum = max(maxSum, sum); }\<close>\<close>

function maxSubArray_03_inner ::
  "arith \<Rightarrow> int list \<Rightarrow> int \<Rightarrow> int \<Rightarrow> int \<Rightarrow> int \<Rightarrow> error + int" where
  "maxSubArray_03_inner m nums n i j maxSum =
     (if j < n then
        (case maxSubArray_03_sum m nums j i 0 of Inl e \<Rightarrow> Inl e | Inr sumv \<Rightarrow>
         case arith_chk m (j + 1) of Inl e \<Rightarrow> Inl e | Inr j' \<Rightarrow>
           maxSubArray_03_inner m nums n i j' (max maxSum sumv))
      else Inr maxSum)"
  by pat_completeness auto
termination
  by (relation "measure (\<lambda>(m, nums, n, i, j, maxSum). nat (n - j))")
     (auto simp: arith_chk_def chk_def split: if_splits arith.splits)

function maxSubArray_03_outer ::
  "arith \<Rightarrow> int list \<Rightarrow> int \<Rightarrow> int \<Rightarrow> int \<Rightarrow> error + int" where
  "maxSubArray_03_outer m nums n i maxSum =
     (if i < n then
        (case maxSubArray_03_inner m nums n i i maxSum of Inl e \<Rightarrow> Inl e | Inr maxSum' \<Rightarrow>
         case arith_chk m (i + 1) of Inl e \<Rightarrow> Inl e | Inr i' \<Rightarrow>
           maxSubArray_03_outer m nums n i' maxSum')
      else Inr maxSum)"
  by pat_completeness auto
termination
  by (relation "measure (\<lambda>(m, nums, n, i, maxSum). nat (n - i))")
     (auto simp: arith_chk_def chk_def split: if_splits arith.splits)

definition maxSubArray_03 :: "arith \<Rightarrow> int list \<Rightarrow> error + int" where
  "maxSubArray_03 m nums =
     (let n = size_to_int m (vec_size nums) in
      case vec_at nums 0 of Inl e \<Rightarrow> Inl e | Inr maxSum \<Rightarrow>
        maxSubArray_03_outer m nums n 0 maxSum)"

subsection \<open>What the maximum subarray sum is\<close>

text \<open>
  The maximum of the sums of the non-empty contiguous subarrays (\<open>sublist\<close> is the
  contiguous-part relation on lists). This is the value the corpus' files name in their
  comments; it is not taken from any of the implementations.
\<close>

definition subarray_sums :: "int list \<Rightarrow> int set" where
  "subarray_sums nums = sum_list ` {ys. sublist ys nums \<and> ys \<noteq> []}"

definition max_subarray_sum :: "int list \<Rightarrow> int" where
  "max_subarray_sum nums = Max (subarray_sums nums)"

text \<open>
  Two notions for the proofs: the sums of the non-empty subarrays that end at the last
  element, and the sum of the elements at the positions \<open>i, \<dots>, j\<close>.
\<close>

definition suffix_sums :: "int list \<Rightarrow> int set" where
  "suffix_sums nums = sum_list ` {ys. suffix ys nums \<and> ys \<noteq> []}"

definition seg_sum :: "int list \<Rightarrow> nat \<Rightarrow> nat \<Rightarrow> int" where
  "seg_sum nums i j = sum_list (take (Suc j - i) (drop i nums))"

section \<open>The binary-search snippets as token sequences\<close>

text \<open>
  Each file under \<open>src/dsa_dataset/binary_search\<close> holds one function. A snippet is that
  function as the list of its source lines, from the line of the signature to the closing
  brace, each line the list of its tokens; comments and white space are not tokens. The
  words \<open>int\<close>, \<open>while\<close>, \<open>if\<close>, \<open>else\<close> and \<open>return\<close> are keywords, all other words
  (also \<open>vector\<close> and \<open>size\<close>) are identifiers.
\<close>

datatype token = Keyword string | Ident string | Number nat | Punct string

definition tokens_of :: "token list list \<Rightarrow> token list" where
  "tokens_of snippet = concat snippet"

text \<open>Renaming the identifiers of a token sequence, and the identifiers that occur in it.\<close>

fun rename :: "(string \<Rightarrow> string) \<Rightarrow> token \<Rightarrow> token" where
  "rename \<rho> (Ident x) = Ident (\<rho> x)"
| "rename \<rho> t = t"

definition idents :: "token list \<Rightarrow> string set" where
  "idents ts = {x. Ident x \<in> set ts}"


text \<open>
  A normal form that decides whether two token sequences differ only in their
  identifiers: every identifier is replaced by a placeholder numbered by first occurrence
  (\<open>ID1\<close>, \<open>ID2\<close>, \<dots>), as section 4.1 of the specification describes for its
  normalizer.
\<close>

datatype ntoken = Placeholder nat | Plain token

primrec index_of :: "'a list \<Rightarrow> 'a \<Rightarrow> nat" where
  "index_of [] x = 0"
| "index_of (y # ys) x = (if x = y then 0 else Suc (index_of ys x))"

fun normalize_from :: "string list \<Rightarrow> token list \<Rightarrow> ntoken list" where
  "normalize_from env [] = []"
| "normalize_from env (Ident x # ts) =
     (if x \<in> set env then Placeholder (Suc (index_of env x)) # normalize_from env ts
      else Placeholder (Suc (length env)) # normalize_from (env @ [x]) ts)"
| "normalize_from env (t # ts) = Plain t # normalize_from env ts"

definition normalize_tokens :: "token list \<Rightarrow> ntoken list" where
  "normalize_tokens ts = normalize_from [] ts"

subsection \<open>The 69 snippets\<close>

text \<open>
  A snippet is named after its file: \<open>student002\<close> is the function of
  \<open>binary_search_student002.cpp\<close>.
\<close>

definition student001_clone2 :: "token list list" where
  "student001_clone2 =
    [[Keyword ''int'', Ident ''solven_clonewgr'', Punct ''('', Ident ''vector'', Punct ''<'',
      Keyword ''int'', Punct ''>'', Punct ''&'', Ident ''vecb'', Punct '','', Keyword ''int'',
      Ident ''goalb'', Punct '')'', Punct ''{''],
     [Keyword ''int'', Ident ''left'', Punct ''='', Number 0, Punct '','', Ident ''right'',
      Punct ''='', Ident ''vecb'', Punct ''.'', Ident ''size'', Punct ''('', Punct '')'',
      Punct ''-'', Number 1, Punct '';''],
     [Keyword ''while'', Punct ''('', Ident ''left'', Punct ''<='', Ident ''right'',
      Punct '')'', Punct ''{''],
     [Keyword ''int'', Ident ''mid'', Punct ''='', Ident ''left'', Punct ''+'', Punct ''('',
      Ident ''right'', Punct ''-'', Ident ''left'', Punct '')'', Punct ''/'', Number 2,
      Punct '';''],
     [Keyword ''if'', Punct ''('', Ident ''vecb'', Punct ''['', Ident ''mid'', Punct '']'',
      Punct ''=='', Ident ''goalb'', Punct '')'', Keyword ''return'', Ident ''mid'', Punct '';''],
     [Keyword ''if'', Punct ''('', Ident ''vecb'', Punct ''['', Ident ''mid'', Punct '']'',
      Punct ''<'', Ident ''goalb'', Punct '')'', Ident ''left'', Punct ''='', Ident ''mid'',
      Punct ''+'', Number 1, Punct '';''],
     [Keyword ''else'', Ident ''right'', Punct ''='', Ident ''mid'', Punct ''-'', Number 1,
      Punct '';''],
     [Punct ''}''],
     [Keyword ''return'', Punct ''-'', Number 1, Punct '';''],
     [Punct ''}'']]"

definition student002 :: "token list list" where
  "student002 =
    [[Keyword ''int'', Ident ''solveoom'', Punct ''('', Ident ''vector'', Punct ''<'',
      Keyword ''int'', Punct ''>'', Punct ''&'', Ident ''numbers'', Punct '','',
      Keyword ''int'', Ident ''threshold'', Punct '')'', Punct ''{''],
     [Keyword ''int'', Ident ''left'', Punct ''='', Number 0, Punct '','', Ident ''right'',
      Punct ''='', Ident ''numbers'', Punct ''.'', Ident ''size'', Punct ''('', Punct '')'',
      Punct ''-'', Number 1, Punct '';''],
     [Keyword ''while'', Punct ''('', Ident ''left'', Punct ''<='', Ident ''right'',
      Punct '')'', Punct ''{''],
     [Keyword ''int'', Ident ''mid'', Punct ''='', Ident ''left'', Punct ''+'', Punct ''('',
      Ident ''right'', Punct ''-'', Ident ''left'', Punct '')'', Punct ''/'', Number 2,
      Punct '';''],
     [Keyword ''if'', Punct ''('', Ident ''numbers'', Punct ''['', Ident ''mid'', Punct '']'',
      Punct ''=='', Ident ''threshold'', Punct '')'', Keyword ''return'', Ident ''mid'',
      Punct '';''],
     [Keyword ''if'', Punct ''('', Ident ''numbers'', Punct ''['', Ident ''mid'', Punct '']'',
      Punct ''<'', Ident ''threshold'', Punct '')'', Ident ''left'', Punct ''='',
      Ident ''mid'', Punct ''+'', Number 1, Punct '';''],
     [Keyword ''else'', Ident ''right'', Punct ''='', Ident ''mid'', Punct ''-'', Number 1,
      Punct '';''],
     [Punct ''}''],
     [Keyword ''return'', Punct ''-'', Number 1, Punct '';''],
     [Punct ''}'']]"

definition student002_clone1 :: "token list list" where
  "student002_clone1 =
    [[Keyword ''int'', Ident ''solveoom_cloneo'', Punct ''('', Ident ''vector'', Punct ''<'',
      Keyword ''int'', Punct ''>'', Punct ''&'', Ident ''numbersa'', Punct '','',
      Keyword ''int'', Ident ''thresholda'', Punct '')'', Punct ''{''],
     [Keyword ''int'', Ident ''left'', Punct ''='', Number 0, Punct '','', Ident ''right'',
      Punct ''='', Ident ''numbersa'', Punct ''.'', Ident ''size'', Punct ''('', Punct '')'',
      Punct ''-'', Number 1, Punct '';''],
     [Keyword ''while'', Punct ''('', Ident ''left'', Punct ''<='', Ident ''right'',
      Punct '')'', Punct ''{''],
     [Keyword ''int'', Ident ''mid'', Punct ''='', Ident ''left'', Punct ''+'', Punct ''('',
      Ident ''right'', Punct ''-'', Ident ''left'', Punct '')'', Punct ''/'', Number 2,
      Punct '';''],
     [Keyword ''if'', Punct ''('', Ident ''numbersa'', Punct ''['', Ident ''mid'', Punct '']'',
      Punct ''=='', Ident ''thresholda'', Punct '')'', Keyword ''return'', Ident ''mid'',
      Punct '';''],
     [Keyword ''if'', Punct ''('', Ident ''numbersa'', Punct ''['', Ident ''mid'', Punct '']'',
      Punct ''<'', Ident ''thresholda'', Punct '')'', Ident ''left'', Punct ''='',
      Ident ''mid'', Punct ''+'', Number 1, Punct '';''],
     [Keyword ''else'', Ident ''right'', Punct ''='', Ident ''mid'', Punct ''-'', Number 1,
      Punct '';''],
     [Punct ''}''],
     [Keyword ''return'', Punct ''-'', Number 1, Punct '';''],
     [Punct ''}'']]"

definition student003_clone2 :: "token list list" where
  "student003_clone2 =
    [[Keyword ''int'', Ident ''solvezx_clonejp'', Punct ''('', Ident ''vector'', Punct ''<'',
      Keyword ''int'', Punct ''>'', Punct ''&'', Ident ''datasetb'', Punct '','',
      Keyword ''int'', Ident ''sum_valb'', Punct '')'', Punct ''{''],
     [Keyword ''int'', Ident ''left'', Punct ''='', Number 0, Punct '','', Ident ''right'',
      Punct ''='', Ident ''datasetb'', Punct ''.'', Ident ''size'', Punct ''('', Punct '')'',
      Punct ''-'', Number 1, Punct '';''],
     [Keyword ''while'', Punct ''('', Ident ''left'', Punct ''<='', Ident ''right'',
      Punct '')'', Punct ''{''],
     [Keyword ''int'', Ident ''mid'', Punct ''='', Ident ''left'', Punct ''+'', Punct ''('',
      Ident ''right'', Punct ''-'', Ident ''left'', Punct '')'', Punct ''/'', Number 2,
      Punct '';''],
     [Keyword ''if'', Punct ''('', Ident ''datasetb'', Punct ''['', Ident ''mid'', Punct '']'',
      Punct ''=='', Ident ''sum_valb'', Punct '')'', Keyword ''return'', Ident ''mid'',
      Punct '';''],
     [Keyword ''if'', Punct ''('', Ident ''datasetb'', Punct ''['', Ident ''mid'', Punct '']'',
      Punct ''<'', Ident ''sum_valb'', Punct '')'', Ident ''left'', Punct ''='', Ident ''mid'',
      Punct ''+'', Number 1, Punct '';''],
     [Keyword ''else'', Ident ''right'', Punct ''='', Ident ''mid'', Punct ''-'', Number 1,
      Punct '';''],
     [Punct ''}''],
     [Keyword ''return'', Punct ''-'', Number 1, Punct '';''],
     [Punct ''}'']]"

definition student004_clone2 :: "token list list" where
  "student004_clone2 =
    [[Keyword ''int'', Ident ''solvefh_cloneper'', Punct ''('', Ident ''vector'', Punct ''<'',
      Keyword ''int'', Punct ''>'', Punct ''&'', Ident ''listb'', Punct '','', Keyword ''int'',
      Ident ''goalb'', Punct '')'', Punct ''{''],
     [Keyword ''int'', Ident ''left'', Punct ''='', Number 0, Punct '','', Ident ''right'',
      Punct ''='', Ident ''listb'', Punct ''.'', Ident ''size'', Punct ''('', Punct '')'',
      Punct ''-'', Number 1, Punct '';''],
     [Keyword ''while'', Punct ''('', Ident ''left'', Punct ''<='', Ident ''right'',
      Punct '')'', Punct ''{''],
     [Keyword ''int'', Ident ''mid'', Punct ''='', Ident ''left'', Punct ''+'', Punct ''('',
      Ident ''right'', Punct ''-'', Ident ''left'', Punct '')'', Punct ''/'', Number 2,
      Punct '';''],
     [Keyword ''if'', Punct ''('', Ident ''listb'', Punct ''['', Ident ''mid'', Punct '']'',
      Punct ''=='', Ident ''goalb'', Punct '')'', Keyword ''return'', Ident ''mid'', Punct '';''],
     [Keyword ''if'', Punct ''('', Ident ''listb'', Punct ''['', Ident ''mid'', Punct '']'',
      Punct ''<'', Ident ''goalb'', Punct '')'', Ident ''left'', Punct ''='', Ident ''mid'',
      Punct ''+'', Number 1, Punct '';''],
     [Keyword ''else'', Ident ''right'', Punct ''='', Ident ''mid'', Punct ''-'', Number 1,
      Punct '';''],
     [Punct ''}''],
     [Keyword ''return'', Punct ''-'', Number 1, Punct '';''],
     [Punct ''}'']]"

definition student007 :: "token list list" where
  "student007 =
    [[Keyword ''int'', Ident ''solveuv'', Punct ''('', Ident ''vector'', Punct ''<'',
      Keyword ''int'', Punct ''>'', Punct ''&'', Ident ''nums'', Punct '','', Keyword ''int'',
      Ident ''dest'', Punct '')'', Punct ''{''],
     [Keyword ''int'', Ident ''left'', Punct ''='', Number 0, Punct '','', Ident ''right'',
      Punct ''='', Ident ''nums'', Punct ''.'', Ident ''size'', Punct ''('', Punct '')'',
      Punct ''-'', Number 1, Punct '';''],
     [Keyword ''while'', Punct ''('', Ident ''left'', Punct ''<='', Ident ''right'',
      Punct '')'', Punct ''{''],
     [Keyword ''int'', Ident ''mid'', Punct ''='', Ident ''left'', Punct ''+'', Punct ''('',
      Ident ''right'', Punct ''-'', Ident ''left'', Punct '')'', Punct ''/'', Number 2,
      Punct '';''],
     [Keyword ''if'', Punct ''('', Ident ''nums'', Punct ''['', Ident ''mid'', Punct '']'',
      Punct ''=='', Ident ''dest'', Punct '')'', Keyword ''return'', Ident ''mid'', Punct '';''],
     [Keyword ''if'', Punct ''('', Ident ''nums'', Punct ''['', Ident ''mid'', Punct '']'',
      Punct ''<'', Ident ''dest'', Punct '')'', Ident ''left'', Punct ''='', Ident ''mid'',
      Punct ''+'', Number 1, Punct '';''],
     [Keyword ''else'', Ident ''right'', Punct ''='', Ident ''mid'', Punct ''-'', Number 1,
      Punct '';''],
     [Punct ''}''],
     [Keyword ''return'', Punct ''-'', Number 1, Punct '';''],
     [Punct ''}'']]"

definition student008 :: "token list list" where
  "student008 =
    [[Keyword ''int'', Ident ''solvec'', Punct ''('', Ident ''vector'', Punct ''<'',
      Keyword ''int'', Punct ''>'', Punct ''&'', Ident ''vec'', Punct '','', Keyword ''int'',
      Ident ''sum_val'', Punct '')'', Punct ''{''],
     [Keyword ''int'', Ident ''left'', Punct ''='', Number 0, Punct '','', Ident ''right'',
      Punct ''='', Ident ''vec'', Punct ''.'', Ident ''size'', Punct ''('', Punct '')'',
      Punct ''-'', Number 1, Punct '';''],
     [Keyword ''while'', Punct ''('', Ident ''left'', Punct ''<='', Ident ''right'',
      Punct '')'', Punct ''{''],
     [Keyword ''int'', Ident ''mid'', Punct ''='', Ident ''left'', Punct ''+'', Punct ''('',
      Ident ''right'', Punct ''-'', Ident ''left'', Punct '')'', Punct ''/'', Number 2,
      Punct '';''],
     [Keyword ''if'', Punct ''('', Ident ''vec'', Punct ''['', Ident ''mid'', Punct '']'',
      Punct ''=='', Ident ''sum_val'', Punct '')'', Keyword ''return'', Ident ''mid'',
      Punct '';''],
     [Keyword ''if'', Punct ''('', Ident ''vec'', Punct ''['', Ident ''mid'', Punct '']'',
      Punct ''<'', Ident ''sum_val'', Punct '')'', Ident ''left'', Punct ''='', Ident ''mid'',
      Punct ''+'', Number 1, Punct '';''],
     [Keyword ''else'', Ident ''right'', Punct ''='', Ident ''mid'', Punct ''-'', Number 1,
      Punct '';''],
     [Punct ''}''],
     [Keyword ''return'', Punct ''-'', Number 1, Punct '';''],
     [Punct ''}'']]"

definition student008_clone1 :: "token list list" where
  "student008_clone1 =
    [[Keyword ''int'', Ident ''solvec_cloneabx'', Punct ''('', Ident ''vector'', Punct ''<'',
      Keyword ''int'', Punct ''>'', Punct ''&'', Ident ''veca'', Punct '','', Keyword ''int'',
      Ident ''sum_vala'', Punct '')'', Punct ''{''],
     [Keyword ''int'', Ident ''left'', Punct ''='', Number 0, Punct '','', Ident ''right'',
      Punct ''='', Ident ''veca'', Punct ''.'', Ident ''size'', Punct ''('', Punct '')'',
      Punct ''-'', Number 1, Punct '';''],
     [Keyword ''while'', Punct ''('', Ident ''left'', Punct ''<='', Ident ''right'',
      Punct '')'', Punct ''{''],
     [Keyword ''int'', Ident ''mid'', Punct ''='', Ident ''left'', Punct ''+'', Punct ''('',
      Ident ''right'', Punct ''-'', Ident ''left'', Punct '')'', Punct ''/'', Number 2,
      Punct '';''],
     [Keyword ''if'', Punct ''('', Ident ''veca'', Punct ''['', Ident ''mid'', Punct '']'',
      Punct ''=='', Ident ''sum_vala'', Punct '')'', Keyword ''return'', Ident ''mid'',
      Punct '';''],
     [Keyword ''if'', Punct ''('', Ident ''veca'', Punct ''['', Ident ''mid'', Punct '']'',
      Punct ''<'', Ident ''sum_vala'', Punct '')'', Ident ''left'', Punct ''='', Ident ''mid'',
      Punct ''+'', Number 1, Punct '';''],
     [Keyword ''else'', Ident ''right'', Punct ''='', Ident ''mid'', Punct ''-'', Number 1,
      Punct '';''],
     [Punct ''}''],
     [Keyword ''return'', Punct ''-'', Number 1, Punct '';''],
     [Punct ''}'']]"

definition student009_clone3 :: "token list list" where
  "student009_clone3 =
    [[Keyword ''int'', Ident ''solveb_clonesj'', Punct ''('', Ident ''vector'', Punct ''<'',
      Keyword ''int'', Punct ''>'', Punct ''&'', Ident ''numsc'', Punct '','', Keyword ''int'',
      Ident ''thresholdc'', Punct '')'', Punct ''{''],
     [Keyword ''int'', Ident ''left'', Punct ''='', Number 0, Punct '','', Ident ''right'',
      Punct ''='', Ident ''numsc'', Punct ''.'', Ident ''size'', Punct ''('', Punct '')'',
      Punct ''-'', Number 1, Punct '';''],
     [Keyword ''while'', Punct ''('', Ident ''left'', Punct ''<='', Ident ''right'',
      Punct '')'', Punct ''{''],
     [Keyword ''int'', Ident ''mid'', Punct ''='', Ident ''left'', Punct ''+'', Punct ''('',
      Ident ''right'', Punct ''-'', Ident ''left'', Punct '')'', Punct ''/'', Number 2,
      Punct '';''],
     [Keyword ''if'', Punct ''('', Ident ''numsc'', Punct ''['', Ident ''mid'', Punct '']'',
      Punct ''=='', Ident ''thresholdc'', Punct '')'', Keyword ''return'', Ident ''mid'',
      Punct '';''],
     [Keyword ''if'', Punct ''('', Ident ''numsc'', Punct ''['', Ident ''mid'', Punct '']'',
      Punct ''<'', Ident ''thresholdc'', Punct '')'', Ident ''left'', Punct ''='',
      Ident ''mid'', Punct ''+'', Number 1, Punct '';''],
     [Keyword ''else'', Ident ''right'', Punct ''='', Ident ''mid'', Punct ''-'', Number 1,
      Punct '';''],
     [Punct ''}''],
     [Keyword ''return'', Punct ''-'', Number 1, Punct '';''],
     [Punct ''}'']]"

definition student010_clone1 :: "token list list" where
  "student010_clone1 =
    [[Keyword ''int'', Ident ''solves_clonepta'', Punct ''('', Ident ''vector'', Punct ''<'',
      Keyword ''int'', Punct ''>'', Punct ''&'', Ident ''arra'', Punct '','', Keyword ''int'',
      Ident ''thresholda'', Punct '')'', Punct ''{''],
     [Keyword ''int'', Ident ''left'', Punct ''='', Number 0, Punct '','', Ident ''right'',
      Punct ''='', Ident ''arra'', Punct ''.'', Ident ''size'', Punct ''('', Punct '')'',
      Punct ''-'', Number 1, Punct '';''],
     [Keyword ''while'', Punct ''('', Ident ''left'', Punct ''<='', Ident ''right'',
      Punct '')'', Punct ''{''],
     [Keyword ''int'', Ident ''mid'', Punct ''='', Ident ''left'', Punct ''+'', Punct ''('',
      Ident ''right'', Punct ''-'', Ident ''left'', Punct '')'', Punct ''/'', Number 2,
      Punct '';''],
     [Keyword ''if'', Punct ''('', Ident ''arra'', Punct ''['', Ident ''mid'', Punct '']'',
      Punct ''=='', Ident ''thresholda'', Punct '')'', Keyword ''return'', Ident ''mid'',
      Punct '';''],
     [Keyword ''if'', Punct ''('', Ident ''arra'', Punct ''['', Ident ''mid'', Punct '']'',
      Punct ''<'', Ident ''thresholda'', Punct '')'', Ident ''left'', Punct ''='',
      Ident ''mid'', Punct ''+'', Number 1, Punct '';''],
     [Keyword ''else'', Ident ''right'', Punct ''='', Ident ''mid'', Punct ''-'', Number 1,
      Punct '';''],
     [Punct ''}''],
     [Keyword ''return'', Punct ''-'', Number 1, Punct '';''],
     [Punct ''}'']]"

definition student011 :: "token list list" where
  "student011 =
    [[Keyword ''int'', Ident ''solves'', Punct ''('', Ident ''vector'', Punct ''<'',
      Keyword ''int'', Punct ''>'', Punct ''&'', Ident ''vec'', Punct '','', Keyword ''int'',
      Ident ''threshold'', Punct '')'', Punct ''{''],
     [Keyword ''int'', Ident ''left'', Punct ''='', Number 0, Punct '','', Ident ''right'',
      Punct ''='', Ident ''vec'', Punct ''.'', Ident ''size'', Punct ''('', Punct '')'',
      Punct ''-'', Number 1, Punct '';''],
     [Keyword ''while'', Punct ''('', Ident ''left'', Punct ''<='', Ident ''right'',
      Punct '')'', Punct ''{''],
     [Keyword ''int'', Ident ''mid'', Punct ''='', Ident ''left'', Punct ''+'', Punct ''('',
      Ident ''right'', Punct ''-'', Ident ''left'', Punct '')'', Punct ''/'', Number 2,
      Punct '';''],
     [Keyword ''if'', Punct ''('', Ident ''vec'', Punct ''['', Ident ''mid'', Punct '']'',
      Punct ''=='', Ident ''threshold'', Punct '')'', Keyword ''return'', Ident ''mid'',
      Punct '';''],
     [Keyword ''if'', Punct ''('', Ident ''vec'', Punct ''['', Ident ''mid'', Punct '']'',
      Punct ''<'', Ident ''threshold'', Punct '')'', Ident ''left'', Punct ''='',
      Ident ''mid'', Punct ''+'', Number 1, Punct '';''],
     [Keyword ''else'', Ident ''right'', Punct ''='', Ident ''mid'', Punct ''-'', Number 1,
      Punct '';''],
     [Punct ''}''],
     [Keyword ''return'', Punct ''-'', Number 1, Punct '';''],
     [Punct ''}'']]"

definition student011_clone2 :: "token list list" where
  "student011_clone2 =
    [[Keyword ''int'', Ident ''solves_cloneqyq'', Punct ''('', Ident ''vector'', Punct ''<'',
      Keyword ''int'', Punct ''>'', Punct ''&'', Ident ''vecb'', Punct '','', Keyword ''int'',
      Ident ''thresholdb'', Punct '')'', Punct ''{''],
     [Keyword ''int'', Ident ''left'', Punct ''='', Number 0, Punct '','', Ident ''right'',
      Punct ''='', Ident ''vecb'', Punct ''.'', Ident ''size'', Punct ''('', Punct '')'',
      Punct ''-'', Number 1, Punct '';''],
     [Keyword ''while'', Punct ''('', Ident ''left'', Punct ''<='', Ident ''right'',
      Punct '')'', Punct ''{''],
     [Keyword ''int'', Ident ''mid'', Punct ''='', Ident ''left'', Punct ''+'', Punct ''('',
      Ident ''right'', Punct ''-'', Ident ''left'', Punct '')'', Punct ''/'', Number 2,
      Punct '';''],
     [Keyword ''if'', Punct ''('', Ident ''vecb'', Punct ''['', Ident ''mid'', Punct '']'',
      Punct ''=='', Ident ''thresholdb'', Punct '')'', Keyword ''return'', Ident ''mid'',
      Punct '';''],
     [Keyword ''if'', Punct ''('', Ident ''vecb'', Punct ''['', Ident ''mid'', Punct '']'',
      Punct ''<'', Ident ''thresholdb'', Punct '')'', Ident ''left'', Punct ''='',
      Ident ''mid'', Punct ''+'', Number 1, Punct '';''],
     [Keyword ''else'', Ident ''right'', Punct ''='', Ident ''mid'', Punct ''-'', Number 1,
      Punct '';''],
     [Punct ''}''],
     [Keyword ''return'', Punct ''-'', Number 1, Punct '';''],
     [Punct ''}'']]"

definition student012_clone2 :: "token list list" where
  "student012_clone2 =
    [[Keyword ''int'', Ident ''solvefae_cloneli'', Punct ''('', Ident ''vector'', Punct ''<'',
      Keyword ''int'', Punct ''>'', Punct ''&'', Ident ''arrb'', Punct '','', Keyword ''int'',
      Ident ''thresholdb'', Punct '')'', Punct ''{''],
     [Keyword ''int'', Ident ''left'', Punct ''='', Number 0, Punct '','', Ident ''right'',
      Punct ''='', Ident ''arrb'', Punct ''.'', Ident ''size'', Punct ''('', Punct '')'',
      Punct ''-'', Number 1, Punct '';''],
     [Keyword ''while'', Punct ''('', Ident ''left'', Punct ''<='', Ident ''right'',
      Punct '')'', Punct ''{''],
     [Keyword ''int'', Ident ''mid'', Punct ''='', Ident ''left'', Punct ''+'', Punct ''('',
      Ident ''right'', Punct ''-'', Ident ''left'', Punct '')'', Punct ''/'', Number 2,
      Punct '';''],
     [Keyword ''if'', Punct ''('', Ident ''arrb'', Punct ''['', Ident ''mid'', Punct '']'',
      Punct ''=='', Ident ''thresholdb'', Punct '')'', Keyword ''return'', Ident ''mid'',
      Punct '';''],
     [Keyword ''if'', Punct ''('', Ident ''arrb'', Punct ''['', Ident ''mid'', Punct '']'',
      Punct ''<'', Ident ''thresholdb'', Punct '')'', Ident ''left'', Punct ''='',
      Ident ''mid'', Punct ''+'', Number 1, Punct '';''],
     [Keyword ''else'', Ident ''right'', Punct ''='', Ident ''mid'', Punct ''-'', Number 1,
      Punct '';''],
     [Punct ''}''],
     [Keyword ''return'', Punct ''-'', Number 1, Punct '';''],
     [Punct ''}'']]"

definition student012_clone3 :: "token list list" where
  "student012_clone3 =
    [[Keyword ''int'', Ident ''solvefae_clonel'', Punct ''('', Ident ''vector'', Punct ''<'',
      Keyword ''int'', Punct ''>'', Punct ''&'', Ident ''arrc'', Punct '','', Keyword ''int'',
      Ident ''thresholdc'', Punct '')'', Punct ''{''],
     [Keyword ''int'', Ident ''left'', Punct ''='', Number 0, Punct '','', Ident ''right'',
      Punct ''='', Ident ''arrc'', Punct ''.'', Ident ''size'', Punct ''('', Punct '')'',
      Punct ''-'', Number 1, Punct '';''],
     [Keyword ''while'', Punct ''('', Ident ''left'', Punct ''<='', Ident ''right'',
      Punct '')'', Punct ''{''],
     [Keyword ''int'', Ident ''mid'', Punct ''='', Ident ''left'', Punct ''+'', Punct ''('',
      Ident ''right'', Punct ''-'', Ident ''left'', Punct '')'', Punct ''/'', Number 2,
      Punct '';''],
     [Keyword ''if'', Punct ''('', Ident ''arrc'', Punct ''['', Ident ''mid'', Punct '']'',
      Punct ''=='', Ident ''thresholdc'', Punct '')'', Keyword ''return'', Ident ''mid'',
      Punct '';''],
     [Keyword ''if'', Punct ''('', Ident ''arrc'', Punct ''['', Ident ''mid'', Punct '']'',
      Punct ''<'', Ident ''thresholdc'', Punct '')'', Ident ''left'', Punct ''='',
      Ident ''mid'', Punct ''+'', Number 1, Punct '';''],
     [Keyword ''else'', Ident ''right'', Punct ''='', Ident ''mid'', Punct ''-'', Number 1,
      Punct '';''],
     [Punct ''}''],
     [Keyword ''return'', Punct ''-'', Number 1, Punct '';''],
     [Punct ''}'']]"

definition student014 :: "token list list" where
  "student014 =
    [[Keyword ''int'', Ident ''solvec'', Punct ''('', Ident ''vector'', Punct ''<'',
      Keyword ''int'', Punct ''>'', Punct ''&'', Ident ''numbers'', Punct '','',
      Keyword ''int'', Ident ''goal'', Punct '')'', Punct ''{''],
     [Keyword ''int'', Ident ''left'', Punct ''='', Number 0, Punct '','', Ident ''right'',
      Punct ''='', Ident ''numbers'', Punct ''.'', Ident ''size'', Punct ''('', Punct '')'',
      Punct ''-'', Number 1, Punct '';''],
     [Keyword ''while'', Punct ''('', Ident ''left'', Punct ''<='', Ident ''right'',
      Punct '')'', Punct ''{''],
     [Keyword ''int'', Ident ''mid'', Punct ''='', Ident ''left'', Punct ''+'', Punct ''('',
      Ident ''right'', Punct ''-'', Ident ''left'', Punct '')'', Punct ''/'', Number 2,
      Punct '';''],
     [Keyword ''if'', Punct ''('', Ident ''numbers'', Punct ''['', Ident ''mid'', Punct '']'',
      Punct ''=='', Ident ''goal'', Punct '')'', Keyword ''return'', Ident ''mid'', Punct '';''],
     [Keyword ''if'', Punct ''('', Ident ''numbers'', Punct ''['', Ident ''mid'', Punct '']'',
      Punct ''<'', Ident ''goal'', Punct '')'', Ident ''left'', Punct ''='', Ident ''mid'',
      Punct ''+'', Number 1, Punct '';''],
     [Keyword ''else'', Ident ''right'', Punct ''='', Ident ''mid'', Punct ''-'', Number 1,
      Punct '';''],
     [Punct ''}''],
     [Keyword ''return'', Punct ''-'', Number 1, Punct '';''],
     [Punct ''}'']]"

definition student015_clone2 :: "token list list" where
  "student015_clone2 =
    [[Keyword ''int'', Ident ''solvejd_cloneib'', Punct ''('', Ident ''vector'', Punct ''<'',
      Keyword ''int'', Punct ''>'', Punct ''&'', Ident ''vecb'', Punct '','', Keyword ''int'',
      Ident ''goalb'', Punct '')'', Punct ''{''],
     [Keyword ''int'', Ident ''left'', Punct ''='', Number 0, Punct '','', Ident ''right'',
      Punct ''='', Ident ''vecb'', Punct ''.'', Ident ''size'', Punct ''('', Punct '')'',
      Punct ''-'', Number 1, Punct '';''],
     [Keyword ''if'', Punct ''('', Ident ''vecb'', Punct ''['', Ident ''mid'', Punct '']'',
      Punct ''=='', Ident ''goalb'', Punct '')'', Keyword ''return'', Ident ''mid'', Punct '';''],
     [Keyword ''int'', Ident ''mid'', Punct ''='', Ident ''left'', Punct ''+'', Punct ''('',
      Ident ''right'', Punct ''-'', Ident ''left'', Punct '')'', Punct ''/'', Number 2,
      Punct '';''],
     [Keyword ''while'', Punct ''('', Ident ''left'', Punct ''<='', Ident ''right'',
      Punct '')'', Punct ''{''],
     [Keyword ''if'', Punct ''('', Ident ''vecb'', Punct ''['', Ident ''mid'', Punct '']'',
      Punct ''<'', Ident ''goalb'', Punct '')'', Ident ''left'', Punct ''='', Ident ''mid'',
      Punct ''+'', Number 1, Punct '';''],
     [Keyword ''else'', Ident ''right'', Punct ''='', Ident ''mid'', Punct ''-'', Number 1,
      Punct '';''],
     [Punct ''}''],
     [Keyword ''return'', Punct ''-'', Number 1, Punct '';''],
     [Punct ''}'']]"

definition student016 :: "token list list" where
  "student016 =
    [[Keyword ''int'', Ident ''solvej'', Punct ''('', Ident ''vector'', Punct ''<'',
      Keyword ''int'', Punct ''>'', Punct ''&'', Ident ''numbers'', Punct '','',
      Keyword ''int'', Ident ''sum_val'', Punct '')'', Punct ''{''],
     [Keyword ''int'', Ident ''left'', Punct ''='', Number 0, Punct '','', Ident ''right'',
      Punct ''='', Ident ''numbers'', Punct ''.'', Ident ''size'', Punct ''('', Punct '')'',
      Punct ''-'', Number 1, Punct '';''],
     [Keyword ''while'', Punct ''('', Ident ''left'', Punct ''<='', Ident ''right'',
      Punct '')'', Punct ''{''],
     [Keyword ''int'', Ident ''mid'', Punct ''='', Ident ''left'', Punct ''+'', Punct ''('',
      Ident ''right'', Punct ''-'', Ident ''left'', Punct '')'', Punct ''/'', Number 2,
      Punct '';''],
     [Keyword ''if'', Punct ''('', Ident ''numbers'', Punct ''['', Ident ''mid'', Punct '']'',
      Punct ''=='', Ident ''sum_val'', Punct '')'', Keyword ''return'', Ident ''mid'',
      Punct '';''],
     [Keyword ''if'', Punct ''('', Ident ''numbers'', Punct ''['', Ident ''mid'', Punct '']'',
      Punct ''<'', Ident ''sum_val'', Punct '')'', Ident ''left'', Punct ''='', Ident ''mid'',
      Punct ''+'', Number 1, Punct '';''],
     [Keyword ''else'', Ident ''right'', Punct ''='', Ident ''mid'', Punct ''-'', Number 1,
      Punct '';''],
     [Punct ''}''],
     [Keyword ''return'', Punct ''-'', Number 1, Punct '';''],
     [Punct ''}'']]"

definition student016_clone2 :: "token list list" where
  "student016_clone2 =
    [[Keyword ''int'', Ident ''solvej_clonehov'', Punct ''('', Ident ''vector'', Punct ''<'',
      Keyword ''int'', Punct ''>'', Punct ''&'', Ident ''numbersb'', Punct '','',
      Keyword ''int'', Ident ''sum_valb'', Punct '')'', Punct ''{''],
     [Keyword ''int'', Ident ''left'', Punct ''='', Number 0, Punct '','', Ident ''right'',
      Punct ''='', Ident ''numbersb'', Punct ''.'', Ident ''size'', Punct ''('', Punct '')'',
      Punct ''-'', Number 1, Punct '';''],
     [Keyword ''while'', Punct ''('', Ident ''left'', Punct ''<='', Ident ''right'',
      Punct '')'', Punct ''{''],
     [Keyword ''int'', Ident ''mid'', Punct ''='', Ident ''left'', Punct ''+'', Punct ''('',
      Ident ''right'', Punct ''-'', Ident ''left'', Punct '')'', Punct ''/'', Number 2,
      Punct '';''],
     [Keyword ''if'', Punct ''('', Ident ''numbersb'', Punct ''['', Ident ''mid'', Punct '']'',
      Punct ''=='', Ident ''sum_valb'', Punct '')'', Keyword ''return'', Ident ''mid'',
      Punct '';''],
     [Keyword ''if'', Punct ''('', Ident ''numbersb'', Punct ''['', Ident ''mid'', Punct '']'',
      Punct ''<'', Ident ''sum_valb'', Punct '')'', Ident ''left'', Punct ''='', Ident ''mid'',
      Punct ''+'', Number 1, Punct '';''],
     [Keyword ''else'', Ident ''right'', Punct ''='', Ident ''mid'', Punct ''-'', Number 1,
      Punct '';''],
     [Punct ''}''],
     [Keyword ''return'', Punct ''-'', Number 1, Punct '';''],
     [Punct ''}'']]"

definition student016_clone3 :: "token list list" where
  "student016_clone3 =
    [[Keyword ''int'', Ident ''solvej_clonea'', Punct ''('', Ident ''vector'', Punct ''<'',
      Keyword ''int'', Punct ''>'', Punct ''&'', Ident ''numbersc'', Punct '','',
      Keyword ''int'', Ident ''sum_valc'', Punct '')'', Punct ''{''],
     [Keyword ''int'', Ident ''left'', Punct ''='', Number 0, Punct '','', Ident ''right'',
      Punct ''='', Ident ''numbersc'', Punct ''.'', Ident ''size'', Punct ''('', Punct '')'',
      Punct ''-'', Number 1, Punct '';''],
     [Keyword ''while'', Punct ''('', Ident ''left'', Punct ''<='', Ident ''right'',
      Punct '')'', Punct ''{''],
     [Keyword ''int'', Ident ''mid'', Punct ''='', Ident ''left'', Punct ''+'', Punct ''('',
      Ident ''right'', Punct ''-'', Ident ''left'', Punct '')'', Punct ''/'', Number 2,
      Punct '';''],
     [Keyword ''if'', Punct ''('', Ident ''numbersc'', Punct ''['', Ident ''mid'', Punct '']'',
      Punct ''=='', Ident ''sum_valc'', Punct '')'', Keyword ''return'', Ident ''mid'',
      Punct '';''],
     [Keyword ''if'', Punct ''('', Ident ''numbersc'', Punct ''['', Ident ''mid'', Punct '']'',
      Punct ''<'', Ident ''sum_valc'', Punct '')'', Ident ''left'', Punct ''='', Ident ''mid'',
      Punct ''+'', Number 1, Punct '';''],
     [Keyword ''else'', Ident ''right'', Punct ''='', Ident ''mid'', Punct ''-'', Number 1,
      Punct '';''],
     [Punct ''}''],
     [Keyword ''return'', Punct ''-'', Number 1, Punct '';''],
     [Punct ''}'']]"

definition student018 :: "token list list" where
  "student018 =
    [[Keyword ''int'', Ident ''solvekqv'', Punct ''('', Ident ''vector'', Punct ''<'',
      Keyword ''int'', Punct ''>'', Punct ''&'', Ident ''vec'', Punct '','', Keyword ''int'',
      Ident ''target'', Punct '')'', Punct ''{''],
     [Keyword ''int'', Ident ''left'', Punct ''='', Number 0, Punct '','', Ident ''right'',
      Punct ''='', Ident ''vec'', Punct ''.'', Ident ''size'', Punct ''('', Punct '')'',
      Punct ''-'', Number 1, Punct '';''],
     [Keyword ''while'', Punct ''('', Ident ''left'', Punct ''<='', Ident ''right'',
      Punct '')'', Punct ''{''],
     [Keyword ''int'', Ident ''mid'', Punct ''='', Ident ''left'', Punct ''+'', Punct ''('',
      Ident ''right'', Punct ''-'', Ident ''left'', Punct '')'', Punct ''/'', Number 2,
      Punct '';''],
     [Keyword ''if'', Punct ''('', Ident ''vec'', Punct ''['', Ident ''mid'', Punct '']'',
      Punct ''=='', Ident ''target'', Punct '')'', Keyword ''return'', Ident ''mid'',
      Punct '';''],
     [Keyword ''if'', Punct ''('', Ident ''vec'', Punct ''['', Ident ''mid'', Punct '']'',
      Punct ''<'', Ident ''target'', Punct '')'', Ident ''left'', Punct ''='', Ident ''mid'',
      Punct ''+'', Number 1, Punct '';''],
     [Keyword ''else'', Ident ''right'', Punct ''='', Ident ''mid'', Punct ''-'', Number 1,
      Punct '';''],
     [Punct ''}''],
     [Keyword ''return'', Punct ''-'', Number 1, Punct '';''],
     [Punct ''}'']]"

definition student018_clone1 :: "token list list" where
  "student018_clone1 =
    [[Keyword ''int'', Ident ''solvekqv_clonep'', Punct ''('', Ident ''vector'', Punct ''<'',
      Keyword ''int'', Punct ''>'', Punct ''&'', Ident ''veca'', Punct '','', Keyword ''int'',
      Ident ''targeta'', Punct '')'', Punct ''{''],
     [Keyword ''int'', Ident ''left'', Punct ''='', Number 0, Punct '','', Ident ''right'',
      Punct ''='', Ident ''veca'', Punct ''.'', Ident ''size'', Punct ''('', Punct '')'',
      Punct ''-'', Number 1, Punct '';''],
     [Keyword ''while'', Punct ''('', Ident ''left'', Punct ''<='', Ident ''right'',
      Punct '')'', Punct ''{''],
     [Keyword ''int'', Ident ''mid'', Punct ''='', Ident ''left'', Punct ''+'', Punct ''('',
      Ident ''right'', Punct ''-'', Ident ''left'', Punct '')'', Punct ''/'', Number 2,
      Punct '';''],
     [Keyword ''if'', Punct ''('', Ident ''veca'', Punct ''['', Ident ''mid'', Punct '']'',
      Punct ''=='', Ident ''targeta'', Punct '')'', Keyword ''return'', Ident ''mid'',
      Punct '';''],
     [Keyword ''if'', Punct ''('', Ident ''veca'', Punct ''['', Ident ''mid'', Punct '']'',
      Punct ''<'', Ident ''targeta'', Punct '')'', Ident ''left'', Punct ''='', Ident ''mid'',
      Punct ''+'', Number 1, Punct '';''],
     [Keyword ''else'', Ident ''right'', Punct ''='', Ident ''mid'', Punct ''-'', Number 1,
      Punct '';''],
     [Punct ''}''],
     [Keyword ''return'', Punct ''-'', Number 1, Punct '';''],
     [Punct ''}'']]"

definition student020_clone1 :: "token list list" where
  "student020_clone1 =
    [[Keyword ''int'', Ident ''solveqt_clonee'', Punct ''('', Ident ''vector'', Punct ''<'',
      Keyword ''int'', Punct ''>'', Punct ''&'', Ident ''lista'', Punct '','', Keyword ''int'',
      Ident ''targeta'', Punct '')'', Punct ''{''],
     [Keyword ''int'', Ident ''left'', Punct ''='', Number 0, Punct '','', Ident ''right'',
      Punct ''='', Ident ''lista'', Punct ''.'', Ident ''size'', Punct ''('', Punct '')'',
      Punct ''-'', Number 1, Punct '';''],
     [Keyword ''while'', Punct ''('', Ident ''left'', Punct ''<='', Ident ''right'',
      Punct '')'', Punct ''{''],
     [Keyword ''int'', Ident ''mid'', Punct ''='', Ident ''left'', Punct ''+'', Punct ''('',
      Ident ''right'', Punct ''-'', Ident ''left'', Punct '')'', Punct ''/'', Number 2,
      Punct '';''],
     [Keyword ''if'', Punct ''('', Ident ''lista'', Punct ''['', Ident ''mid'', Punct '']'',
      Punct ''=='', Ident ''targeta'', Punct '')'', Keyword ''return'', Ident ''mid'',
      Punct '';''],
     [Keyword ''if'', Punct ''('', Ident ''lista'', Punct ''['', Ident ''mid'', Punct '']'',
      Punct ''<'', Ident ''targeta'', Punct '')'', Ident ''left'', Punct ''='', Ident ''mid'',
      Punct ''+'', Number 1, Punct '';''],
     [Keyword ''else'', Ident ''right'', Punct ''='', Ident ''mid'', Punct ''-'', Number 1,
      Punct '';''],
     [Punct ''}''],
     [Keyword ''return'', Punct ''-'', Number 1, Punct '';''],
     [Punct ''}'']]"

definition student020_clone3 :: "token list list" where
  "student020_clone3 =
    [[Keyword ''int'', Ident ''solveqt_cloneipk'', Punct ''('', Ident ''vector'', Punct ''<'',
      Keyword ''int'', Punct ''>'', Punct ''&'', Ident ''listc'', Punct '','', Keyword ''int'',
      Ident ''targetc'', Punct '')'', Punct ''{''],
     [Keyword ''int'', Ident ''left'', Punct ''='', Number 0, Punct '','', Ident ''right'',
      Punct ''='', Ident ''listc'', Punct ''.'', Ident ''size'', Punct ''('', Punct '')'',
      Punct ''-'', Number 1, Punct '';''],
     [Keyword ''while'', Punct ''('', Ident ''left'', Punct ''<='', Ident ''right'',
      Punct '')'', Punct ''{''],
     [Keyword ''int'', Ident ''mid'', Punct ''='', Ident ''left'', Punct ''+'', Punct ''('',
      Ident ''right'', Punct ''-'', Ident ''left'', Punct '')'', Punct ''/'', Number 2,
      Punct '';''],
     [Keyword ''if'', Punct ''('', Ident ''listc'', Punct ''['', Ident ''mid'', Punct '']'',
      Punct ''=='', Ident ''targetc'', Punct '')'', Keyword ''return'', Ident ''mid'',
      Punct '';''],
     [Keyword ''if'', Punct ''('', Ident ''listc'', Punct ''['', Ident ''mid'', Punct '']'',
      Punct ''<'', Ident ''targetc'', Punct '')'', Ident ''left'', Punct ''='', Ident ''mid'',
      Punct ''+'', Number 1, Punct '';''],
     [Keyword ''else'', Ident ''right'', Punct ''='', Ident ''mid'', Punct ''-'', Number 1,
      Punct '';''],
     [Punct ''}''],
     [Keyword ''return'', Punct ''-'', Number 1, Punct '';''],
     [Punct ''}'']]"

definition student021_clone1 :: "token list list" where
  "student021_clone1 =
    [[Keyword ''int'', Ident ''solveex_clonea'', Punct ''('', Ident ''vector'', Punct ''<'',
      Keyword ''int'', Punct ''>'', Punct ''&'', Ident ''numbersa'', Punct '','',
      Keyword ''int'', Ident ''goala'', Punct '')'', Punct ''{''],
     [Keyword ''while'', Punct ''('', Ident ''left'', Punct ''<='', Ident ''right'',
      Punct '')'', Punct ''{''],
     [Keyword ''int'', Ident ''left'', Punct ''='', Number 0, Punct '','', Ident ''right'',
      Punct ''='', Ident ''numbersa'', Punct ''.'', Ident ''size'', Punct ''('', Punct '')'',
      Punct ''-'', Number 1, Punct '';''],
     [Keyword ''int'', Ident ''mid'', Punct ''='', Ident ''left'', Punct ''+'', Punct ''('',
      Ident ''right'', Punct ''-'', Ident ''left'', Punct '')'', Punct ''/'', Number 2,
      Punct '';''],
     [Punct ''}''],
     [Keyword ''else'', Ident ''right'', Punct ''='', Ident ''mid'', Punct ''-'', Number 1,
      Punct '';''],
     [Keyword ''if'', Punct ''('', Ident ''numbersa'', Punct ''['', Ident ''mid'', Punct '']'',
      Punct ''=='', Ident ''goala'', Punct '')'', Keyword ''return'', Ident ''mid'', Punct '';''],
     [Keyword ''if'', Punct ''('', Ident ''numbersa'', Punct ''['', Ident ''mid'', Punct '']'',
      Punct ''<'', Ident ''goala'', Punct '')'', Ident ''left'', Punct ''='', Ident ''mid'',
      Punct ''+'', Number 1, Punct '';''],
     [Keyword ''return'', Punct ''-'', Number 1, Punct '';''],
     [Punct ''}'']]"

definition student021_clone2 :: "token list list" where
  "student021_clone2 =
    [[Keyword ''int'', Ident ''solveex_clonejul'', Punct ''('', Ident ''vector'', Punct ''<'',
      Keyword ''int'', Punct ''>'', Punct ''&'', Ident ''numbersb'', Punct '','',
      Keyword ''int'', Ident ''goalb'', Punct '')'', Punct ''{''],
     [Keyword ''int'', Ident ''left'', Punct ''='', Number 0, Punct '','', Ident ''right'',
      Punct ''='', Ident ''numbersb'', Punct ''.'', Ident ''size'', Punct ''('', Punct '')'',
      Punct ''-'', Number 1, Punct '';''],
     [Keyword ''while'', Punct ''('', Ident ''left'', Punct ''<='', Ident ''right'',
      Punct '')'', Punct ''{''],
     [Keyword ''int'', Ident ''mid'', Punct ''='', Ident ''left'', Punct ''+'', Punct ''('',
      Ident ''right'', Punct ''-'', Ident ''left'', Punct '')'', Punct ''/'', Number 2,
      Punct '';''],
     [Keyword ''if'', Punct ''('', Ident ''numbersb'', Punct ''['', Ident ''mid'', Punct '']'',
      Punct ''=='', Ident ''goalb'', Punct '')'', Keyword ''return'', Ident ''mid'', Punct '';''],
     [Keyword ''if'', Punct ''('', Ident ''numbersb'', Punct ''['', Ident ''mid'', Punct '']'',
      Punct ''<'', Ident ''goalb'', Punct '')'', Ident ''left'', Punct ''='', Ident ''mid'',
      Punct ''+'', Number 1, Punct '';''],
     [Keyword ''else'', Ident ''right'', Punct ''='', Ident ''mid'', Punct ''-'', Number 1,
      Punct '';''],
     [Punct ''}''],
     [Keyword ''return'', Punct ''-'', Number 1, Punct '';''],
     [Punct ''}'']]"

definition student021_clone3 :: "token list list" where
  "student021_clone3 =
    [[Keyword ''int'', Ident ''solveex_clonena'', Punct ''('', Ident ''vector'', Punct ''<'',
      Keyword ''int'', Punct ''>'', Punct ''&'', Ident ''numbersc'', Punct '','',
      Keyword ''int'', Ident ''goalc'', Punct '')'', Punct ''{''],
     [Keyword ''int'', Ident ''left'', Punct ''='', Number 0, Punct '','', Ident ''right'',
      Punct ''='', Ident ''numbersc'', Punct ''.'', Ident ''size'', Punct ''('', Punct '')'',
      Punct ''-'', Number 1, Punct '';''],
     [Keyword ''while'', Punct ''('', Ident ''left'', Punct ''<='', Ident ''right'',
      Punct '')'', Punct ''{''],
     [Keyword ''int'', Ident ''mid'', Punct ''='', Ident ''left'', Punct ''+'', Punct ''('',
      Ident ''right'', Punct ''-'', Ident ''left'', Punct '')'', Punct ''/'', Number 2,
      Punct '';''],
     [Keyword ''if'', Punct ''('', Ident ''numbersc'', Punct ''['', Ident ''mid'', Punct '']'',
      Punct ''=='', Ident ''goalc'', Punct '')'', Keyword ''return'', Ident ''mid'', Punct '';''],
     [Keyword ''if'', Punct ''('', Ident ''numbersc'', Punct ''['', Ident ''mid'', Punct '']'',
      Punct ''<'', Ident ''goalc'', Punct '')'', Ident ''left'', Punct ''='', Ident ''mid'',
      Punct ''+'', Number 1, Punct '';''],
     [Keyword ''else'', Ident ''right'', Punct ''='', Ident ''mid'', Punct ''-'', Number 1,
      Punct '';''],
     [Punct ''}''],
     [Keyword ''return'', Punct ''-'', Number 1, Punct '';''],
     [Punct ''}'']]"

definition student022 :: "token list list" where
  "student022 =
    [[Keyword ''int'', Ident ''solvecbt'', Punct ''('', Ident ''vector'', Punct ''<'',
      Keyword ''int'', Punct ''>'', Punct ''&'', Ident ''numbers'', Punct '','',
      Keyword ''int'', Ident ''target'', Punct '')'', Punct ''{''],
     [Keyword ''int'', Ident ''left'', Punct ''='', Number 0, Punct '','', Ident ''right'',
      Punct ''='', Ident ''numbers'', Punct ''.'', Ident ''size'', Punct ''('', Punct '')'',
      Punct ''-'', Number 1, Punct '';''],
     [Keyword ''while'', Punct ''('', Ident ''left'', Punct ''<='', Ident ''right'',
      Punct '')'', Punct ''{''],
     [Keyword ''int'', Ident ''mid'', Punct ''='', Ident ''left'', Punct ''+'', Punct ''('',
      Ident ''right'', Punct ''-'', Ident ''left'', Punct '')'', Punct ''/'', Number 2,
      Punct '';''],
     [Keyword ''if'', Punct ''('', Ident ''numbers'', Punct ''['', Ident ''mid'', Punct '']'',
      Punct ''=='', Ident ''target'', Punct '')'', Keyword ''return'', Ident ''mid'',
      Punct '';''],
     [Keyword ''if'', Punct ''('', Ident ''numbers'', Punct ''['', Ident ''mid'', Punct '']'',
      Punct ''<'', Ident ''target'', Punct '')'', Ident ''left'', Punct ''='', Ident ''mid'',
      Punct ''+'', Number 1, Punct '';''],
     [Keyword ''else'', Ident ''right'', Punct ''='', Ident ''mid'', Punct ''-'', Number 1,
      Punct '';''],
     [Punct ''}''],
     [Keyword ''return'', Punct ''-'', Number 1, Punct '';''],
     [Punct ''}'']]"

definition student022_clone1 :: "token list list" where
  "student022_clone1 =
    [[Keyword ''int'', Ident ''solvecbt_clonel'', Punct ''('', Ident ''vector'', Punct ''<'',
      Keyword ''int'', Punct ''>'', Punct ''&'', Ident ''numbersa'', Punct '','',
      Keyword ''int'', Ident ''targeta'', Punct '')'', Punct ''{''],
     [Keyword ''int'', Ident ''left'', Punct ''='', Number 0, Punct '','', Ident ''right'',
      Punct ''='', Ident ''numbersa'', Punct ''.'', Ident ''size'', Punct ''('', Punct '')'',
      Punct ''-'', Number 1, Punct '';''],
     [Keyword ''while'', Punct ''('', Ident ''left'', Punct ''<='', Ident ''right'',
      Punct '')'', Punct ''{''],
     [Keyword ''int'', Ident ''mid'', Punct ''='', Ident ''left'', Punct ''+'', Punct ''('',
      Ident ''right'', Punct ''-'', Ident ''left'', Punct '')'', Punct ''/'', Number 2,
      Punct '';''],
     [Keyword ''if'', Punct ''('', Ident ''numbersa'', Punct ''['', Ident ''mid'', Punct '']'',
      Punct ''=='', Ident ''targeta'', Punct '')'', Keyword ''return'', Ident ''mid'',
      Punct '';''],
     [Keyword ''if'', Punct ''('', Ident ''numbersa'', Punct ''['', Ident ''mid'', Punct '']'',
      Punct ''<'', Ident ''targeta'', Punct '')'', Ident ''left'', Punct ''='', Ident ''mid'',
      Punct ''+'', Number 1, Punct '';''],
     [Keyword ''else'', Ident ''right'', Punct ''='', Ident ''mid'', Punct ''-'', Number 1,
      Punct '';''],
     [Punct ''}''],
     [Keyword ''return'', Punct ''-'', Number 1, Punct '';''],
     [Punct ''}'']]"

definition student022_clone3 :: "token list list" where
  "student022_clone3 =
    [[Keyword ''int'', Ident ''solvecbt_cloneman'', Punct ''('', Ident ''vector'', Punct ''<'',
      Keyword ''int'', Punct ''>'', Punct ''&'', Ident ''numbersc'', Punct '','',
      Keyword ''int'', Ident ''targetc'', Punct '')'', Punct ''{''],
     [Keyword ''int'', Ident ''left'', Punct ''='', Number 0, Punct '','', Ident ''right'',
      Punct ''='', Ident ''numbersc'', Punct ''.'', Ident ''size'', Punct ''('', Punct '')'',
      Punct ''-'', Number 1, Punct '';''],
     [Keyword ''while'', Punct ''('', Ident ''left'', Punct ''<='', Ident ''right'',
      Punct '')'', Punct ''{''],
     [Keyword ''int'', Ident ''mid'', Punct ''='', Ident ''left'', Punct ''+'', Punct ''('',
      Ident ''right'', Punct ''-'', Ident ''left'', Punct '')'', Punct ''/'', Number 2,
      Punct '';''],
     [Keyword ''if'', Punct ''('', Ident ''numbersc'', Punct ''['', Ident ''mid'', Punct '']'',
      Punct ''=='', Ident ''targetc'', Punct '')'', Keyword ''return'', Ident ''mid'',
      Punct '';''],
     [Keyword ''if'', Punct ''('', Ident ''numbersc'', Punct ''['', Ident ''mid'', Punct '']'',
      Punct ''<'', Ident ''targetc'', Punct '')'', Ident ''left'', Punct ''='', Ident ''mid'',
      Punct ''+'', Number 1, Punct '';''],
     [Keyword ''else'', Ident ''right'', Punct ''='', Ident ''mid'', Punct ''-'', Number 1,
      Punct '';''],
     [Punct ''}''],
     [Keyword ''return'', Punct ''-'', Number 1, Punct '';''],
     [Punct ''}'']]"

definition student023 :: "token list list" where
  "student023 =
    [[Keyword ''int'', Ident ''solvefe'', Punct ''('', Ident ''vector'', Punct ''<'',
      Keyword ''int'', Punct ''>'', Punct ''&'', Ident ''arr'', Punct '','', Keyword ''int'',
      Ident ''threshold'', Punct '')'', Punct ''{''],
     [Keyword ''int'', Ident ''left'', Punct ''='', Number 0, Punct '','', Ident ''right'',
      Punct ''='', Ident ''arr'', Punct ''.'', Ident ''size'', Punct ''('', Punct '')'',
      Punct ''-'', Number 1, Punct '';''],
     [Keyword ''while'', Punct ''('', Ident ''left'', Punct ''<='', Ident ''right'',
      Punct '')'', Punct ''{''],
     [Keyword ''int'', Ident ''mid'', Punct ''='', Ident ''left'', Punct ''+'', Punct ''('',
      Ident ''right'', Punct ''-'', Ident ''left'', Punct '')'', Punct ''/'', Number 2,
      Punct '';''],
     [Keyword ''if'', Punct ''('', Ident ''arr'', Punct ''['', Ident ''mid'', Punct '']'',
      Punct ''=='', Ident ''threshold'', Punct '')'', Keyword ''return'', Ident ''mid'',
      Punct '';''],
     [Keyword ''if'', Punct ''('', Ident ''arr'', Punct ''['', Ident ''mid'', Punct '']'',
      Punct ''<'', Ident ''threshold'', Punct '')'', Ident ''left'', Punct ''='',
      Ident ''mid'', Punct ''+'', Number 1, Punct '';''],
     [Keyword ''else'', Ident ''right'', Punct ''='', Ident ''mid'', Punct ''-'', Number 1,
      Punct '';''],
     [Punct ''}''],
     [Keyword ''return'', Punct ''-'', Number 1, Punct '';''],
     [Punct ''}'']]"

definition student026_clone1 :: "token list list" where
  "student026_clone1 =
    [[Keyword ''int'', Ident ''solvesyb_clonel'', Punct ''('', Ident ''vector'', Punct ''<'',
      Keyword ''int'', Punct ''>'', Punct ''&'', Ident ''numbersa'', Punct '','',
      Keyword ''int'', Ident ''goala'', Punct '')'', Punct ''{''],
     [Keyword ''int'', Ident ''left'', Punct ''='', Number 0, Punct '','', Ident ''right'',
      Punct ''='', Ident ''numbersa'', Punct ''.'', Ident ''size'', Punct ''('', Punct '')'',
      Punct ''-'', Number 1, Punct '';''],
     [Keyword ''while'', Punct ''('', Ident ''left'', Punct ''<='', Ident ''right'',
      Punct '')'', Punct ''{''],
     [Keyword ''int'', Ident ''mid'', Punct ''='', Ident ''left'', Punct ''+'', Punct ''('',
      Ident ''right'', Punct ''-'', Ident ''left'', Punct '')'', Punct ''/'', Number 2,
      Punct '';''],
     [Keyword ''if'', Punct ''('', Ident ''numbersa'', Punct ''['', Ident ''mid'', Punct '']'',
      Punct ''=='', Ident ''goala'', Punct '')'', Keyword ''return'', Ident ''mid'', Punct '';''],
     [Keyword ''if'', Punct ''('', Ident ''numbersa'', Punct ''['', Ident ''mid'', Punct '']'',
      Punct ''<'', Ident ''goala'', Punct '')'', Ident ''left'', Punct ''='', Ident ''mid'',
      Punct ''+'', Number 1, Punct '';''],
     [Keyword ''else'', Ident ''right'', Punct ''='', Ident ''mid'', Punct ''-'', Number 1,
      Punct '';''],
     [Punct ''}''],
     [Keyword ''return'', Punct ''-'', Number 1, Punct '';''],
     [Punct ''}'']]"

definition student027_clone2 :: "token list list" where
  "student027_clone2 =
    [[Keyword ''int'', Ident ''solvecd_clonei'', Punct ''('', Ident ''vector'', Punct ''<'',
      Keyword ''int'', Punct ''>'', Punct ''&'', Ident ''datasetb'', Punct '','',
      Keyword ''int'', Ident ''goalb'', Punct '')'', Punct ''{''],
     [Keyword ''int'', Ident ''left'', Punct ''='', Number 0, Punct '','', Ident ''right'',
      Punct ''='', Ident ''datasetb'', Punct ''.'', Ident ''size'', Punct ''('', Punct '')'',
      Punct ''-'', Number 1, Punct '';''],
     [Keyword ''while'', Punct ''('', Ident ''left'', Punct ''<='', Ident ''right'',
      Punct '')'', Punct ''{''],
     [Keyword ''int'', Ident ''mid'', Punct ''='', Ident ''left'', Punct ''+'', Punct ''('',
      Ident ''right'', Punct ''-'', Ident ''left'', Punct '')'', Punct ''/'', Number 2,
      Punct '';''],
     [Keyword ''if'', Punct ''('', Ident ''datasetb'', Punct ''['', Ident ''mid'', Punct '']'',
      Punct ''=='', Ident ''goalb'', Punct '')'', Keyword ''return'', Ident ''mid'', Punct '';''],
     [Keyword ''if'', Punct ''('', Ident ''datasetb'', Punct ''['', Ident ''mid'', Punct '']'',
      Punct ''<'', Ident ''goalb'', Punct '')'', Ident ''left'', Punct ''='', Ident ''mid'',
      Punct ''+'', Number 1, Punct '';''],
     [Keyword ''else'', Ident ''right'', Punct ''='', Ident ''mid'', Punct ''-'', Number 1,
      Punct '';''],
     [Punct ''}''],
     [Keyword ''return'', Punct ''-'', Number 1, Punct '';''],
     [Punct ''}'']]"

definition student027_clone3 :: "token list list" where
  "student027_clone3 =
    [[Keyword ''int'', Ident ''solvecd_clonenbz'', Punct ''('', Ident ''vector'', Punct ''<'',
      Keyword ''int'', Punct ''>'', Punct ''&'', Ident ''datasetc'', Punct '','',
      Keyword ''int'', Ident ''goalc'', Punct '')'', Punct ''{''],
     [Keyword ''int'', Ident ''left'', Punct ''='', Number 0, Punct '','', Ident ''right'',
      Punct ''='', Ident ''datasetc'', Punct ''.'', Ident ''size'', Punct ''('', Punct '')'',
      Punct ''-'', Number 1, Punct '';''],
     [Keyword ''while'', Punct ''('', Ident ''left'', Punct ''<='', Ident ''right'',
      Punct '')'', Punct ''{''],
     [Keyword ''int'', Ident ''mid'', Punct ''='', Ident ''left'', Punct ''+'', Punct ''('',
      Ident ''right'', Punct ''-'', Ident ''left'', Punct '')'', Punct ''/'', Number 2,
      Punct '';''],
     [Keyword ''if'', Punct ''('', Ident ''datasetc'', Punct ''['', Ident ''mid'', Punct '']'',
      Punct ''=='', Ident ''goalc'', Punct '')'', Keyword ''return'', Ident ''mid'', Punct '';''],
     [Keyword ''if'', Punct ''('', Ident ''datasetc'', Punct ''['', Ident ''mid'', Punct '']'',
      Punct ''<'', Ident ''goalc'', Punct '')'', Ident ''left'', Punct ''='', Ident ''mid'',
      Punct ''+'', Number 1, Punct '';''],
     [Keyword ''else'', Ident ''right'', Punct ''='', Ident ''mid'', Punct ''-'', Number 1,
      Punct '';''],
     [Punct ''}''],
     [Keyword ''return'', Punct ''-'', Number 1, Punct '';''],
     [Punct ''}'']]"

definition student028_clone3 :: "token list list" where
  "student028_clone3 =
    [[Keyword ''int'', Ident ''solvefr_clonectz'', Punct ''('', Ident ''vector'', Punct ''<'',
      Keyword ''int'', Punct ''>'', Punct ''&'', Ident ''numbersc'', Punct '','',
      Keyword ''int'', Ident ''thresholdc'', Punct '')'', Punct ''{''],
     [Keyword ''int'', Ident ''left'', Punct ''='', Number 0, Punct '','', Ident ''right'',
      Punct ''='', Ident ''numbersc'', Punct ''.'', Ident ''size'', Punct ''('', Punct '')'',
      Punct ''-'', Number 1, Punct '';''],
     [Keyword ''while'', Punct ''('', Ident ''left'', Punct ''<='', Ident ''right'',
      Punct '')'', Punct ''{''],
     [Keyword ''int'', Ident ''mid'', Punct ''='', Ident ''left'', Punct ''+'', Punct ''('',
      Ident ''right'', Punct ''-'', Ident ''left'', Punct '')'', Punct ''/'', Number 2,
      Punct '';''],
     [Keyword ''if'', Punct ''('', Ident ''numbersc'', Punct ''['', Ident ''mid'', Punct '']'',
      Punct ''=='', Ident ''thresholdc'', Punct '')'', Keyword ''return'', Ident ''mid'',
      Punct '';''],
     [Keyword ''if'', Punct ''('', Ident ''numbersc'', Punct ''['', Ident ''mid'', Punct '']'',
      Punct ''<'', Ident ''thresholdc'', Punct '')'', Ident ''left'', Punct ''='',
      Ident ''mid'', Punct ''+'', Number 1, Punct '';''],
     [Keyword ''else'', Ident ''right'', Punct ''='', Ident ''mid'', Punct ''-'', Number 1,
      Punct '';''],
     [Punct ''}''],
     [Keyword ''return'', Punct ''-'', Number 1, Punct '';''],
     [Punct ''}'']]"

definition student030_clone1 :: "token list list" where
  "student030_clone1 =
    [[Keyword ''int'', Ident ''solveu_clonefh'', Punct ''('', Ident ''vector'', Punct ''<'',
      Keyword ''int'', Punct ''>'', Punct ''&'', Ident ''numbersa'', Punct '','',
      Keyword ''int'', Ident ''thresholda'', Punct '')'', Punct ''{''],
     [Keyword ''while'', Punct ''('', Ident ''left'', Punct ''<='', Ident ''right'',
      Punct '')'', Punct ''{''],
     [Keyword ''if'', Punct ''('', Ident ''numbersa'', Punct ''['', Ident ''mid'', Punct '']'',
      Punct ''=='', Ident ''thresholda'', Punct '')'', Keyword ''return'', Ident ''mid'',
      Punct '';''],
     [Keyword ''int'', Ident ''mid'', Punct ''='', Ident ''left'', Punct ''+'', Punct ''('',
      Ident ''right'', Punct ''-'', Ident ''left'', Punct '')'', Punct ''/'', Number 2,
      Punct '';''],
     [Keyword ''int'', Ident ''left'', Punct ''='', Number 0, Punct '','', Ident ''right'',
      Punct ''='', Ident ''numbersa'', Punct ''.'', Ident ''size'', Punct ''('', Punct '')'',
      Punct ''-'', Number 1, Punct '';''],
     [Keyword ''if'', Punct ''('', Ident ''numbersa'', Punct ''['', Ident ''mid'', Punct '']'',
      Punct ''<'', Ident ''thresholda'', Punct '')'', Ident ''left'', Punct ''='',
      Ident ''mid'', Punct ''+'', Number 1, Punct '';''],
     [Keyword ''else'', Ident ''right'', Punct ''='', Ident ''mid'', Punct ''-'', Number 1,
      Punct '';''],
     [Punct ''}''],
     [Keyword ''return'', Punct ''-'', Number 1, Punct '';''],
     [Punct ''}'']]"

definition student030_clone2 :: "token list list" where
  "student030_clone2 =
    [[Keyword ''int'', Ident ''solveu_clonewdl'', Punct ''('', Ident ''vector'', Punct ''<'',
      Keyword ''int'', Punct ''>'', Punct ''&'', Ident ''numbersb'', Punct '','',
      Keyword ''int'', Ident ''thresholdb'', Punct '')'', Punct ''{''],
     [Keyword ''int'', Ident ''left'', Punct ''='', Number 0, Punct '','', Ident ''right'',
      Punct ''='', Ident ''numbersb'', Punct ''.'', Ident ''size'', Punct ''('', Punct '')'',
      Punct ''-'', Number 1, Punct '';''],
     [Keyword ''while'', Punct ''('', Ident ''left'', Punct ''<='', Ident ''right'',
      Punct '')'', Punct ''{''],
     [Keyword ''int'', Ident ''mid'', Punct ''='', Ident ''left'', Punct ''+'', Punct ''('',
      Ident ''right'', Punct ''-'', Ident ''left'', Punct '')'', Punct ''/'', Number 2,
      Punct '';''],
     [Keyword ''if'', Punct ''('', Ident ''numbersb'', Punct ''['', Ident ''mid'', Punct '']'',
      Punct ''=='', Ident ''thresholdb'', Punct '')'', Keyword ''return'', Ident ''mid'',
      Punct '';''],
     [Keyword ''if'', Punct ''('', Ident ''numbersb'', Punct ''['', Ident ''mid'', Punct '']'',
      Punct ''<'', Ident ''thresholdb'', Punct '')'', Ident ''left'', Punct ''='',
      Ident ''mid'', Punct ''+'', Number 1, Punct '';''],
     [Keyword ''else'', Ident ''right'', Punct ''='', Ident ''mid'', Punct ''-'', Number 1,
      Punct '';''],
     [Punct ''}''],
     [Keyword ''return'', Punct ''-'', Number 1, Punct '';''],
     [Punct ''}'']]"

definition student031 :: "token list list" where
  "student031 =
    [[Keyword ''int'', Ident ''solver'', Punct ''('', Ident ''vector'', Punct ''<'',
      Keyword ''int'', Punct ''>'', Punct ''&'', Ident ''list'', Punct '','', Keyword ''int'',
      Ident ''dest'', Punct '')'', Punct ''{''],
     [Keyword ''int'', Ident ''left'', Punct ''='', Number 0, Punct '','', Ident ''right'',
      Punct ''='', Ident ''list'', Punct ''.'', Ident ''size'', Punct ''('', Punct '')'',
      Punct ''-'', Number 1, Punct '';''],
     [Keyword ''while'', Punct ''('', Ident ''left'', Punct ''<='', Ident ''right'',
      Punct '')'', Punct ''{''],
     [Keyword ''int'', Ident ''mid'', Punct ''='', Ident ''left'', Punct ''+'', Punct ''('',
      Ident ''right'', Punct ''-'', Ident ''left'', Punct '')'', Punct ''/'', Number 2,
      Punct '';''],
     [Keyword ''if'', Punct ''('', Ident ''list'', Punct ''['', Ident ''mid'', Punct '']'',
      Punct ''=='', Ident ''dest'', Punct '')'', Keyword ''return'', Ident ''mid'', Punct '';''],
     [Keyword ''if'', Punct ''('', Ident ''list'', Punct ''['', Ident ''mid'', Punct '']'',
      Punct ''<'', Ident ''dest'', Punct '')'', Ident ''left'', Punct ''='', Ident ''mid'',
      Punct ''+'', Number 1, Punct '';''],
     [Keyword ''else'', Ident ''right'', Punct ''='', Ident ''mid'', Punct ''-'', Number 1,
      Punct '';''],
     [Punct ''}''],
     [Keyword ''return'', Punct ''-'', Number 1, Punct '';''],
     [Punct ''}'']]"

definition student032 :: "token list list" where
  "student032 =
    [[Keyword ''int'', Ident ''solvefth'', Punct ''('', Ident ''vector'', Punct ''<'',
      Keyword ''int'', Punct ''>'', Punct ''&'', Ident ''list'', Punct '','', Keyword ''int'',
      Ident ''sum_val'', Punct '')'', Punct ''{''],
     [Keyword ''int'', Ident ''left'', Punct ''='', Number 0, Punct '','', Ident ''right'',
      Punct ''='', Ident ''list'', Punct ''.'', Ident ''size'', Punct ''('', Punct '')'',
      Punct ''-'', Number 1, Punct '';''],
     [Keyword ''while'', Punct ''('', Ident ''left'', Punct ''<='', Ident ''right'',
      Punct '')'', Punct ''{''],
     [Keyword ''int'', Ident ''mid'', Punct ''='', Ident ''left'', Punct ''+'', Punct ''('',
      Ident ''right'', Punct ''-'', Ident ''left'', Punct '')'', Punct ''/'', Number 2,
      Punct '';''],
     [Keyword ''if'', Punct ''('', Ident ''list'', Punct ''['', Ident ''mid'', Punct '']'',
      Punct ''=='', Ident ''sum_val'', Punct '')'', Keyword ''return'', Ident ''mid'',
      Punct '';''],
     [Keyword ''if'', Punct ''('', Ident ''list'', Punct ''['', Ident ''mid'', Punct '']'',
      Punct ''<'', Ident ''sum_val'', Punct '')'', Ident ''left'', Punct ''='', Ident ''mid'',
      Punct ''+'', Number 1, Punct '';''],
     [Keyword ''else'', Ident ''right'', Punct ''='', Ident ''mid'', Punct ''-'', Number 1,
      Punct '';''],
     [Punct ''}''],
     [Keyword ''return'', Punct ''-'', Number 1, Punct '';''],
     [Punct ''}'']]"

definition student032_clone1 :: "token list list" where
  "student032_clone1 =
    [[Keyword ''int'', Ident ''solvefth_clonefe'', Punct ''('', Ident ''vector'', Punct ''<'',
      Keyword ''int'', Punct ''>'', Punct ''&'', Ident ''lista'', Punct '','', Keyword ''int'',
      Ident ''sum_vala'', Punct '')'', Punct ''{''],
     [Keyword ''int'', Ident ''mid'', Punct ''='', Ident ''left'', Punct ''+'', Punct ''('',
      Ident ''right'', Punct ''-'', Ident ''left'', Punct '')'', Punct ''/'', Number 2,
      Punct '';''],
     [Keyword ''if'', Punct ''('', Ident ''lista'', Punct ''['', Ident ''mid'', Punct '']'',
      Punct ''=='', Ident ''sum_vala'', Punct '')'', Keyword ''return'', Ident ''mid'',
      Punct '';''],
     [Keyword ''int'', Ident ''left'', Punct ''='', Number 0, Punct '','', Ident ''right'',
      Punct ''='', Ident ''lista'', Punct ''.'', Ident ''size'', Punct ''('', Punct '')'',
      Punct ''-'', Number 1, Punct '';''],
     [Keyword ''while'', Punct ''('', Ident ''left'', Punct ''<='', Ident ''right'',
      Punct '')'', Punct ''{''],
     [Keyword ''if'', Punct ''('', Ident ''lista'', Punct ''['', Ident ''mid'', Punct '']'',
      Punct ''<'', Ident ''sum_vala'', Punct '')'', Ident ''left'', Punct ''='', Ident ''mid'',
      Punct ''+'', Number 1, Punct '';''],
     [Keyword ''else'', Ident ''right'', Punct ''='', Ident ''mid'', Punct ''-'', Number 1,
      Punct '';''],
     [Punct ''}''],
     [Keyword ''return'', Punct ''-'', Number 1, Punct '';''],
     [Punct ''}'']]"

definition student032_clone2 :: "token list list" where
  "student032_clone2 =
    [[Keyword ''int'', Ident ''solvefth_clonejeb'', Punct ''('', Ident ''vector'', Punct ''<'',
      Keyword ''int'', Punct ''>'', Punct ''&'', Ident ''listb'', Punct '','', Keyword ''int'',
      Ident ''sum_valb'', Punct '')'', Punct ''{''],
     [Keyword ''int'', Ident ''left'', Punct ''='', Number 0, Punct '','', Ident ''right'',
      Punct ''='', Ident ''listb'', Punct ''.'', Ident ''size'', Punct ''('', Punct '')'',
      Punct ''-'', Number 1, Punct '';''],
     [Keyword ''while'', Punct ''('', Ident ''left'', Punct ''<='', Ident ''right'',
      Punct '')'', Punct ''{''],
     [Keyword ''int'', Ident ''mid'', Punct ''='', Ident ''left'', Punct ''+'', Punct ''('',
      Ident ''right'', Punct ''-'', Ident ''left'', Punct '')'', Punct ''/'', Number 2,
      Punct '';''],
     [Keyword ''if'', Punct ''('', Ident ''listb'', Punct ''['', Ident ''mid'', Punct '']'',
      Punct ''=='', Ident ''sum_valb'', Punct '')'', Keyword ''return'', Ident ''mid'',
      Punct '';''],
     [Keyword ''if'', Punct ''('', Ident ''listb'', Punct ''['', Ident ''mid'', Punct '']'',
      Punct ''<'', Ident ''sum_valb'', Punct '')'', Ident ''left'', Punct ''='', Ident ''mid'',
      Punct ''+'', Number 1, Punct '';''],
     [Keyword ''else'', Ident ''right'', Punct ''='', Ident ''mid'', Punct ''-'', Number 1,
      Punct '';''],
     [Punct ''}''],
     [Keyword ''return'', Punct ''-'', Number 1, Punct '';''],
     [Punct ''}'']]"

definition student032_clone3 :: "token list list" where
  "student032_clone3 =
    [[Keyword ''int'', Ident ''solvefth_clonedtv'', Punct ''('', Ident ''vector'', Punct ''<'',
      Keyword ''int'', Punct ''>'', Punct ''&'', Ident ''listc'', Punct '','', Keyword ''int'',
      Ident ''sum_valc'', Punct '')'', Punct ''{''],
     [Keyword ''int'', Ident ''left'', Punct ''='', Number 0, Punct '','', Ident ''right'',
      Punct ''='', Ident ''listc'', Punct ''.'', Ident ''size'', Punct ''('', Punct '')'',
      Punct ''-'', Number 1, Punct '';''],
     [Keyword ''while'', Punct ''('', Ident ''left'', Punct ''<='', Ident ''right'',
      Punct '')'', Punct ''{''],
     [Keyword ''int'', Ident ''mid'', Punct ''='', Ident ''left'', Punct ''+'', Punct ''('',
      Ident ''right'', Punct ''-'', Ident ''left'', Punct '')'', Punct ''/'', Number 2,
      Punct '';''],
     [Keyword ''if'', Punct ''('', Ident ''listc'', Punct ''['', Ident ''mid'', Punct '']'',
      Punct ''=='', Ident ''sum_valc'', Punct '')'', Keyword ''return'', Ident ''mid'',
      Punct '';''],
     [Keyword ''if'', Punct ''('', Ident ''listc'', Punct ''['', Ident ''mid'', Punct '']'',
      Punct ''<'', Ident ''sum_valc'', Punct '')'', Ident ''left'', Punct ''='', Ident ''mid'',
      Punct ''+'', Number 1, Punct '';''],
     [Keyword ''else'', Ident ''right'', Punct ''='', Ident ''mid'', Punct ''-'', Number 1,
      Punct '';''],
     [Punct ''}''],
     [Keyword ''return'', Punct ''-'', Number 1, Punct '';''],
     [Punct ''}'']]"

definition student034 :: "token list list" where
  "student034 =
    [[Keyword ''int'', Ident ''solveo'', Punct ''('', Ident ''vector'', Punct ''<'',
      Keyword ''int'', Punct ''>'', Punct ''&'', Ident ''dataset'', Punct '','',
      Keyword ''int'', Ident ''goal'', Punct '')'', Punct ''{''],
     [Keyword ''int'', Ident ''left'', Punct ''='', Number 0, Punct '','', Ident ''right'',
      Punct ''='', Ident ''dataset'', Punct ''.'', Ident ''size'', Punct ''('', Punct '')'',
      Punct ''-'', Number 1, Punct '';''],
     [Keyword ''while'', Punct ''('', Ident ''left'', Punct ''<='', Ident ''right'',
      Punct '')'', Punct ''{''],
     [Keyword ''int'', Ident ''mid'', Punct ''='', Ident ''left'', Punct ''+'', Punct ''('',
      Ident ''right'', Punct ''-'', Ident ''left'', Punct '')'', Punct ''/'', Number 2,
      Punct '';''],
     [Keyword ''if'', Punct ''('', Ident ''dataset'', Punct ''['', Ident ''mid'', Punct '']'',
      Punct ''=='', Ident ''goal'', Punct '')'', Keyword ''return'', Ident ''mid'', Punct '';''],
     [Keyword ''if'', Punct ''('', Ident ''dataset'', Punct ''['', Ident ''mid'', Punct '']'',
      Punct ''<'', Ident ''goal'', Punct '')'', Ident ''left'', Punct ''='', Ident ''mid'',
      Punct ''+'', Number 1, Punct '';''],
     [Keyword ''else'', Ident ''right'', Punct ''='', Ident ''mid'', Punct ''-'', Number 1,
      Punct '';''],
     [Punct ''}''],
     [Keyword ''return'', Punct ''-'', Number 1, Punct '';''],
     [Punct ''}'']]"

definition student035 :: "token list list" where
  "student035 =
    [[Keyword ''int'', Ident ''solved'', Punct ''('', Ident ''vector'', Punct ''<'',
      Keyword ''int'', Punct ''>'', Punct ''&'', Ident ''dataset'', Punct '','',
      Keyword ''int'', Ident ''dest'', Punct '')'', Punct ''{''],
     [Keyword ''int'', Ident ''left'', Punct ''='', Number 0, Punct '','', Ident ''right'',
      Punct ''='', Ident ''dataset'', Punct ''.'', Ident ''size'', Punct ''('', Punct '')'',
      Punct ''-'', Number 1, Punct '';''],
     [Keyword ''while'', Punct ''('', Ident ''left'', Punct ''<='', Ident ''right'',
      Punct '')'', Punct ''{''],
     [Keyword ''int'', Ident ''mid'', Punct ''='', Ident ''left'', Punct ''+'', Punct ''('',
      Ident ''right'', Punct ''-'', Ident ''left'', Punct '')'', Punct ''/'', Number 2,
      Punct '';''],
     [Keyword ''if'', Punct ''('', Ident ''dataset'', Punct ''['', Ident ''mid'', Punct '']'',
      Punct ''=='', Ident ''dest'', Punct '')'', Keyword ''return'', Ident ''mid'', Punct '';''],
     [Keyword ''if'', Punct ''('', Ident ''dataset'', Punct ''['', Ident ''mid'', Punct '']'',
      Punct ''<'', Ident ''dest'', Punct '')'', Ident ''left'', Punct ''='', Ident ''mid'',
      Punct ''+'', Number 1, Punct '';''],
     [Keyword ''else'', Ident ''right'', Punct ''='', Ident ''mid'', Punct ''-'', Number 1,
      Punct '';''],
     [Punct ''}''],
     [Keyword ''return'', Punct ''-'', Number 1, Punct '';''],
     [Punct ''}'']]"

definition student035_clone2 :: "token list list" where
  "student035_clone2 =
    [[Keyword ''int'', Ident ''solved_cloneoi'', Punct ''('', Ident ''vector'', Punct ''<'',
      Keyword ''int'', Punct ''>'', Punct ''&'', Ident ''datasetb'', Punct '','',
      Keyword ''int'', Ident ''destb'', Punct '')'', Punct ''{''],
     [Keyword ''int'', Ident ''left'', Punct ''='', Number 0, Punct '','', Ident ''right'',
      Punct ''='', Ident ''datasetb'', Punct ''.'', Ident ''size'', Punct ''('', Punct '')'',
      Punct ''-'', Number 1, Punct '';''],
     [Keyword ''while'', Punct ''('', Ident ''left'', Punct ''<='', Ident ''right'',
      Punct '')'', Punct ''{''],
     [Keyword ''int'', Ident ''mid'', Punct ''='', Ident ''left'', Punct ''+'', Punct ''('',
      Ident ''right'', Punct ''-'', Ident ''left'', Punct '')'', Punct ''/'', Number 2,
      Punct '';''],
     [Keyword ''if'', Punct ''('', Ident ''datasetb'', Punct ''['', Ident ''mid'', Punct '']'',
      Punct ''=='', Ident ''destb'', Punct '')'', Keyword ''return'', Ident ''mid'', Punct '';''],
     [Keyword ''if'', Punct ''('', Ident ''datasetb'', Punct ''['', Ident ''mid'', Punct '']'',
      Punct ''<'', Ident ''destb'', Punct '')'', Ident ''left'', Punct ''='', Ident ''mid'',
      Punct ''+'', Number 1, Punct '';''],
     [Keyword ''else'', Ident ''right'', Punct ''='', Ident ''mid'', Punct ''-'', Number 1,
      Punct '';''],
     [Punct ''}''],
     [Keyword ''return'', Punct ''-'', Number 1, Punct '';''],
     [Punct ''}'']]"

definition student035_clone3 :: "token list list" where
  "student035_clone3 =
    [[Keyword ''int'', Ident ''solved_clonedhw'', Punct ''('', Ident ''vector'', Punct ''<'',
      Keyword ''int'', Punct ''>'', Punct ''&'', Ident ''datasetc'', Punct '','',
      Keyword ''int'', Ident ''destc'', Punct '')'', Punct ''{''],
     [Keyword ''int'', Ident ''left'', Punct ''='', Number 0, Punct '','', Ident ''right'',
      Punct ''='', Ident ''datasetc'', Punct ''.'', Ident ''size'', Punct ''('', Punct '')'',
      Punct ''-'', Number 1, Punct '';''],
     [Keyword ''while'', Punct ''('', Ident ''left'', Punct ''<='', Ident ''right'',
      Punct '')'', Punct ''{''],
     [Keyword ''int'', Ident ''mid'', Punct ''='', Ident ''left'', Punct ''+'', Punct ''('',
      Ident ''right'', Punct ''-'', Ident ''left'', Punct '')'', Punct ''/'', Number 2,
      Punct '';''],
     [Keyword ''if'', Punct ''('', Ident ''datasetc'', Punct ''['', Ident ''mid'', Punct '']'',
      Punct ''=='', Ident ''destc'', Punct '')'', Keyword ''return'', Ident ''mid'', Punct '';''],
     [Keyword ''if'', Punct ''('', Ident ''datasetc'', Punct ''['', Ident ''mid'', Punct '']'',
      Punct ''<'', Ident ''destc'', Punct '')'', Ident ''left'', Punct ''='', Ident ''mid'',
      Punct ''+'', Number 1, Punct '';''],
     [Keyword ''else'', Ident ''right'', Punct ''='', Ident ''mid'', Punct ''-'', Number 1,
      Punct '';''],
     [Punct ''}''],
     [Keyword ''return'', Punct ''-'', Number 1, Punct '';''],
     [Punct ''}'']]"

definition student036 :: "token list list" where
  "student036 =
    [[Keyword ''int'', Ident ''solvef'', Punct ''('', Ident ''vector'', Punct ''<'',
      Keyword ''int'', Punct ''>'', Punct ''&'', Ident ''arr'', Punct '','', Keyword ''int'',
      Ident ''sum_val'', Punct '')'', Punct ''{''],
     [Keyword ''int'', Ident ''left'', Punct ''='', Number 0, Punct '','', Ident ''right'',
      Punct ''='', Ident ''arr'', Punct ''.'', Ident ''size'', Punct ''('', Punct '')'',
      Punct ''-'', Number 1, Punct '';''],
     [Keyword ''while'', Punct ''('', Ident ''left'', Punct ''<='', Ident ''right'',
      Punct '')'', Punct ''{''],
     [Keyword ''int'', Ident ''mid'', Punct ''='', Ident ''left'', Punct ''+'', Punct ''('',
      Ident ''right'', Punct ''-'', Ident ''left'', Punct '')'', Punct ''/'', Number 2,
      Punct '';''],
     [Keyword ''if'', Punct ''('', Ident ''arr'', Punct ''['', Ident ''mid'', Punct '']'',
      Punct ''=='', Ident ''sum_val'', Punct '')'', Keyword ''return'', Ident ''mid'',
      Punct '';''],
     [Keyword ''if'', Punct ''('', Ident ''arr'', Punct ''['', Ident ''mid'', Punct '']'',
      Punct ''<'', Ident ''sum_val'', Punct '')'', Ident ''left'', Punct ''='', Ident ''mid'',
      Punct ''+'', Number 1, Punct '';''],
     [Keyword ''else'', Ident ''right'', Punct ''='', Ident ''mid'', Punct ''-'', Number 1,
      Punct '';''],
     [Punct ''}''],
     [Keyword ''return'', Punct ''-'', Number 1, Punct '';''],
     [Punct ''}'']]"

definition student036_clone1 :: "token list list" where
  "student036_clone1 =
    [[Keyword ''int'', Ident ''solvef_cloneum'', Punct ''('', Ident ''vector'', Punct ''<'',
      Keyword ''int'', Punct ''>'', Punct ''&'', Ident ''arra'', Punct '','', Keyword ''int'',
      Ident ''sum_vala'', Punct '')'', Punct ''{''],
     [Keyword ''int'', Ident ''left'', Punct ''='', Number 0, Punct '','', Ident ''right'',
      Punct ''='', Ident ''arra'', Punct ''.'', Ident ''size'', Punct ''('', Punct '')'',
      Punct ''-'', Number 1, Punct '';''],
     [Keyword ''while'', Punct ''('', Ident ''left'', Punct ''<='', Ident ''right'',
      Punct '')'', Punct ''{''],
     [Keyword ''int'', Ident ''mid'', Punct ''='', Ident ''left'', Punct ''+'', Punct ''('',
      Ident ''right'', Punct ''-'', Ident ''left'', Punct '')'', Punct ''/'', Number 2,
      Punct '';''],
     [Keyword ''if'', Punct ''('', Ident ''arra'', Punct ''['', Ident ''mid'', Punct '']'',
      Punct ''=='', Ident ''sum_vala'', Punct '')'', Keyword ''return'', Ident ''mid'',
      Punct '';''],
     [Keyword ''if'', Punct ''('', Ident ''arra'', Punct ''['', Ident ''mid'', Punct '']'',
      Punct ''<'', Ident ''sum_vala'', Punct '')'', Ident ''left'', Punct ''='', Ident ''mid'',
      Punct ''+'', Number 1, Punct '';''],
     [Keyword ''else'', Ident ''right'', Punct ''='', Ident ''mid'', Punct ''-'', Number 1,
      Punct '';''],
     [Punct ''}''],
     [Keyword ''return'', Punct ''-'', Number 1, Punct '';''],
     [Punct ''}'']]"

definition student036_clone2 :: "token list list" where
  "student036_clone2 =
    [[Keyword ''int'', Ident ''solvef_clonec'', Punct ''('', Ident ''vector'', Punct ''<'',
      Keyword ''int'', Punct ''>'', Punct ''&'', Ident ''arrb'', Punct '','', Keyword ''int'',
      Ident ''sum_valb'', Punct '')'', Punct ''{''],
     [Keyword ''int'', Ident ''left'', Punct ''='', Number 0, Punct '','', Ident ''right'',
      Punct ''='', Ident ''arrb'', Punct ''.'', Ident ''size'', Punct ''('', Punct '')'',
      Punct ''-'', Number 1, Punct '';''],
     [Keyword ''while'', Punct ''('', Ident ''left'', Punct ''<='', Ident ''right'',
      Punct '')'', Punct ''{''],
     [Keyword ''int'', Ident ''mid'', Punct ''='', Ident ''left'', Punct ''+'', Punct ''('',
      Ident ''right'', Punct ''-'', Ident ''left'', Punct '')'', Punct ''/'', Number 2,
      Punct '';''],
     [Keyword ''if'', Punct ''('', Ident ''arrb'', Punct ''['', Ident ''mid'', Punct '']'',
      Punct ''=='', Ident ''sum_valb'', Punct '')'', Keyword ''return'', Ident ''mid'',
      Punct '';''],
     [Keyword ''if'', Punct ''('', Ident ''arrb'', Punct ''['', Ident ''mid'', Punct '']'',
      Punct ''<'', Ident ''sum_valb'', Punct '')'', Ident ''left'', Punct ''='', Ident ''mid'',
      Punct ''+'', Number 1, Punct '';''],
     [Keyword ''else'', Ident ''right'', Punct ''='', Ident ''mid'', Punct ''-'', Number 1,
      Punct '';''],
     [Punct ''}''],
     [Keyword ''return'', Punct ''-'', Number 1, Punct '';''],
     [Punct ''}'']]"

definition student036_clone3 :: "token list list" where
  "student036_clone3 =
    [[Keyword ''int'', Ident ''solvef_clonebo'', Punct ''('', Ident ''vector'', Punct ''<'',
      Keyword ''int'', Punct ''>'', Punct ''&'', Ident ''arrc'', Punct '','', Keyword ''int'',
      Ident ''sum_valc'', Punct '')'', Punct ''{''],
     [Keyword ''int'', Ident ''left'', Punct ''='', Number 0, Punct '','', Ident ''right'',
      Punct ''='', Ident ''arrc'', Punct ''.'', Ident ''size'', Punct ''('', Punct '')'',
      Punct ''-'', Number 1, Punct '';''],
     [Keyword ''while'', Punct ''('', Ident ''left'', Punct ''<='', Ident ''right'',
      Punct '')'', Punct ''{''],
     [Keyword ''int'', Ident ''mid'', Punct ''='', Ident ''left'', Punct ''+'', Punct ''('',
      Ident ''right'', Punct ''-'', Ident ''left'', Punct '')'', Punct ''/'', Number 2,
      Punct '';''],
     [Keyword ''if'', Punct ''('', Ident ''arrc'', Punct ''['', Ident ''mid'', Punct '']'',
      Punct ''=='', Ident ''sum_valc'', Punct '')'', Keyword ''return'', Ident ''mid'',
      Punct '';''],
     [Keyword ''if'', Punct ''('', Ident ''arrc'', Punct ''['', Ident ''mid'', Punct '']'',
      Punct ''<'', Ident ''sum_valc'', Punct '')'', Ident ''left'', Punct ''='', Ident ''mid'',
      Punct ''+'', Number 1, Punct '';''],
     [Keyword ''else'', Ident ''right'', Punct ''='', Ident ''mid'', Punct ''-'', Number 1,
      Punct '';''],
     [Punct ''}''],
     [Keyword ''return'', Punct ''-'', Number 1, Punct '';''],
     [Punct ''}'']]"

definition student037_clone1 :: "token list list" where
  "student037_clone1 =
    [[Keyword ''int'', Ident ''solvef_cloneokd'', Punct ''('', Ident ''vector'', Punct ''<'',
      Keyword ''int'', Punct ''>'', Punct ''&'', Ident ''veca'', Punct '','', Keyword ''int'',
      Ident ''targeta'', Punct '')'', Punct ''{''],
     [Keyword ''int'', Ident ''left'', Punct ''='', Number 0, Punct '','', Ident ''right'',
      Punct ''='', Ident ''veca'', Punct ''.'', Ident ''size'', Punct ''('', Punct '')'',
      Punct ''-'', Number 1, Punct '';''],
     [Keyword ''while'', Punct ''('', Ident ''left'', Punct ''<='', Ident ''right'',
      Punct '')'', Punct ''{''],
     [Keyword ''int'', Ident ''mid'', Punct ''='', Ident ''left'', Punct ''+'', Punct ''('',
      Ident ''right'', Punct ''-'', Ident ''left'', Punct '')'', Punct ''/'', Number 2,
      Punct '';''],
     [Keyword ''if'', Punct ''('', Ident ''veca'', Punct ''['', Ident ''mid'', Punct '']'',
      Punct ''=='', Ident ''targeta'', Punct '')'', Keyword ''return'', Ident ''mid'',
      Punct '';''],
     [Keyword ''if'', Punct ''('', Ident ''veca'', Punct ''['', Ident ''mid'', Punct '']'',
      Punct ''<'', Ident ''targeta'', Punct '')'', Ident ''left'', Punct ''='', Ident ''mid'',
      Punct ''+'', Number 1, Punct '';''],
     [Keyword ''else'', Ident ''right'', Punct ''='', Ident ''mid'', Punct ''-'', Number 1,
      Punct '';''],
     [Punct ''}''],
     [Keyword ''return'', Punct ''-'', Number 1, Punct '';''],
     [Punct ''}'']]"

definition student038_clone3 :: "token list list" where
  "student038_clone3 =
    [[Keyword ''int'', Ident ''solvezie_cloneovx'', Punct ''('', Ident ''vector'', Punct ''<'',
      Keyword ''int'', Punct ''>'', Punct ''&'', Ident ''vecc'', Punct '','', Keyword ''int'',
      Ident ''targetc'', Punct '')'', Punct ''{''],
     [Keyword ''int'', Ident ''left'', Punct ''='', Number 0, Punct '','', Ident ''right'',
      Punct ''='', Ident ''vecc'', Punct ''.'', Ident ''size'', Punct ''('', Punct '')'',
      Punct ''-'', Number 1, Punct '';''],
     [Keyword ''while'', Punct ''('', Ident ''left'', Punct ''<='', Ident ''right'',
      Punct '')'', Punct ''{''],
     [Keyword ''int'', Ident ''mid'', Punct ''='', Ident ''left'', Punct ''+'', Punct ''('',
      Ident ''right'', Punct ''-'', Ident ''left'', Punct '')'', Punct ''/'', Number 2,
      Punct '';''],
     [Keyword ''if'', Punct ''('', Ident ''vecc'', Punct ''['', Ident ''mid'', Punct '']'',
      Punct ''=='', Ident ''targetc'', Punct '')'', Keyword ''return'', Ident ''mid'',
      Punct '';''],
     [Keyword ''if'', Punct ''('', Ident ''vecc'', Punct ''['', Ident ''mid'', Punct '']'',
      Punct ''<'', Ident ''targetc'', Punct '')'', Ident ''left'', Punct ''='', Ident ''mid'',
      Punct ''+'', Number 1, Punct '';''],
     [Keyword ''else'', Ident ''right'', Punct ''='', Ident ''mid'', Punct ''-'', Number 1,
      Punct '';''],
     [Punct ''}''],
     [Keyword ''return'', Punct ''-'', Number 1, Punct '';''],
     [Punct ''}'']]"

definition student039_clone2 :: "token list list" where
  "student039_clone2 =
    [[Keyword ''int'', Ident ''solvem_clonexw'', Punct ''('', Ident ''vector'', Punct ''<'',
      Keyword ''int'', Punct ''>'', Punct ''&'', Ident ''datasetb'', Punct '','',
      Keyword ''int'', Ident ''targetb'', Punct '')'', Punct ''{''],
     [Keyword ''int'', Ident ''left'', Punct ''='', Number 0, Punct '','', Ident ''right'',
      Punct ''='', Ident ''datasetb'', Punct ''.'', Ident ''size'', Punct ''('', Punct '')'',
      Punct ''-'', Number 1, Punct '';''],
     [Keyword ''while'', Punct ''('', Ident ''left'', Punct ''<='', Ident ''right'',
      Punct '')'', Punct ''{''],
     [Keyword ''int'', Ident ''mid'', Punct ''='', Ident ''left'', Punct ''+'', Punct ''('',
      Ident ''right'', Punct ''-'', Ident ''left'', Punct '')'', Punct ''/'', Number 2,
      Punct '';''],
     [Keyword ''if'', Punct ''('', Ident ''datasetb'', Punct ''['', Ident ''mid'', Punct '']'',
      Punct ''=='', Ident ''targetb'', Punct '')'', Keyword ''return'', Ident ''mid'',
      Punct '';''],
     [Keyword ''if'', Punct ''('', Ident ''datasetb'', Punct ''['', Ident ''mid'', Punct '']'',
      Punct ''<'', Ident ''targetb'', Punct '')'', Ident ''left'', Punct ''='', Ident ''mid'',
      Punct ''+'', Number 1, Punct '';''],
     [Keyword ''else'', Ident ''right'', Punct ''='', Ident ''mid'', Punct ''-'', Number 1,
      Punct '';''],
     [Punct ''}''],
     [Keyword ''return'', Punct ''-'', Number 1, Punct '';''],
     [Punct ''}'']]"

definition student039_clone3 :: "token list list" where
  "student039_clone3 =
    [[Keyword ''int'', Ident ''solvem_clonelp'', Punct ''('', Ident ''vector'', Punct ''<'',
      Keyword ''int'', Punct ''>'', Punct ''&'', Ident ''datasetc'', Punct '','',
      Keyword ''int'', Ident ''targetc'', Punct '')'', Punct ''{''],
     [Keyword ''int'', Ident ''left'', Punct ''='', Number 0, Punct '','', Ident ''right'',
      Punct ''='', Ident ''datasetc'', Punct ''.'', Ident ''size'', Punct ''('', Punct '')'',
      Punct ''-'', Number 1, Punct '';''],
     [Keyword ''while'', Punct ''('', Ident ''left'', Punct ''<='', Ident ''right'',
      Punct '')'', Punct ''{''],
     [Keyword ''int'', Ident ''mid'', Punct ''='', Ident ''left'', Punct ''+'', Punct ''('',
      Ident ''right'', Punct ''-'', Ident ''left'', Punct '')'', Punct ''/'', Number 2,
      Punct '';''],
     [Keyword ''if'', Punct ''('', Ident ''datasetc'', Punct ''['', Ident ''mid'', Punct '']'',
      Punct ''=='', Ident ''targetc'', Punct '')'', Keyword ''return'', Ident ''mid'',
      Punct '';''],
     [Keyword ''if'', Punct ''('', Ident ''datasetc'', Punct ''['', Ident ''mid'', Punct '']'',
      Punct ''<'', Ident ''targetc'', Punct '')'', Ident ''left'', Punct ''='', Ident ''mid'',
      Punct ''+'', Number 1, Punct '';''],
     [Keyword ''else'', Ident ''right'', Punct ''='', Ident ''mid'', Punct ''-'', Number 1,
      Punct '';''],
     [Punct ''}''],
     [Keyword ''return'', Punct ''-'', Number 1, Punct '';''],
     [Punct ''}'']]"

definition student040_clone2 :: "token list list" where
  "student040_clone2 =
    [[Keyword ''int'', Ident ''solveez_clonelfy'', Punct ''('', Ident ''vector'', Punct ''<'',
      Keyword ''int'', Punct ''>'', Punct ''&'', Ident ''vecb'', Punct '','', Keyword ''int'',
      Ident ''targetb'', Punct '')'', Punct ''{''],
     [Keyword ''int'', Ident ''left'', Punct ''='', Number 0, Punct '','', Ident ''right'',
      Punct ''='', Ident ''vecb'', Punct ''.'', Ident ''size'', Punct ''('', Punct '')'',
      Punct ''-'', Number 1, Punct '';''],
     [Keyword ''while'', Punct ''('', Ident ''left'', Punct ''<='', Ident ''right'',
      Punct '')'', Punct ''{''],
     [Keyword ''int'', Ident ''mid'', Punct ''='', Ident ''left'', Punct ''+'', Punct ''('',
      Ident ''right'', Punct ''-'', Ident ''left'', Punct '')'', Punct ''/'', Number 2,
      Punct '';''],
     [Keyword ''if'', Punct ''('', Ident ''vecb'', Punct ''['', Ident ''mid'', Punct '']'',
      Punct ''=='', Ident ''targetb'', Punct '')'', Keyword ''return'', Ident ''mid'',
      Punct '';''],
     [Keyword ''if'', Punct ''('', Ident ''vecb'', Punct ''['', Ident ''mid'', Punct '']'',
      Punct ''<'', Ident ''targetb'', Punct '')'', Ident ''left'', Punct ''='', Ident ''mid'',
      Punct ''+'', Number 1, Punct '';''],
     [Keyword ''else'', Ident ''right'', Punct ''='', Ident ''mid'', Punct ''-'', Number 1,
      Punct '';''],
     [Punct ''}''],
     [Keyword ''return'', Punct ''-'', Number 1, Punct '';''],
     [Punct ''}'']]"

definition student042 :: "token list list" where
  "student042 =
    [[Keyword ''int'', Ident ''solveeh'', Punct ''('', Ident ''vector'', Punct ''<'',
      Keyword ''int'', Punct ''>'', Punct ''&'', Ident ''dataset'', Punct '','',
      Keyword ''int'', Ident ''target'', Punct '')'', Punct ''{''],
     [Keyword ''int'', Ident ''left'', Punct ''='', Number 0, Punct '','', Ident ''right'',
      Punct ''='', Ident ''dataset'', Punct ''.'', Ident ''size'', Punct ''('', Punct '')'',
      Punct ''-'', Number 1, Punct '';''],
     [Keyword ''while'', Punct ''('', Ident ''left'', Punct ''<='', Ident ''right'',
      Punct '')'', Punct ''{''],
     [Keyword ''int'', Ident ''mid'', Punct ''='', Ident ''left'', Punct ''+'', Punct ''('',
      Ident ''right'', Punct ''-'', Ident ''left'', Punct '')'', Punct ''/'', Number 2,
      Punct '';''],
     [Keyword ''if'', Punct ''('', Ident ''dataset'', Punct ''['', Ident ''mid'', Punct '']'',
      Punct ''=='', Ident ''target'', Punct '')'', Keyword ''return'', Ident ''mid'',
      Punct '';''],
     [Keyword ''if'', Punct ''('', Ident ''dataset'', Punct ''['', Ident ''mid'', Punct '']'',
      Punct ''<'', Ident ''target'', Punct '')'', Ident ''left'', Punct ''='', Ident ''mid'',
      Punct ''+'', Number 1, Punct '';''],
     [Keyword ''else'', Ident ''right'', Punct ''='', Ident ''mid'', Punct ''-'', Number 1,
      Punct '';''],
     [Punct ''}''],
     [Keyword ''return'', Punct ''-'', Number 1, Punct '';''],
     [Punct ''}'']]"

definition student043 :: "token list list" where
  "student043 =
    [[Keyword ''int'', Ident ''solveun'', Punct ''('', Ident ''vector'', Punct ''<'',
      Keyword ''int'', Punct ''>'', Punct ''&'', Ident ''arr'', Punct '','', Keyword ''int'',
      Ident ''goal'', Punct '')'', Punct ''{''],
     [Keyword ''int'', Ident ''left'', Punct ''='', Number 0, Punct '','', Ident ''right'',
      Punct ''='', Ident ''arr'', Punct ''.'', Ident ''size'', Punct ''('', Punct '')'',
      Punct ''-'', Number 1, Punct '';''],
     [Keyword ''while'', Punct ''('', Ident ''left'', Punct ''<='', Ident ''right'',
      Punct '')'', Punct ''{''],
     [Keyword ''int'', Ident ''mid'', Punct ''='', Ident ''left'', Punct ''+'', Punct ''('',
      Ident ''right'', Punct ''-'', Ident ''left'', Punct '')'', Punct ''/'', Number 2,
      Punct '';''],
     [Keyword ''if'', Punct ''('', Ident ''arr'', Punct ''['', Ident ''mid'', Punct '']'',
      Punct ''=='', Ident ''goal'', Punct '')'', Keyword ''return'', Ident ''mid'', Punct '';''],
     [Keyword ''if'', Punct ''('', Ident ''arr'', Punct ''['', Ident ''mid'', Punct '']'',
      Punct ''<'', Ident ''goal'', Punct '')'', Ident ''left'', Punct ''='', Ident ''mid'',
      Punct ''+'', Number 1, Punct '';''],
     [Keyword ''else'', Ident ''right'', Punct ''='', Ident ''mid'', Punct ''-'', Number 1,
      Punct '';''],
     [Punct ''}''],
     [Keyword ''return'', Punct ''-'', Number 1, Punct '';''],
     [Punct ''}'']]"

definition student044_clone1 :: "token list list" where
  "student044_clone1 =
    [[Keyword ''int'', Ident ''solvehj_clonee'', Punct ''('', Ident ''vector'', Punct ''<'',
      Keyword ''int'', Punct ''>'', Punct ''&'', Ident ''dataseta'', Punct '','',
      Keyword ''int'', Ident ''desta'', Punct '')'', Punct ''{''],
     [Keyword ''int'', Ident ''left'', Punct ''='', Number 0, Punct '','', Ident ''right'',
      Punct ''='', Ident ''dataseta'', Punct ''.'', Ident ''size'', Punct ''('', Punct '')'',
      Punct ''-'', Number 1, Punct '';''],
     [Keyword ''while'', Punct ''('', Ident ''left'', Punct ''<='', Ident ''right'',
      Punct '')'', Punct ''{''],
     [Keyword ''int'', Ident ''mid'', Punct ''='', Ident ''left'', Punct ''+'', Punct ''('',
      Ident ''right'', Punct ''-'', Ident ''left'', Punct '')'', Punct ''/'', Number 2,
      Punct '';''],
     [Keyword ''if'', Punct ''('', Ident ''dataseta'', Punct ''['', Ident ''mid'', Punct '']'',
      Punct ''=='', Ident ''desta'', Punct '')'', Keyword ''return'', Ident ''mid'', Punct '';''],
     [Keyword ''if'', Punct ''('', Ident ''dataseta'', Punct ''['', Ident ''mid'', Punct '']'',
      Punct ''<'', Ident ''desta'', Punct '')'', Ident ''left'', Punct ''='', Ident ''mid'',
      Punct ''+'', Number 1, Punct '';''],
     [Keyword ''else'', Ident ''right'', Punct ''='', Ident ''mid'', Punct ''-'', Number 1,
      Punct '';''],
     [Punct ''}''],
     [Keyword ''return'', Punct ''-'', Number 1, Punct '';''],
     [Punct ''}'']]"

definition student044_clone2 :: "token list list" where
  "student044_clone2 =
    [[Keyword ''int'', Ident ''solvehj_cloneqdc'', Punct ''('', Ident ''vector'', Punct ''<'',
      Keyword ''int'', Punct ''>'', Punct ''&'', Ident ''datasetb'', Punct '','',
      Keyword ''int'', Ident ''destb'', Punct '')'', Punct ''{''],
     [Keyword ''int'', Ident ''left'', Punct ''='', Number 0, Punct '','', Ident ''right'',
      Punct ''='', Ident ''datasetb'', Punct ''.'', Ident ''size'', Punct ''('', Punct '')'',
      Punct ''-'', Number 1, Punct '';''],
     [Keyword ''int'', Ident ''mid'', Punct ''='', Ident ''left'', Punct ''+'', Punct ''('',
      Ident ''right'', Punct ''-'', Ident ''left'', Punct '')'', Punct ''/'', Number 2,
      Punct '';''],
     [Keyword ''while'', Punct ''('', Ident ''left'', Punct ''<='', Ident ''right'',
      Punct '')'', Punct ''{''],
     [Keyword ''else'', Ident ''right'', Punct ''='', Ident ''mid'', Punct ''-'', Number 1,
      Punct '';''],
     [Keyword ''if'', Punct ''('', Ident ''datasetb'', Punct ''['', Ident ''mid'', Punct '']'',
      Punct ''=='', Ident ''destb'', Punct '')'', Keyword ''return'', Ident ''mid'', Punct '';''],
     [Punct ''}''],
     [Keyword ''if'', Punct ''('', Ident ''datasetb'', Punct ''['', Ident ''mid'', Punct '']'',
      Punct ''<'', Ident ''destb'', Punct '')'', Ident ''left'', Punct ''='', Ident ''mid'',
      Punct ''+'', Number 1, Punct '';''],
     [Keyword ''return'', Punct ''-'', Number 1, Punct '';''],
     [Punct ''}'']]"

definition student045_clone1 :: "token list list" where
  "student045_clone1 =
    [[Keyword ''int'', Ident ''solvet_clonenu'', Punct ''('', Ident ''vector'', Punct ''<'',
      Keyword ''int'', Punct ''>'', Punct ''&'', Ident ''dataseta'', Punct '','',
      Keyword ''int'', Ident ''goala'', Punct '')'', Punct ''{''],
     [Keyword ''int'', Ident ''left'', Punct ''='', Number 0, Punct '','', Ident ''right'',
      Punct ''='', Ident ''dataseta'', Punct ''.'', Ident ''size'', Punct ''('', Punct '')'',
      Punct ''-'', Number 1, Punct '';''],
     [Keyword ''while'', Punct ''('', Ident ''left'', Punct ''<='', Ident ''right'',
      Punct '')'', Punct ''{''],
     [Keyword ''int'', Ident ''mid'', Punct ''='', Ident ''left'', Punct ''+'', Punct ''('',
      Ident ''right'', Punct ''-'', Ident ''left'', Punct '')'', Punct ''/'', Number 2,
      Punct '';''],
     [Keyword ''if'', Punct ''('', Ident ''dataseta'', Punct ''['', Ident ''mid'', Punct '']'',
      Punct ''=='', Ident ''goala'', Punct '')'', Keyword ''return'', Ident ''mid'', Punct '';''],
     [Keyword ''if'', Punct ''('', Ident ''dataseta'', Punct ''['', Ident ''mid'', Punct '']'',
      Punct ''<'', Ident ''goala'', Punct '')'', Ident ''left'', Punct ''='', Ident ''mid'',
      Punct ''+'', Number 1, Punct '';''],
     [Keyword ''else'', Ident ''right'', Punct ''='', Ident ''mid'', Punct ''-'', Number 1,
      Punct '';''],
     [Punct ''}''],
     [Keyword ''return'', Punct ''-'', Number 1, Punct '';''],
     [Punct ''}'']]"

definition student046 :: "token list list" where
  "student046 =
    [[Keyword ''int'', Ident ''solveqjh'', Punct ''('', Ident ''vector'', Punct ''<'',
      Keyword ''int'', Punct ''>'', Punct ''&'', Ident ''vec'', Punct '','', Keyword ''int'',
      Ident ''goal'', Punct '')'', Punct ''{''],
     [Keyword ''int'', Ident ''left'', Punct ''='', Number 0, Punct '','', Ident ''right'',
      Punct ''='', Ident ''vec'', Punct ''.'', Ident ''size'', Punct ''('', Punct '')'',
      Punct ''-'', Number 1, Punct '';''],
     [Keyword ''while'', Punct ''('', Ident ''left'', Punct ''<='', Ident ''right'',
      Punct '')'', Punct ''{''],
     [Keyword ''int'', Ident ''mid'', Punct ''='', Ident ''left'', Punct ''+'', Punct ''('',
      Ident ''right'', Punct ''-'', Ident ''left'', Punct '')'', Punct ''/'', Number 2,
      Punct '';''],
     [Keyword ''if'', Punct ''('', Ident ''vec'', Punct ''['', Ident ''mid'', Punct '']'',
      Punct ''=='', Ident ''goal'', Punct '')'', Keyword ''return'', Ident ''mid'', Punct '';''],
     [Keyword ''if'', Punct ''('', Ident ''vec'', Punct ''['', Ident ''mid'', Punct '']'',
      Punct ''<'', Ident ''goal'', Punct '')'', Ident ''left'', Punct ''='', Ident ''mid'',
      Punct ''+'', Number 1, Punct '';''],
     [Keyword ''else'', Ident ''right'', Punct ''='', Ident ''mid'', Punct ''-'', Number 1,
      Punct '';''],
     [Punct ''}''],
     [Keyword ''return'', Punct ''-'', Number 1, Punct '';''],
     [Punct ''}'']]"

definition student046_clone1 :: "token list list" where
  "student046_clone1 =
    [[Keyword ''int'', Ident ''solveqjh_cloneu'', Punct ''('', Ident ''vector'', Punct ''<'',
      Keyword ''int'', Punct ''>'', Punct ''&'', Ident ''veca'', Punct '','', Keyword ''int'',
      Ident ''goala'', Punct '')'', Punct ''{''],
     [Keyword ''int'', Ident ''left'', Punct ''='', Number 0, Punct '','', Ident ''right'',
      Punct ''='', Ident ''veca'', Punct ''.'', Ident ''size'', Punct ''('', Punct '')'',
      Punct ''-'', Number 1, Punct '';''],
     [Keyword ''while'', Punct ''('', Ident ''left'', Punct ''<='', Ident ''right'',
      Punct '')'', Punct ''{''],
     [Keyword ''int'', Ident ''mid'', Punct ''='', Ident ''left'', Punct ''+'', Punct ''('',
      Ident ''right'', Punct ''-'', Ident ''left'', Punct '')'', Punct ''/'', Number 2,
      Punct '';''],
     [Keyword ''if'', Punct ''('', Ident ''veca'', Punct ''['', Ident ''mid'', Punct '']'',
      Punct ''=='', Ident ''goala'', Punct '')'', Keyword ''return'', Ident ''mid'', Punct '';''],
     [Keyword ''if'', Punct ''('', Ident ''veca'', Punct ''['', Ident ''mid'', Punct '']'',
      Punct ''<'', Ident ''goala'', Punct '')'', Ident ''left'', Punct ''='', Ident ''mid'',
      Punct ''+'', Number 1, Punct '';''],
     [Keyword ''else'', Ident ''right'', Punct ''='', Ident ''mid'', Punct ''-'', Number 1,
      Punct '';''],
     [Punct ''}''],
     [Keyword ''return'', Punct ''-'', Number 1, Punct '';''],
     [Punct ''}'']]"

definition student046_clone3 :: "token list list" where
  "student046_clone3 =
    [[Keyword ''int'', Ident ''solveqjh_cloneeu'', Punct ''('', Ident ''vector'', Punct ''<'',
      Keyword ''int'', Punct ''>'', Punct ''&'', Ident ''vecc'', Punct '','', Keyword ''int'',
      Ident ''goalc'', Punct '')'', Punct ''{''],
     [Keyword ''int'', Ident ''left'', Punct ''='', Number 0, Punct '','', Ident ''right'',
      Punct ''='', Ident ''vecc'', Punct ''.'', Ident ''size'', Punct ''('', Punct '')'',
      Punct ''-'', Number 1, Punct '';''],
     [Keyword ''while'', Punct ''('', Ident ''left'', Punct ''<='', Ident ''right'',
      Punct '')'', Punct ''{''],
     [Keyword ''int'', Ident ''mid'', Punct ''='', Ident ''left'', Punct ''+'', Punct ''('',
      Ident ''right'', Punct ''-'', Ident ''left'', Punct '')'', Punct ''/'', Number 2,
      Punct '';''],
     [Keyword ''if'', Punct ''('', Ident ''vecc'', Punct ''['', Ident ''mid'', Punct '']'',
      Punct ''=='', Ident ''goalc'', Punct '')'', Keyword ''return'', Ident ''mid'', Punct '';''],
     [Keyword ''if'', Punct ''('', Ident ''vecc'', Punct ''['', Ident ''mid'', Punct '']'',
      Punct ''<'', Ident ''goalc'', Punct '')'', Ident ''left'', Punct ''='', Ident ''mid'',
      Punct ''+'', Number 1, Punct '';''],
     [Keyword ''else'', Ident ''right'', Punct ''='', Ident ''mid'', Punct ''-'', Number 1,
      Punct '';''],
     [Punct ''}''],
     [Keyword ''return'', Punct ''-'', Number 1, Punct '';''],
     [Punct ''}'']]"

definition student047_clone1 :: "token list list" where
  "student047_clone1 =
    [[Keyword ''int'', Ident ''solvel_clonein'', Punct ''('', Ident ''vector'', Punct ''<'',
      Keyword ''int'', Punct ''>'', Punct ''&'', Ident ''numsa'', Punct '','', Keyword ''int'',
      Ident ''sum_vala'', Punct '')'', Punct ''{''],
     [Keyword ''int'', Ident ''left'', Punct ''='', Number 0, Punct '','', Ident ''right'',
      Punct ''='', Ident ''numsa'', Punct ''.'', Ident ''size'', Punct ''('', Punct '')'',
      Punct ''-'', Number 1, Punct '';''],
     [Keyword ''while'', Punct ''('', Ident ''left'', Punct ''<='', Ident ''right'',
      Punct '')'', Punct ''{''],
     [Keyword ''int'', Ident ''mid'', Punct ''='', Ident ''left'', Punct ''+'', Punct ''('',
      Ident ''right'', Punct ''-'', Ident ''left'', Punct '')'', Punct ''/'', Number 2,
      Punct '';''],
     [Keyword ''if'', Punct ''('', Ident ''numsa'', Punct ''['', Ident ''mid'', Punct '']'',
      Punct ''=='', Ident ''sum_vala'', Punct '')'', Keyword ''return'', Ident ''mid'',
      Punct '';''],
     [Keyword ''if'', Punct ''('', Ident ''numsa'', Punct ''['', Ident ''mid'', Punct '']'',
      Punct ''<'', Ident ''sum_vala'', Punct '')'', Ident ''left'', Punct ''='', Ident ''mid'',
      Punct ''+'', Number 1, Punct '';''],
     [Keyword ''else'', Ident ''right'', Punct ''='', Ident ''mid'', Punct ''-'', Number 1,
      Punct '';''],
     [Punct ''}''],
     [Keyword ''return'', Punct ''-'', Number 1, Punct '';''],
     [Punct ''}'']]"

definition student047_clone2 :: "token list list" where
  "student047_clone2 =
    [[Keyword ''int'', Ident ''solvel_clonec'', Punct ''('', Ident ''vector'', Punct ''<'',
      Keyword ''int'', Punct ''>'', Punct ''&'', Ident ''numsb'', Punct '','', Keyword ''int'',
      Ident ''sum_valb'', Punct '')'', Punct ''{''],
     [Keyword ''int'', Ident ''left'', Punct ''='', Number 0, Punct '','', Ident ''right'',
      Punct ''='', Ident ''numsb'', Punct ''.'', Ident ''size'', Punct ''('', Punct '')'',
      Punct ''-'', Number 1, Punct '';''],
     [Keyword ''while'', Punct ''('', Ident ''left'', Punct ''<='', Ident ''right'',
      Punct '')'', Punct ''{''],
     [Keyword ''int'', Ident ''mid'', Punct ''='', Ident ''left'', Punct ''+'', Punct ''('',
      Ident ''right'', Punct ''-'', Ident ''left'', Punct '')'', Punct ''/'', Number 2,
      Punct '';''],
     [Keyword ''if'', Punct ''('', Ident ''numsb'', Punct ''['', Ident ''mid'', Punct '']'',
      Punct ''=='', Ident ''sum_valb'', Punct '')'', Keyword ''return'', Ident ''mid'',
      Punct '';''],
     [Keyword ''if'', Punct ''('', Ident ''numsb'', Punct ''['', Ident ''mid'', Punct '']'',
      Punct ''<'', Ident ''sum_valb'', Punct '')'', Ident ''left'', Punct ''='', Ident ''mid'',
      Punct ''+'', Number 1, Punct '';''],
     [Keyword ''else'', Ident ''right'', Punct ''='', Ident ''mid'', Punct ''-'', Number 1,
      Punct '';''],
     [Punct ''}''],
     [Keyword ''return'', Punct ''-'', Number 1, Punct '';''],
     [Punct ''}'']]"

definition student048 :: "token list list" where
  "student048 =
    [[Keyword ''int'', Ident ''solvedbo'', Punct ''('', Ident ''vector'', Punct ''<'',
      Keyword ''int'', Punct ''>'', Punct ''&'', Ident ''nums'', Punct '','', Keyword ''int'',
      Ident ''threshold'', Punct '')'', Punct ''{''],
     [Keyword ''int'', Ident ''left'', Punct ''='', Number 0, Punct '','', Ident ''right'',
      Punct ''='', Ident ''nums'', Punct ''.'', Ident ''size'', Punct ''('', Punct '')'',
      Punct ''-'', Number 1, Punct '';''],
     [Keyword ''while'', Punct ''('', Ident ''left'', Punct ''<='', Ident ''right'',
      Punct '')'', Punct ''{''],
     [Keyword ''int'', Ident ''mid'', Punct ''='', Ident ''left'', Punct ''+'', Punct ''('',
      Ident ''right'', Punct ''-'', Ident ''left'', Punct '')'', Punct ''/'', Number 2,
      Punct '';''],
     [Keyword ''if'', Punct ''('', Ident ''nums'', Punct ''['', Ident ''mid'', Punct '']'',
      Punct ''=='', Ident ''threshold'', Punct '')'', Keyword ''return'', Ident ''mid'',
      Punct '';''],
     [Keyword ''if'', Punct ''('', Ident ''nums'', Punct ''['', Ident ''mid'', Punct '']'',
      Punct ''<'', Ident ''threshold'', Punct '')'', Ident ''left'', Punct ''='',
      Ident ''mid'', Punct ''+'', Number 1, Punct '';''],
     [Keyword ''else'', Ident ''right'', Punct ''='', Ident ''mid'', Punct ''-'', Number 1,
      Punct '';''],
     [Punct ''}''],
     [Keyword ''return'', Punct ''-'', Number 1, Punct '';''],
     [Punct ''}'']]"

definition student048_clone2 :: "token list list" where
  "student048_clone2 =
    [[Keyword ''int'', Ident ''solvedbo_clonel'', Punct ''('', Ident ''vector'', Punct ''<'',
      Keyword ''int'', Punct ''>'', Punct ''&'', Ident ''numsb'', Punct '','', Keyword ''int'',
      Ident ''thresholdb'', Punct '')'', Punct ''{''],
     [Keyword ''int'', Ident ''left'', Punct ''='', Number 0, Punct '','', Ident ''right'',
      Punct ''='', Ident ''numsb'', Punct ''.'', Ident ''size'', Punct ''('', Punct '')'',
      Punct ''-'', Number 1, Punct '';''],
     [Keyword ''while'', Punct ''('', Ident ''left'', Punct ''<='', Ident ''right'',
      Punct '')'', Punct ''{''],
     [Keyword ''int'', Ident ''mid'', Punct ''='', Ident ''left'', Punct ''+'', Punct ''('',
      Ident ''right'', Punct ''-'', Ident ''left'', Punct '')'', Punct ''/'', Number 2,
      Punct '';''],
     [Keyword ''if'', Punct ''('', Ident ''numsb'', Punct ''['', Ident ''mid'', Punct '']'',
      Punct ''=='', Ident ''thresholdb'', Punct '')'', Keyword ''return'', Ident ''mid'',
      Punct '';''],
     [Keyword ''if'', Punct ''('', Ident ''numsb'', Punct ''['', Ident ''mid'', Punct '']'',
      Punct ''<'', Ident ''thresholdb'', Punct '')'', Ident ''left'', Punct ''='',
      Ident ''mid'', Punct ''+'', Number 1, Punct '';''],
     [Keyword ''else'', Ident ''right'', Punct ''='', Ident ''mid'', Punct ''-'', Number 1,
      Punct '';''],
     [Punct ''}''],
     [Keyword ''return'', Punct ''-'', Number 1, Punct '';''],
     [Punct ''}'']]"

definition student049_clone1 :: "token list list" where
  "student049_clone1 =
    [[Keyword ''int'', Ident ''solved_clonev'', Punct ''('', Ident ''vector'', Punct ''<'',
      Keyword ''int'', Punct ''>'', Punct ''&'', Ident ''arra'', Punct '','', Keyword ''int'',
      Ident ''targeta'', Punct '')'', Punct ''{''],
     [Keyword ''int'', Ident ''left'', Punct ''='', Number 0, Punct '','', Ident ''right'',
      Punct ''='', Ident ''arra'', Punct ''.'', Ident ''size'', Punct ''('', Punct '')'',
      Punct ''-'', Number 1, Punct '';''],
     [Keyword ''while'', Punct ''('', Ident ''left'', Punct ''<='', Ident ''right'',
      Punct '')'', Punct ''{''],
     [Keyword ''int'', Ident ''mid'', Punct ''='', Ident ''left'', Punct ''+'', Punct ''('',
      Ident ''right'', Punct ''-'', Ident ''left'', Punct '')'', Punct ''/'', Number 2,
      Punct '';''],
     [Keyword ''if'', Punct ''('', Ident ''arra'', Punct ''['', Ident ''mid'', Punct '']'',
      Punct ''=='', Ident ''targeta'', Punct '')'', Keyword ''return'', Ident ''mid'',
      Punct '';''],
     [Keyword ''if'', Punct ''('', Ident ''arra'', Punct ''['', Ident ''mid'', Punct '']'',
      Punct ''<'', Ident ''targeta'', Punct '')'', Ident ''left'', Punct ''='', Ident ''mid'',
      Punct ''+'', Number 1, Punct '';''],
     [Keyword ''else'', Ident ''right'', Punct ''='', Ident ''mid'', Punct ''-'', Number 1,
      Punct '';''],
     [Punct ''}''],
     [Keyword ''return'', Punct ''-'', Number 1, Punct '';''],
     [Punct ''}'']]"

definition student049_clone3 :: "token list list" where
  "student049_clone3 =
    [[Keyword ''int'', Ident ''solved_cloneljp'', Punct ''('', Ident ''vector'', Punct ''<'',
      Keyword ''int'', Punct ''>'', Punct ''&'', Ident ''arrc'', Punct '','', Keyword ''int'',
      Ident ''targetc'', Punct '')'', Punct ''{''],
     [Keyword ''int'', Ident ''left'', Punct ''='', Number 0, Punct '','', Ident ''right'',
      Punct ''='', Ident ''arrc'', Punct ''.'', Ident ''size'', Punct ''('', Punct '')'',
      Punct ''-'', Number 1, Punct '';''],
     [Keyword ''while'', Punct ''('', Ident ''left'', Punct ''<='', Ident ''right'',
      Punct '')'', Punct ''{''],
     [Keyword ''int'', Ident ''mid'', Punct ''='', Ident ''left'', Punct ''+'', Punct ''('',
      Ident ''right'', Punct ''-'', Ident ''left'', Punct '')'', Punct ''/'', Number 2,
      Punct '';''],
     [Keyword ''if'', Punct ''('', Ident ''arrc'', Punct ''['', Ident ''mid'', Punct '']'',
      Punct ''=='', Ident ''targetc'', Punct '')'', Keyword ''return'', Ident ''mid'',
      Punct '';''],
     [Keyword ''if'', Punct ''('', Ident ''arrc'', Punct ''['', Ident ''mid'', Punct '']'',
      Punct ''<'', Ident ''targetc'', Punct '')'', Ident ''left'', Punct ''='', Ident ''mid'',
      Punct ''+'', Number 1, Punct '';''],
     [Keyword ''else'', Ident ''right'', Punct ''='', Ident ''mid'', Punct ''-'', Number 1,
      Punct '';''],
     [Punct ''}''],
     [Keyword ''return'', Punct ''-'', Number 1, Punct '';''],
     [Punct ''}'']]"

definition student050_clone2 :: "token list list" where
  "student050_clone2 =
    [[Keyword ''int'', Ident ''solvebzg_cloneys'', Punct ''('', Ident ''vector'', Punct ''<'',
      Keyword ''int'', Punct ''>'', Punct ''&'', Ident ''numbersb'', Punct '','',
      Keyword ''int'', Ident ''targetb'', Punct '')'', Punct ''{''],
     [Keyword ''int'', Ident ''left'', Punct ''='', Number 0, Punct '','', Ident ''right'',
      Punct ''='', Ident ''numbersb'', Punct ''.'', Ident ''size'', Punct ''('', Punct '')'',
      Punct ''-'', Number 1, Punct '';''],
     [Keyword ''while'', Punct ''('', Ident ''left'', Punct ''<='', Ident ''right'',
      Punct '')'', Punct ''{''],
     [Keyword ''int'', Ident ''mid'', Punct ''='', Ident ''left'', Punct ''+'', Punct ''('',
      Ident ''right'', Punct ''-'', Ident ''left'', Punct '')'', Punct ''/'', Number 2,
      Punct '';''],
     [Keyword ''if'', Punct ''('', Ident ''numbersb'', Punct ''['', Ident ''mid'', Punct '']'',
      Punct ''=='', Ident ''targetb'', Punct '')'', Keyword ''return'', Ident ''mid'',
      Punct '';''],
     [Keyword ''if'', Punct ''('', Ident ''numbersb'', Punct ''['', Ident ''mid'', Punct '']'',
      Punct ''<'', Ident ''targetb'', Punct '')'', Ident ''left'', Punct ''='', Ident ''mid'',
      Punct ''+'', Number 1, Punct '';''],
     [Keyword ''else'', Ident ''right'', Punct ''='', Ident ''mid'', Punct ''-'', Number 1,
      Punct '';''],
     [Punct ''}''],
     [Keyword ''return'', Punct ''-'', Number 1, Punct '';''],
     [Punct ''}'']]"

text \<open>
  The 64 snippets whose lines are in the order of \<open>binary_search_student002.cpp\<close>, and
  the five whose lines between the signature and \<open>return -1;\<close> are shuffled.
\<close>

definition well_ordered_snippets :: "token list list list" where
  "well_ordered_snippets =
    [student001_clone2, student002, student002_clone1, student003_clone2, student004_clone2,
     student007, student008, student008_clone1, student009_clone3, student010_clone1,
     student011, student011_clone2, student012_clone2, student012_clone3, student014,
     student016, student016_clone2, student016_clone3, student018, student018_clone1,
     student020_clone1, student020_clone3, student021_clone2, student021_clone3, student022,
     student022_clone1, student022_clone3, student023, student026_clone1, student027_clone2,
     student027_clone3, student028_clone3, student030_clone2, student031, student032,
     student032_clone2, student032_clone3, student034, student035, student035_clone2,
     student035_clone3, student036, student036_clone1, student036_clone2, student036_clone3,
     student037_clone1, student038_clone3, student039_clone2, student039_clone3,
     student040_clone2, student042, student043, student044_clone1, student045_clone1,
     student046, student046_clone1, student046_clone3, student047_clone1, student047_clone2,
     student048, student048_clone2, student049_clone1, student049_clone3, student050_clone2]"

definition shuffled_snippets :: "token list list list" where
  "shuffled_snippets =
    [student015_clone2, student021_clone1, student030_clone1, student032_clone1,
     student044_clone2]"


section \<open>Def-before-use order of the lines of a snippet\<close>









subsection \<open>The lines of \<open>binary_search_student015_clone2.cpp\<close> in def-before-use order\<close>




section \<open>Binary search\<close>

text \<open>
  \<open>binary_search_student002.cpp\<close>: the loop of \<open>solveoom\<close> on the local variables
  \<open>left\<close> and \<open>right\<close>. The midpoint is \<open>left + (right - left) / 2\<close>; the division of
  C++ truncates towards zero (\<open>sdiv\<close>).
\<close>

function solveoom_loop :: "int list \<Rightarrow> int \<Rightarrow> int \<Rightarrow> int \<Rightarrow> error + int" where
  "solveoom_loop numbers threshold left right =
     (if left \<le> right then
        (case chk (right - left) of Inl e \<Rightarrow> Inl e | Inr d \<Rightarrow>
         case chk (left + d sdiv 2) of Inl e \<Rightarrow> Inl e | Inr mid \<Rightarrow>
         case vec_at numbers mid of Inl e \<Rightarrow> Inl e | Inr x \<Rightarrow>
           if x = threshold then Inr mid
           else if x < threshold then
             (case chk (mid + 1) of Inl e \<Rightarrow> Inl e | Inr left' \<Rightarrow>
                solveoom_loop numbers threshold left' right)
           else
             (case chk (mid - 1) of Inl e \<Rightarrow> Inl e | Inr right' \<Rightarrow>
                solveoom_loop numbers threshold left right'))
      else Inr (- 1))"
  by pat_completeness auto
termination
  by (relation "measure (\<lambda>(numbers, threshold, left, right). nat (right - left + 1))")
     (auto simp: chk_def signed_divide_int_def sgn_if split: if_splits)

text \<open>\<open>int left = 0, right = numbers.size() - 1;\<close> The subtraction is unsigned.\<close>

definition solveoom :: "int list \<Rightarrow> int \<Rightarrow> error + int" where
  "solveoom numbers threshold =
     solveoom_loop numbers threshold 0 (to_int (to_size (vec_size numbers - 1)))"

text \<open>
  \<open>binary_search_variant.cpp\<close>: \<open>searchBinary\<close> computes the midpoint as
  \<open>(start + end) / 2\<close>.
\<close>

function searchBinary_loop :: "int list \<Rightarrow> int \<Rightarrow> int \<Rightarrow> int \<Rightarrow> error + int" where
  "searchBinary_loop nums value start end =
     (if start \<le> end then
        (case chk (start + end) of Inl e \<Rightarrow> Inl e | Inr s \<Rightarrow>
         let middle = s sdiv 2 in
         case vec_at nums middle of Inl e \<Rightarrow> Inl e | Inr x \<Rightarrow>
           if x = value then Inr middle
           else if x < value then
             (case chk (middle + 1) of Inl e \<Rightarrow> Inl e | Inr start' \<Rightarrow>
                searchBinary_loop nums value start' end)
           else
             (case chk (middle - 1) of Inl e \<Rightarrow> Inl e | Inr end' \<Rightarrow>
                searchBinary_loop nums value start end'))
      else Inr (- 1))"
  by pat_completeness auto
termination
  by (relation "measure (\<lambda>(nums, value, start, end). nat (end - start + 1))")
     (auto simp: chk_def signed_divide_int_def sgn_if split: if_splits)

definition searchBinary :: "int list \<Rightarrow> int \<Rightarrow> error + int" where
  "searchBinary nums value =
     searchBinary_loop nums value 0 (to_int (to_size (vec_size nums - 1)))"

section \<open>Two-sum\<close>

text \<open>
  \<open>two_sum_student001.cpp\<close>. The inner loop \<open>for (int b = i+1; b < nums.size(); ++b)\<close>
  returns \<open>Some [i, b]\<close> when it executes \<open>return vector<int>{ i, b }\<close> and \<open>None\<close>
  when it runs to its end. The loop conditions compare an \<open>int\<close> with \<open>nums.size()\<close>,
  which converts the \<open>int\<close> to \<open>size_t\<close>.
\<close>

function solvedps_inner :: "int list \<Rightarrow> int \<Rightarrow> int \<Rightarrow> int \<Rightarrow> error + int list option" where
  "solvedps_inner nums sum_val i b =
     (if to_size b < vec_size nums then
        (case vec_at nums i of Inl e \<Rightarrow> Inl e | Inr ni \<Rightarrow>
         case vec_at nums b of Inl e \<Rightarrow> Inl e | Inr nb \<Rightarrow>
         case chk (ni + nb) of Inl e \<Rightarrow> Inl e | Inr s \<Rightarrow>
           if s = sum_val then Inr (Some [i, b])
           else (case chk (b + 1) of Inl e \<Rightarrow> Inl e | Inr b' \<Rightarrow>
                   solvedps_inner nums sum_val i b'))
      else Inr None)"
  by pat_completeness auto
termination
  by (relation "measure (\<lambda>(nums, sum_val, i, b). nat (2 ^ 31 - b))")
     (auto simp: chk_def INT_MAX_def split: if_splits)

function solvedps_outer :: "int list \<Rightarrow> int \<Rightarrow> int \<Rightarrow> error + int list" where
  "solvedps_outer nums sum_val i =
     (if to_size i < vec_size nums then
        (case chk (i + 1) of Inl e \<Rightarrow> Inl e | Inr b0 \<Rightarrow>
         case solvedps_inner nums sum_val i b0 of
           Inl e \<Rightarrow> Inl e
         | Inr (Some r) \<Rightarrow> Inr r
         | Inr None \<Rightarrow>
             (case chk (i + 1) of Inl e \<Rightarrow> Inl e | Inr i' \<Rightarrow>
                solvedps_outer nums sum_val i'))
      else Inr [])"
  by pat_completeness auto
termination
  by (relation "measure (\<lambda>(nums, sum_val, i). nat (2 ^ 31 - i))")
     (auto simp: chk_def INT_MAX_def split: if_splits)

definition solvedps :: "int list \<Rightarrow> int \<Rightarrow> error + int list" where
  "solvedps nums sum_val = solvedps_outer nums sum_val 0"
section \<open>Linked-list reversal\<close>

text \<open>
  \<open>reverse_linked_list_student004.cpp\<close>. A \<open>ListNode*\<close> is \<open>None\<close> for the null
  pointer or the address of a node; the heap maps the addresses of the live nodes to their
  contents. The function rewrites the \<open>next\<close> fields in place, so it takes the heap and
  returns the new heap with the new head. The loop follows \<open>next\<close> pointers for as long
  as they are not null, which on a cyclic structure is forever: not returning is \<open>None\<close>.
\<close>

type_synonym addr = nat
type_synonym ptr = "addr option"

record ListNode =
  val :: int
  next_ptr :: ptr

type_synonym heap = "addr \<rightharpoonup> ListNode"

partial_function (option) solvejxa_loop ::
  "heap \<Rightarrow> ptr \<Rightarrow> ptr \<Rightarrow> (error + heap \<times> ptr) option" where
  "solvejxa_loop h prev head =
     (case head of
        None \<Rightarrow> Some (Inr (h, prev))
      | Some a \<Rightarrow>
          (case h a of
             None \<Rightarrow> Some (Inl InvalidPointer)
           | Some node \<Rightarrow>
               (let next_node = next_ptr node;
                    h' = h(a \<mapsto> node\<lparr>next_ptr := prev\<rparr>)
                in solvejxa_loop h' (Some a) next_node)))"

declare solvejxa_loop.simps [code]

definition solvejxa :: "heap \<Rightarrow> ptr \<Rightarrow> (error + heap \<times> ptr) option" where
  "solvejxa h head = solvejxa_loop h None head"

text \<open>
  \<open>linked h p cells\<close>: starting at \<open>p\<close> and following \<open>next\<close> in the heap \<open>h\<close> one
  visits exactly the nodes \<open>cells\<close>, each given by its address and its value, and then
  reaches the null pointer. This is what it means for \<open>p\<close> to point to a finite list.
\<close>

fun linked :: "heap \<Rightarrow> ptr \<Rightarrow> (addr \<times> int) list \<Rightarrow> bool" where
  "linked h p [] = (p = None)"
| "linked h p ((a, x) # cells) =
     (p = Some a \<and>
      (case h a of
         None \<Rightarrow> False
       | Some node \<Rightarrow> val node = x \<and> linked h (next_ptr node) cells))"

definition heap3 :: heap where
  "heap3 = [1 \<mapsto> \<lparr>val = 10, next_ptr = Some 2\<rparr>,
            2 \<mapsto> \<lparr>val = 20, next_ptr = Some 5\<rparr>,
            5 \<mapsto> \<lparr>val = 30, next_ptr = None\<rparr>]"

section \<open>Claims about the maximum subarray\<close>

subsection \<open>Subarray sums when an element is appended\<close>

lemma finite_subarray_sums: "finite (subarray_sums xs)"
proof -
  have "{ys. sublist ys xs \<and> ys \<noteq> []} \<subseteq> set (sublists xs)" by auto
  then have "finite {ys. sublist ys xs \<and> ys \<noteq> []}" by (rule finite_subset) simp
  then show ?thesis by (simp add: subarray_sums_def)
qed

lemma finite_suffix_sums: "finite (suffix_sums xs)"
proof -
  have "{ys. suffix ys xs \<and> ys \<noteq> []} \<subseteq> set (suffixes xs)" by auto
  then have "finite {ys. suffix ys xs \<and> ys \<noteq> []}" by (rule finite_subset) simp
  then show ?thesis by (simp add: suffix_sums_def)
qed

lemma suffix_sums_Nil: "suffix_sums [] = {}"
  by (simp add: suffix_sums_def)

lemma suffix_sums_nonempty: "xs \<noteq> [] \<Longrightarrow> suffix_sums xs \<noteq> {}"
  by (auto simp: suffix_sums_def)

lemma subarray_sums_nonempty: "xs \<noteq> [] \<Longrightarrow> subarray_sums xs \<noteq> {}"
  by (auto simp: subarray_sums_def)

lemma suffix_sums_snoc:
  "suffix_sums (p @ [x]) = insert x ((\<lambda>s. s + x) ` suffix_sums p)"
proof (intro set_eqI iffI)
  fix s assume "s \<in> suffix_sums (p @ [x])"
  then obtain ys where ys: "suffix ys (p @ [x])" "ys \<noteq> []" "s = sum_list ys"
    by (auto simp: suffix_sums_def)
  then obtain zs where zs: "ys = zs @ [x]" "suffix zs p" by auto
  show "s \<in> insert x ((\<lambda>s. s + x) ` suffix_sums p)"
  proof (cases "zs = []")
    case True
    with ys zs show ?thesis by simp
  next
    case False
    with zs have "sum_list zs \<in> suffix_sums p" by (auto simp: suffix_sums_def)
    with ys zs show ?thesis by auto
  qed
next
  fix s assume "s \<in> insert x ((\<lambda>s. s + x) ` suffix_sums p)"
  then consider "s = x" | zs where "suffix zs p" "zs \<noteq> []" "s = sum_list zs + x"
    by (auto simp: suffix_sums_def)
  then show "s \<in> suffix_sums (p @ [x])"
  proof cases
    case 1
    have "suffix [x] (p @ [x])" "[x] \<noteq> []" by simp_all
    then have "sum_list [x] \<in> suffix_sums (p @ [x])"
      unfolding suffix_sums_def by blast
    with 1 show ?thesis by simp
  next
    case 2
    then have "suffix (zs @ [x]) (p @ [x])" "zs @ [x] \<noteq> []" by simp_all
    then have "sum_list (zs @ [x]) \<in> suffix_sums (p @ [x])"
      unfolding suffix_sums_def by blast
    with 2 show ?thesis by simp
  qed
qed

lemma subarray_sums_snoc:
  "subarray_sums (p @ [x]) = subarray_sums p \<union> suffix_sums (p @ [x])"
  by (auto simp: subarray_sums_def suffix_sums_def sublist_snoc)

lemma Max_suffix_sums_single: "Max (suffix_sums [x]) = x"
  using suffix_sums_snoc [of "[]" x] by (simp add: suffix_sums_Nil)

lemma Max_suffix_sums_snoc:
  assumes "p \<noteq> []"
  shows "Max (suffix_sums (p @ [x])) = max x (Max (suffix_sums p) + x)"
proof -
  have "Max ((\<lambda>s. s + x) ` suffix_sums p) = Max (suffix_sums p) + x"
    using Max_add_commute [of "suffix_sums p" "\<lambda>s. s" x]
      finite_suffix_sums suffix_sums_nonempty [OF assms] by simp
  then show ?thesis
    using finite_suffix_sums [of p] suffix_sums_nonempty [OF assms]
    by (simp add: suffix_sums_snoc)
qed

lemma max_subarray_sum_single: "max_subarray_sum [x] = x"
  using subarray_sums_snoc [of "[]" x] suffix_sums_snoc [of "[]" x]
  by (simp add: max_subarray_sum_def suffix_sums_Nil subarray_sums_def)

lemma max_subarray_sum_snoc:
  assumes "p \<noteq> []"
  shows "max_subarray_sum (p @ [x]) = max (max_subarray_sum p) (Max (suffix_sums (p @ [x])))"
  unfolding max_subarray_sum_def subarray_sums_snoc
  using finite_subarray_sums [of p] finite_suffix_sums [of "p @ [x]"]
    subarray_sums_nonempty [OF assms] suffix_sums_nonempty [of "p @ [x]"]
  by (simp add: Max_Un)

subsection \<open>The three Kadane variants under exact arithmetic\<close>

text \<open>
  The invariant of all three: after the elements of a non-empty prefix, the running sum
  is the largest sum of a subarray ending at the last element of the prefix (or that,
  cut off below at 0), and the maximum is the maximum subarray sum of the prefix.
\<close>

lemma maxSubArray_12_loop_exact:
  "p \<noteq> [] \<Longrightarrow>
   maxSubArray_12_loop Exact rest (Max (suffix_sums p)) (max_subarray_sum p)
     = Inr (max_subarray_sum (p @ rest))"
proof (induction rest arbitrary: p)
  case Nil
  then show ?case by simp
next
  case (Cons x rest)
  have "maxSubArray_12_loop Exact (x # rest) (Max (suffix_sums p)) (max_subarray_sum p)
      = maxSubArray_12_loop Exact rest (Max (suffix_sums (p @ [x]))) (max_subarray_sum (p @ [x]))"
    using Cons.prems
    by (simp add: arith_chk_def Let_def Max_suffix_sums_snoc max_subarray_sum_snoc)
  also have "\<dots> = Inr (max_subarray_sum ((p @ [x]) @ rest))"
    by (rule Cons.IH) simp
  finally show ?case by simp
qed

lemma maxSubArray_12_exact:
  assumes "nums \<noteq> []"
  shows "maxSubArray_12 Exact nums = Inr (max_subarray_sum nums)"
proof -
  from assms obtain x rest where nums: "nums = x # rest" by (cases nums) auto
  have "maxSubArray_12 Exact nums
      = maxSubArray_12_loop Exact rest (Max (suffix_sums [x])) (max_subarray_sum [x])"
    by (simp add: nums maxSubArray_12_def vec_at_def vec_size_def arith_chk_def Let_def
        Max_suffix_sums_single max_subarray_sum_single)
  also have "\<dots> = Inr (max_subarray_sum ([x] @ rest))"
    by (rule maxSubArray_12_loop_exact) simp
  finally show ?thesis by (simp add: nums)
qed


declare maxSubArray_02_loop.simps [simp del]
declare maxSubArray_09_loop.simps [simp del]

lemma take_Suc_snoc: "i < length xs \<Longrightarrow> take (Suc i) xs = take i xs @ [xs ! i]"
  by (rule take_Suc_conv_app_nth)

lemma maxSubArray_02_loop_exact:
  "0 < i \<Longrightarrow> i \<le> length nums \<Longrightarrow>
   maxSubArray_02_loop Exact nums (int i) (max 0 (Max (suffix_sums (take i nums))))
       (max_subarray_sum (take i nums))
     = Inr (max_subarray_sum nums)"
proof (induction "length nums - i" arbitrary: i)
  case 0
  then have "i = length nums" by simp
  then show ?case
    by (subst maxSubArray_02_loop.simps) (simp add: lt_size_def vec_size_def)
next
  case (Suc d)
  then have i: "i < length nums" by simp
  let ?p = "take i nums" and ?x = "nums ! i"
  have p: "?p \<noteq> []" using Suc.prems i by auto
  have tk: "take (Suc i) nums = ?p @ [?x]" using i by (rule take_Suc_snoc)
  have e: "Max (suffix_sums (take (Suc i) nums)) = max 0 (Max (suffix_sums ?p)) + ?x"
    unfolding tk Max_suffix_sums_snoc [OF p] by simp
  have b: "max_subarray_sum (take (Suc i) nums)
         = max (max 0 (Max (suffix_sums ?p)) + ?x) (max_subarray_sum ?p)"
    unfolding tk max_subarray_sum_snoc [OF p] Max_suffix_sums_snoc [OF p] by simp
  have "maxSubArray_02_loop Exact nums (int i) (max 0 (Max (suffix_sums ?p))) (max_subarray_sum ?p)
      = maxSubArray_02_loop Exact nums (int (Suc i))
          (max 0 (Max (suffix_sums (take (Suc i) nums)))) (max_subarray_sum (take (Suc i) nums))"
    using i
    by (subst maxSubArray_02_loop.simps)
       (simp add: lt_size_def vec_size_def vec_at_def arith_chk_def Let_def e b max_def
          add.commute)
  also have "\<dots> = Inr (max_subarray_sum nums)"
    using Suc.hyps(2) i by (intro Suc.hyps(1)) auto
  finally show ?case .
qed

lemma maxSubArray_02_exact:
  assumes "nums \<noteq> []" and "int_vector nums"
  shows "maxSubArray_02 Exact nums = Inr (max_subarray_sum nums)"
proof -
  from assms obtain x rest where nums: "nums = x # rest" by (cases nums) auto
  with assms(2) have x: "INT_MIN \<le> x" by (simp add: int_vector_def)
  have "maxSubArray_02 Exact nums
      = maxSubArray_02_loop Exact nums (int 1) (max 0 (Max (suffix_sums (take 1 nums))))
          (max_subarray_sum (take 1 nums))"
    unfolding maxSubArray_02_def using x
    by (subst maxSubArray_02_loop.simps)
       (simp add: nums lt_size_def vec_size_def vec_at_def arith_chk_def Let_def
          Max_suffix_sums_single max_subarray_sum_single max_def)
  also have "\<dots> = Inr (max_subarray_sum nums)"
    using assms(1) by (intro maxSubArray_02_loop_exact) (auto simp: Suc_le_eq)
  finally show ?thesis .
qed

lemma maxSubArray_09_loop_exact:
  "0 < i \<Longrightarrow> i \<le> length nums \<Longrightarrow>
   maxSubArray_09_loop Exact nums (int i) (max_subarray_sum (take i nums))
       (Max (suffix_sums (take i nums)))
     = Inr (max_subarray_sum nums)"
proof (induction "length nums - i" arbitrary: i)
  case 0
  then have "i = length nums" by simp
  then show ?case
    by (subst maxSubArray_09_loop.simps) (simp add: lt_size_def vec_size_def)
next
  case (Suc d)
  then have i: "i < length nums" by simp
  let ?p = "take i nums" and ?x = "nums ! i"
  have p: "?p \<noteq> []" using Suc.prems i by auto
  have tk: "take (Suc i) nums = ?p @ [?x]" using i by (rule take_Suc_snoc)
  have e: "Max (suffix_sums (take (Suc i) nums)) = max ?x (Max (suffix_sums ?p) + ?x)"
    unfolding tk Max_suffix_sums_snoc [OF p] by simp
  have b: "max_subarray_sum (take (Suc i) nums)
         = max (max_subarray_sum ?p) (max ?x (Max (suffix_sums ?p) + ?x))"
    unfolding tk max_subarray_sum_snoc [OF p] Max_suffix_sums_snoc [OF p] by simp
  have "maxSubArray_09_loop Exact nums (int i) (max_subarray_sum ?p) (Max (suffix_sums ?p))
      = maxSubArray_09_loop Exact nums (int (Suc i))
          (max_subarray_sum (take (Suc i) nums)) (Max (suffix_sums (take (Suc i) nums)))"
    using i
    by (subst maxSubArray_09_loop.simps)
       (simp add: lt_size_def vec_size_def vec_at_def arith_chk_def Let_def e b max_def
          add.commute)
  also have "\<dots> = Inr (max_subarray_sum nums)"
    using Suc.hyps(2) i by (intro Suc.hyps(1)) auto
  finally show ?case .
qed

lemma maxSubArray_09_exact:
  assumes "nums \<noteq> []" and "int_vector nums"
  shows "maxSubArray_09 Exact nums = Inr (max_subarray_sum nums)"
proof -
  from assms obtain x rest where nums: "nums = x # rest" by (cases nums) auto
  with assms(2) have x: "INT_MIN \<le> x" by (simp add: int_vector_def)
  have "maxSubArray_09 Exact nums
      = maxSubArray_09_loop Exact nums (int 1) (max_subarray_sum (take 1 nums))
          (Max (suffix_sums (take 1 nums)))"
    unfolding maxSubArray_09_def using x
    by (subst maxSubArray_09_loop.simps)
       (simp add: nums lt_size_def vec_size_def vec_at_def arith_chk_def Let_def
          Max_suffix_sums_single max_subarray_sum_single max_def)
  also have "\<dots> = Inr (max_subarray_sum nums)"
    using assms(1) by (intro maxSubArray_09_loop_exact) (auto simp: Suc_le_eq)
  finally show ?thesis .
qed


subsection \<open>The cubic function under exact arithmetic\<close>

declare maxSubArray_03_sum.simps [simp del]
declare maxSubArray_03_inner.simps [simp del]
declare maxSubArray_03_outer.simps [simp del]

lemma maxSubArray_03_sum_exact:
  "k \<le> Suc j \<Longrightarrow> j < length nums \<Longrightarrow>
   maxSubArray_03_sum Exact nums (int j) (int k) s
     = Inr (s + sum_list (take (Suc j - k) (drop k nums)))"
proof (induction "Suc j - k" arbitrary: k s)
  case 0
  then have "k = Suc j" by simp
  then show ?case by (subst maxSubArray_03_sum.simps) simp
next
  case (Suc d)
  then have k: "k \<le> j" "k < length nums" by auto
  have dr: "drop k nums = nums ! k # drop (Suc k) nums"
    using k by (simp add: Cons_nth_drop_Suc)
  have tk: "take (Suc j - k) (drop k nums) = nums ! k # take (Suc j - Suc k) (drop (Suc k) nums)"
    using k by (simp add: dr Suc_diff_le)
  have "maxSubArray_03_sum Exact nums (int j) (int k) s
      = maxSubArray_03_sum Exact nums (int j) (int (Suc k)) (s + nums ! k)"
    using k
    by (subst maxSubArray_03_sum.simps)
       (simp add: vec_at_def vec_size_def arith_chk_def add.commute)
  also have "\<dots> = Inr (s + nums ! k + sum_list (take (Suc j - Suc k) (drop (Suc k) nums)))"
    using Suc.hyps(2) Suc.prems k by (intro Suc.hyps(1)) auto
  finally show ?case by (simp add: tk)
qed

lemma maxSubArray_03_inner_exact:
  "i \<le> j \<Longrightarrow> j \<le> length nums \<Longrightarrow>
   \<exists>r. maxSubArray_03_inner Exact nums (int (length nums)) (int i) (int j) M = Inr r
      \<and> M \<le> r
      \<and> (\<forall>j'. j \<le> j' \<and> j' < length nums \<longrightarrow> seg_sum nums i j' \<le> r)
      \<and> (r = M \<or> (\<exists>j'. j \<le> j' \<and> j' < length nums \<and> r = seg_sum nums i j'))"
proof (induction "length nums - j" arbitrary: j M)
  case 0
  then have "j = length nums" by simp
  then show ?case by (subst maxSubArray_03_inner.simps) simp
next
  case (Suc d)
  then have j: "j < length nums" by simp
  have sm: "maxSubArray_03_sum Exact nums (int j) (int i) 0 = Inr (seg_sum nums i j)"
    using Suc.prems j maxSubArray_03_sum_exact [of i j nums 0]
    by (simp add: seg_sum_def del: maxSubArray_03_sum.simps)
  have step: "maxSubArray_03_inner Exact nums (int (length nums)) (int i) (int j) M
      = maxSubArray_03_inner Exact nums (int (length nums)) (int i) (int (Suc j))
          (max M (seg_sum nums i j))"
    using j
    by (subst maxSubArray_03_inner.simps)
       (simp add: sm arith_chk_def add.commute
          del: maxSubArray_03_sum.simps maxSubArray_03_inner.simps)
  have d: "d = length nums - Suc j" using Suc.hyps(2) by simp
  have "\<exists>r. maxSubArray_03_inner Exact nums (int (length nums)) (int i) (int (Suc j))
         (max M (seg_sum nums i j)) = Inr r
      \<and> max M (seg_sum nums i j) \<le> r
      \<and> (\<forall>j'. Suc j \<le> j' \<and> j' < length nums \<longrightarrow> seg_sum nums i j' \<le> r)
      \<and> (r = max M (seg_sum nums i j)
          \<or> (\<exists>j'. Suc j \<le> j' \<and> j' < length nums \<and> r = seg_sum nums i j'))"
    using d Suc.prems j by (intro Suc.hyps(1)) auto
  then obtain r where r:
    "maxSubArray_03_inner Exact nums (int (length nums)) (int i) (int (Suc j))
       (max M (seg_sum nums i j)) = Inr r"
    "max M (seg_sum nums i j) \<le> r"
    "\<forall>j'. Suc j \<le> j' \<and> j' < length nums \<longrightarrow> seg_sum nums i j' \<le> r"
    "r = max M (seg_sum nums i j) \<or> (\<exists>j'. Suc j \<le> j' \<and> j' < length nums \<and> r = seg_sum nums i j')"
    by blast
  have up: "\<forall>j'. j \<le> j' \<and> j' < length nums \<longrightarrow> seg_sum nums i j' \<le> r"
  proof (intro allI impI)
    fix j' assume "j \<le> j' \<and> j' < length nums"
    then consider "j' = j" | "Suc j \<le> j' \<and> j' < length nums" by linarith
    then show "seg_sum nums i j' \<le> r" using r(2,3) by cases auto
  qed
  have att: "r = M \<or> (\<exists>j'. j \<le> j' \<and> j' < length nums \<and> r = seg_sum nums i j')"
    using r(4) j by (auto simp: max_def split: if_splits intro: Suc_leD)
  from step r(1,2) up att show ?case by auto
qed

lemma maxSubArray_03_outer_exact:
  "i \<le> length nums \<Longrightarrow>
   \<exists>r. maxSubArray_03_outer Exact nums (int (length nums)) (int i) M = Inr r
      \<and> M \<le> r
      \<and> (\<forall>i' j'. i \<le> i' \<and> i' \<le> j' \<and> j' < length nums \<longrightarrow> seg_sum nums i' j' \<le> r)
      \<and> (r = M \<or> (\<exists>i' j'. i \<le> i' \<and> i' \<le> j' \<and> j' < length nums \<and> r = seg_sum nums i' j'))"
proof (induction "length nums - i" arbitrary: i M)
  case 0
  then have "i = length nums" by simp
  then show ?case by (subst maxSubArray_03_outer.simps) simp
next
  case (Suc d)
  then have i: "i < length nums" by simp
  obtain q where q:
    "maxSubArray_03_inner Exact nums (int (length nums)) (int i) (int i) M = Inr q"
    "M \<le> q"
    "\<forall>j'. i \<le> j' \<and> j' < length nums \<longrightarrow> seg_sum nums i j' \<le> q"
    "q = M \<or> (\<exists>j'. i \<le> j' \<and> j' < length nums \<and> q = seg_sum nums i j')"
    using maxSubArray_03_inner_exact [of i i nums M] i by auto
  have step: "maxSubArray_03_outer Exact nums (int (length nums)) (int i) M
      = maxSubArray_03_outer Exact nums (int (length nums)) (int (Suc i)) q"
    using i
    by (subst maxSubArray_03_outer.simps)
       (simp add: q(1) arith_chk_def add.commute
          del: maxSubArray_03_inner.simps maxSubArray_03_outer.simps)
  have d: "d = length nums - Suc i" using Suc.hyps(2) by simp
  have "\<exists>r. maxSubArray_03_outer Exact nums (int (length nums)) (int (Suc i)) q = Inr r
      \<and> q \<le> r
      \<and> (\<forall>i' j'. Suc i \<le> i' \<and> i' \<le> j' \<and> j' < length nums \<longrightarrow> seg_sum nums i' j' \<le> r)
      \<and> (r = q \<or> (\<exists>i' j'. Suc i \<le> i' \<and> i' \<le> j' \<and> j' < length nums
                       \<and> r = seg_sum nums i' j'))"
    using d i by (intro Suc.hyps(1)) auto
  then obtain r where r:
    "maxSubArray_03_outer Exact nums (int (length nums)) (int (Suc i)) q = Inr r"
    "q \<le> r"
    "\<forall>i' j'. Suc i \<le> i' \<and> i' \<le> j' \<and> j' < length nums \<longrightarrow> seg_sum nums i' j' \<le> r"
    "r = q \<or> (\<exists>i' j'. Suc i \<le> i' \<and> i' \<le> j' \<and> j' < length nums \<and> r = seg_sum nums i' j')"
    by blast
  have up: "\<forall>i' j'. i \<le> i' \<and> i' \<le> j' \<and> j' < length nums \<longrightarrow> seg_sum nums i' j' \<le> r"
  proof (intro allI impI)
    fix i' j' assume h: "i \<le> i' \<and> i' \<le> j' \<and> j' < length nums"
    then consider "i' = i" | "Suc i \<le> i'" by linarith
    then show "seg_sum nums i' j' \<le> r"
    proof cases
      case 1
      with h q(3) have "seg_sum nums i' j' \<le> q" by auto
      with r(2) show ?thesis by simp
    next
      case 2
      with h r(3) show ?thesis by auto
    qed
  qed
  have att: "r = M \<or> (\<exists>i' j'. i \<le> i' \<and> i' \<le> j' \<and> j' < length nums \<and> r = seg_sum nums i' j')"
  proof -
    consider "r = q" "q = M"
      | j' where "r = q" "i \<le> j'" "j' < length nums" "q = seg_sum nums i j'"
      | i' j' where "Suc i \<le> i'" "i' \<le> j'" "j' < length nums" "r = seg_sum nums i' j'"
      using r(4) q(4) by auto
    then show ?thesis
    proof cases
      case 1 then show ?thesis by simp
    next
      case 2
      then have "i \<le> i \<and> i \<le> j' \<and> j' < length nums \<and> r = seg_sum nums i j'" by simp
      then show ?thesis by blast
    next
      case 3
      then have "i \<le> i' \<and> i' \<le> j' \<and> j' < length nums \<and> r = seg_sum nums i' j'" by simp
      then show ?thesis by blast
    qed
  qed
  from step r(1) q(2) r(2) up att show ?case by auto
qed

lemma subarray_sums_seg:
  "subarray_sums nums = {seg_sum nums i j | i j. i \<le> j \<and> j < length nums}"
proof (intro set_eqI iffI)
  fix s assume "s \<in> subarray_sums nums"
  then obtain ys where ys: "sublist ys nums" "ys \<noteq> []" "s = sum_list ys"
    by (auto simp: subarray_sums_def)
  then obtain ps ss where nums: "nums = ps @ ys @ ss" by (auto simp: sublist_def)
  let ?i = "length ps" and ?j = "length ps + length ys - 1"
  obtain m where m: "length ys = Suc m" using ys(2) by (cases ys) auto
  have ij: "?i \<le> ?j" "?j < length nums" using nums m by auto
  have "take (Suc ?j - ?i) (drop ?i nums) = ys"
    using m by (simp add: nums)
  then have "s = seg_sum nums ?i ?j" using ys(3) by (simp add: seg_sum_def)
  with ij show "s \<in> {seg_sum nums i j | i j. i \<le> j \<and> j < length nums}"
    by blast
next
  fix s assume "s \<in> {seg_sum nums i j | i j. i \<le> j \<and> j < length nums}"
  then obtain i j where ij: "i \<le> j" "j < length nums" "s = seg_sum nums i j" by auto
  let ?ys = "take (Suc j - i) (drop i nums)"
  have "nums = take i nums @ ?ys @ drop (Suc j - i) (drop i nums)"
    by (simp only: append_take_drop_id)
  then have "sublist ?ys nums" unfolding sublist_def by blast
  moreover have "?ys \<noteq> []" using ij by auto
  ultimately show "s \<in> subarray_sums nums"
    using ij(3) unfolding subarray_sums_def seg_sum_def by blast
qed

lemma maxSubArray_03_exact:
  assumes "nums \<noteq> []"
  shows "maxSubArray_03 Exact nums = Inr (max_subarray_sum nums)"
proof -
  have n0: "nums ! 0 = seg_sum nums 0 0"
    using assms by (cases nums) (simp_all add: seg_sum_def)
  obtain r where r:
    "maxSubArray_03_outer Exact nums (int (length nums)) (int 0) (nums ! 0) = Inr r"
    "\<forall>i' j'. 0 \<le> i' \<and> i' \<le> j' \<and> j' < length nums \<longrightarrow> seg_sum nums i' j' \<le> r"
    "r = nums ! 0 \<or> (\<exists>i' j'. 0 \<le> i' \<and> i' \<le> j' \<and> j' < length nums \<and> r = seg_sum nums i' j')"
    using maxSubArray_03_outer_exact [of 0 nums "nums ! 0"] by auto
  have "r \<in> subarray_sums nums"
    using r(3) n0 assms unfolding subarray_sums_seg by auto
  moreover have "\<And>s. s \<in> subarray_sums nums \<Longrightarrow> s \<le> r"
    using r(2) unfolding subarray_sums_seg by auto
  ultimately have "Max (subarray_sums nums) = r"
    using finite_subarray_sums by (intro Max_eqI) auto
  moreover have "maxSubArray_03 Exact nums = Inr r"
    using assms r(1)
    by (simp add: maxSubArray_03_def size_to_int_def vec_size_def vec_at_def
          del: maxSubArray_03_outer.simps)
  ultimately show ?thesis by (simp add: max_subarray_sum_def)
qed


subsection \<open>Element accesses in either arithmetic\<close>

lemma arith_chk_cases:
  "arith_chk m x = Inr x \<or> arith_chk m x = Inl SignedOverflow"
  by (cases m) (auto simp: arith_chk_def chk_def)

lemma arith_chk_Inr: "arith_chk m x = Inr y \<Longrightarrow> y = x"
  using arith_chk_cases [of m x] by auto

lemma maxSubArray_12_loop_in_bounds:
  "maxSubArray_12_loop m xs s mx \<noteq> Inl OutOfBounds"
proof (induction xs arbitrary: s mx)
  case Nil
  then show ?case by simp
next
  case (Cons x xs)
  then show ?case
    using arith_chk_cases [of m "s + x"] by (auto simp: Let_def)
qed

lemma solvegpw_loop_in_bounds:
  "solvegpw_loop m xs mx c \<noteq> Inl OutOfBounds"
proof (induction xs arbitrary: mx c)
  case Nil
  then show ?case by simp
next
  case (Cons x xs)
  then show ?case
    using arith_chk_cases [of m "c + x"] by (auto simp: Let_def)
qed

lemma maxSubArray_03_sum_in_bounds:
  "0 \<le> k \<Longrightarrow> j < vec_size nums \<Longrightarrow> maxSubArray_03_sum m nums j k s \<noteq> Inl OutOfBounds"
proof (induction m nums j k s rule: maxSubArray_03_sum.induct)
  case (1 m nums j k s)
  show ?case
  proof (cases "k \<le> j")
    case False
    then show ?thesis by (subst maxSubArray_03_sum.simps) simp
  next
    case True
    have at: "vec_at nums k = Inr (nums ! nat k)"
      using True "1.prems" by (simp add: vec_at_def)
    show ?thesis
    proof (cases "arith_chk m (s + nums ! nat k)")
      case (Inl e)
      then have "e = SignedOverflow" using arith_chk_cases [of m "s + nums ! nat k"] by simp
      with Inl True at show ?thesis by (subst maxSubArray_03_sum.simps) simp
    next
      case s': (Inr s')
      show ?thesis
      proof (cases "arith_chk m (k + 1)")
        case (Inl e)
        then have "e = SignedOverflow" using arith_chk_cases [of m "k + 1"] by simp
        with Inl s' True at show ?thesis by (subst maxSubArray_03_sum.simps) simp
      next
        case k': (Inr k')
        then have "k' = k + 1" by (rule arith_chk_Inr)
        then have "maxSubArray_03_sum m nums j k' s' \<noteq> Inl OutOfBounds"
          using "1.prems" by (intro "1.IH" [OF True at s' k']) auto
        with k' s' True at show ?thesis by (subst maxSubArray_03_sum.simps) simp
      qed
    qed
  qed
qed

lemma maxSubArray_03_inner_in_bounds:
  "0 \<le> i \<Longrightarrow> n \<le> vec_size nums \<Longrightarrow>
   maxSubArray_03_inner m nums n i j M \<noteq> Inl OutOfBounds"
proof (induction m nums n i j M rule: maxSubArray_03_inner.induct)
  case (1 m nums n i j M)
  show ?case
  proof (cases "j < n")
    case False
    then show ?thesis by (subst maxSubArray_03_inner.simps) simp
  next
    case True
    have sm: "maxSubArray_03_sum m nums j i 0 \<noteq> Inl OutOfBounds"
      using True "1.prems" by (intro maxSubArray_03_sum_in_bounds) auto
    show ?thesis
    proof (cases "maxSubArray_03_sum m nums j i 0")
      case (Inl e)
      with sm True show ?thesis by (subst maxSubArray_03_inner.simps) auto
    next
      case s: (Inr s)
      show ?thesis
      proof (cases "arith_chk m (j + 1)")
        case (Inl e)
        then have "e = SignedOverflow" using arith_chk_cases [of m "j + 1"] by simp
        with Inl s True show ?thesis by (subst maxSubArray_03_inner.simps) simp
      next
        case j': (Inr j')
        have "maxSubArray_03_inner m nums n i j' (max M s) \<noteq> Inl OutOfBounds"
          using "1.prems" by (intro "1.IH" [OF True s j']) auto
        with j' s True show ?thesis by (subst maxSubArray_03_inner.simps) simp
      qed
    qed
  qed
qed

lemma maxSubArray_03_outer_in_bounds:
  "0 \<le> i \<Longrightarrow> n \<le> vec_size nums \<Longrightarrow>
   maxSubArray_03_outer m nums n i M \<noteq> Inl OutOfBounds"
proof (induction m nums n i M rule: maxSubArray_03_outer.induct)
  case (1 m nums n i M)
  show ?case
  proof (cases "i < n")
    case False
    then show ?thesis by (subst maxSubArray_03_outer.simps) simp
  next
    case True
    have inn: "maxSubArray_03_inner m nums n i i M \<noteq> Inl OutOfBounds"
      using "1.prems" by (intro maxSubArray_03_inner_in_bounds) auto
    show ?thesis
    proof (cases "maxSubArray_03_inner m nums n i i M")
      case (Inl e)
      with inn True show ?thesis by (subst maxSubArray_03_outer.simps) auto
    next
      case q: (Inr q)
      show ?thesis
      proof (cases "arith_chk m (i + 1)")
        case (Inl e)
        then have "e = SignedOverflow" using arith_chk_cases [of m "i + 1"] by simp
        with Inl q True show ?thesis by (subst maxSubArray_03_outer.simps) simp
      next
        case i': (Inr i')
        then have "i' = i + 1" by (rule arith_chk_Inr)
        then have "maxSubArray_03_outer m nums n i' q \<noteq> Inl OutOfBounds"
          using "1.prems" by (intro "1.IH" [OF True q i']) auto
        with i' q True show ?thesis by (subst maxSubArray_03_outer.simps) simp
      qed
    qed
  qed
qed

lemma to_int_le: "0 \<le> x \<Longrightarrow> to_int x \<le> x"
proof -
  assume "0 \<le> x"
  then have "(x + 2 ^ 31) mod 2 ^ 32 \<le> x + 2 ^ 31"
    by (intro zmod_le_nonneg_dividend) simp
  then show ?thesis by (simp add: to_int_def)
qed

lemma size_to_int_le: "size_to_int m (vec_size nums) \<le> vec_size nums"
  by (cases m) (auto simp: size_to_int_def vec_size_def intro: to_int_le)

text \<open>
  Claim C10. \<open>maxSubArray\<close> of \<open>max_subarray_12.cpp\<close>, \<open>maxSubArray\<close> of
  \<open>max_subarray_03.cpp\<close> and \<open>solvegpw\<close> read element 0 before anything else, so on the
  empty vector the access is out of bounds; on a non-empty vector no element access of
  theirs is out of bounds, whatever the arithmetic.
\<close>

theorem C10_element_zero:
  "maxSubArray_12 m [] = Inl OutOfBounds
   \<and> maxSubArray_03 m [] = Inl OutOfBounds
   \<and> solvegpw m [] = Inl OutOfBounds
   \<and> (nums \<noteq> [] \<longrightarrow>
        maxSubArray_12 m nums \<noteq> Inl OutOfBounds
      \<and> maxSubArray_03 m nums \<noteq> Inl OutOfBounds
      \<and> solvegpw m nums \<noteq> Inl OutOfBounds)"
proof (intro conjI impI)
  show "maxSubArray_12 m [] = Inl OutOfBounds"
    by (simp add: maxSubArray_12_def vec_at_def vec_size_def)
  show "maxSubArray_03 m [] = Inl OutOfBounds"
    by (simp add: maxSubArray_03_def vec_at_def vec_size_def)
  show "solvegpw m [] = Inl OutOfBounds"
    by (simp add: solvegpw_def vec_at_def vec_size_def)
next
  assume ne: "nums \<noteq> []"
  then have at: "vec_at nums 0 = Inr (nums ! 0)"
    by (simp add: vec_at_def vec_size_def)
  show "maxSubArray_12 m nums \<noteq> Inl OutOfBounds"
    by (simp add: maxSubArray_12_def at maxSubArray_12_loop_in_bounds)
  show "solvegpw m nums \<noteq> Inl OutOfBounds"
    by (simp add: solvegpw_def at solvegpw_loop_in_bounds)
  show "maxSubArray_03 m nums \<noteq> Inl OutOfBounds"
    using maxSubArray_03_outer_in_bounds [of 0 "size_to_int m (vec_size nums)" nums m "nums ! 0"]
      size_to_int_le [of m nums]
    by (simp add: maxSubArray_03_def at Let_def)
qed

theorem C10_element_zero_witness:
  "[5, - 2, 7 :: int] \<noteq> []
   \<and> maxSubArray_12 Int32 [5, - 2, 7] = Inr 10
   \<and> maxSubArray_03 Int32 [5, - 2, 7] = Inr 10
   \<and> solvegpw Int32 [5, - 2, 7] = Inr 10
   \<and> maxSubArray_12 Int32 [5, - 2, 7] \<noteq> Inl OutOfBounds
   \<and> maxSubArray_03 Int32 [5, - 2, 7] \<noteq> Inl OutOfBounds
   \<and> solvegpw Int32 [5, - 2, 7] \<noteq> Inl OutOfBounds"
proof -
  have a: "maxSubArray_12 Int32 [5, - 2, 7] = Inr 10" by code_simp
  have b: "maxSubArray_03 Int32 [5, - 2, 7] = Inr 10" by code_simp
  have c: "solvegpw Int32 [5, - 2, 7] = Inr 10" by code_simp
  from C10_element_zero [of Int32 "[5, - 2, 7]"] a b c show ?thesis by simp
qed

text \<open>
  Claim C2. Under exact integer arithmetic the cubic \<open>maxSubArray\<close> of
  \<open>max_subarray_03.cpp\<close> and the linear \<open>maxSubArray\<close> of \<open>max_subarray_12.cpp\<close>
  return the same value on every non-empty vector: the maximum of the sums of the
  non-empty contiguous subarrays.
\<close>

theorem C2_cubic_equals_kadane:
  assumes "nums \<noteq> []"
  shows "maxSubArray_03 Exact nums = maxSubArray_12 Exact nums
       \<and> maxSubArray_12 Exact nums = Inr (max_subarray_sum nums)"
  using assms by (simp add: maxSubArray_03_exact maxSubArray_12_exact)

theorem C2_cubic_equals_kadane_witness:
  "[- 2, 1, - 3, 4, - 1, 2, 1, - 5, 4 :: int] \<noteq> []
   \<and> maxSubArray_03 Exact [- 2, 1, - 3, 4, - 1, 2, 1, - 5, 4] = Inr 6
   \<and> maxSubArray_12 Exact [- 2, 1, - 3, 4, - 1, 2, 1, - 5, 4] = Inr 6
   \<and> max_subarray_sum [- 2, 1, - 3, 4, - 1, 2, 1, - 5, 4] = 6"
proof -
  have ne: "[- 2, 1, - 3, 4, - 1, 2, 1, - 5, 4 :: int] \<noteq> []" by simp
  have a: "maxSubArray_12 Exact [- 2, 1, - 3, 4, - 1, 2, 1, - 5, 4] = Inr 6" by code_simp
  from C2_cubic_equals_kadane [OF ne] a ne show ?thesis by simp
qed

text \<open>
  Claim C9. Under exact integer arithmetic the three Kadane variants return the same
  value, the maximum subarray sum, on every non-empty vector of \<open>int\<close> elements (none
  of them ends in an error there): the one that resets a negative
  running sum to 0 and starts its maximum at \<open>INT_MIN\<close> (\<open>max_subarray_02.cpp\<close>), the
  one with if/else (\<open>max_subarray_09.cpp\<close>) and the one that takes
  \<open>max(x, sum + x)\<close> and starts its maximum at \<open>nums[0]\<close> (\<open>max_subarray_12.cpp\<close>).
\<close>

theorem C9_kadane_variants_agree:
  assumes "nums \<noteq> []" and "int_vector nums"
  shows "maxSubArray_02 Exact nums = Inr (max_subarray_sum nums)
       \<and> maxSubArray_09 Exact nums = Inr (max_subarray_sum nums)
       \<and> maxSubArray_12 Exact nums = Inr (max_subarray_sum nums)
       \<and> maxSubArray_02 Exact nums = maxSubArray_12 Exact nums
       \<and> maxSubArray_09 Exact nums = maxSubArray_12 Exact nums"
  using assms by (simp add: maxSubArray_02_exact maxSubArray_09_exact maxSubArray_12_exact)

theorem C9_kadane_variants_agree_witness:
  "[- 5, - 3 :: int] \<noteq> [] \<and> int_vector [- 5, - 3]
   \<and> maxSubArray_02 Exact [- 5, - 3] = Inr (- 3)
   \<and> maxSubArray_09 Exact [- 5, - 3] = Inr (- 3)
   \<and> maxSubArray_12 Exact [- 5, - 3] = Inr (- 3)
   \<and> max_subarray_sum [- 5, - 3] = - 3"
proof -
  have ne: "[- 5, - 3 :: int] \<noteq> []" by simp
  have iv: "int_vector [- 5, - 3]" by (simp add: int_vector_def INT_MIN_def INT_MAX_def)
  have a: "maxSubArray_12 Exact [- 5, - 3] = Inr (- 3)" by code_simp
  from C9_kadane_variants_agree [OF ne iv] a ne iv show ?thesis by simp
qed
section \<open>Claims about the snippets as token sequences\<close>

subsection \<open>Equal normal forms give a renaming\<close>

lemma index_of_less: "x \<in> set xs \<Longrightarrow> index_of xs x < length xs"
  by (induction xs) auto

lemma nth_index_of: "x \<in> set xs \<Longrightarrow> xs ! index_of xs x = x"
  by (induction xs) auto

lemma index_of_nth: "distinct xs \<Longrightarrow> k < length xs \<Longrightarrow> index_of xs (xs ! k) = k"
proof (induction xs arbitrary: k)
  case Nil
  then show ?case by simp
next
  case (Cons a xs)
  show ?case
  proof (cases k)
    case 0
    then show ?thesis by simp
  next
    case (Suc j)
    with Cons.prems have "xs ! j \<noteq> a" "j < length xs" "distinct xs" by auto
    with Cons.IH [of j] Suc show ?thesis by simp
  qed
qed

lemma idents_Cons_Ident: "idents (Ident x # ts) = insert x (idents ts)"
  by (auto simp: idents_def)

lemma idents_Cons_other: "(\<And>x. t \<noteq> Ident x) \<Longrightarrow> idents (t # ts) = idents ts"
  by (auto simp: idents_def)

lemma normalize_from_Nil_iff: "normalize_from env ts = [] \<longleftrightarrow> ts = []"
  by (induction env ts rule: normalize_from.induct) auto

lemma normalize_from_Plain:
  "normalize_from env b = Plain t # rest \<Longrightarrow>
   \<exists>bs. b = t # bs \<and> (\<forall>x. t \<noteq> Ident x) \<and> rest = normalize_from env bs"
  by (induction env b rule: normalize_from.induct) (auto split: if_splits)

lemma normalize_from_Placeholder:
  "normalize_from env b = Placeholder n # rest \<Longrightarrow>
   \<exists>y bs. b = Ident y # bs
      \<and> (if y \<in> set env then n = Suc (index_of env y) \<and> rest = normalize_from env bs
          else n = Suc (length env) \<and> rest = normalize_from (env @ [y]) bs)"
  by (induction env b rule: normalize_from.induct) (auto split: if_splits)

text \<open>Two lists of distinct names of the same length are related by an injective map.\<close>

lemma env_renaming:
  assumes "length ea = length eb" "distinct ea" "distinct eb"
  shows "\<exists>\<rho>. (\<forall>k<length ea. \<rho> (ea ! k) = eb ! k) \<and> inj_on \<rho> (set ea)"
proof -
  define \<rho> where "\<rho> = (\<lambda>x. eb ! index_of ea x)"
  have 1: "\<forall>k<length ea. \<rho> (ea ! k) = eb ! k"
    unfolding \<rho>_def using assms(2) by (simp add: index_of_nth)
  have 2: "inj_on \<rho> (set ea)"
  proof (rule inj_onI)
    fix x y assume x: "x \<in> set ea" and y: "y \<in> set ea" and e: "\<rho> x = \<rho> y"
    from x obtain i where i: "i < length ea" "x = ea ! i" by (auto simp: in_set_conv_nth)
    from y obtain j where j: "j < length ea" "y = ea ! j" by (auto simp: in_set_conv_nth)
    from e have "eb ! i = eb ! j"
      unfolding \<rho>_def i(2) j(2) index_of_nth [OF assms(2) i(1)] index_of_nth [OF assms(2) j(1)] .
    moreover have "i < length eb" "j < length eb" using i(1) j(1) assms(1) by simp_all
    ultimately have "i = j" using assms(3) by (simp add: nth_eq_iff_index_eq)
    then show "x = y" using i(2) j(2) by simp
  qed
  from 1 2 show ?thesis by blast
qed

text \<open>
  The normalizer run on two sequences in step, from environments of the same length:
  where it gives the same result, the second sequence is the first one renamed, and the
  renaming takes the \<open>k\<close>-th name of the first environment to the \<open>k\<close>-th of the second.
\<close>

lemma normalize_from_eq_renaming:
  "normalize_from ea a = normalize_from eb b \<Longrightarrow> length ea = length eb \<Longrightarrow>
   distinct ea \<Longrightarrow> distinct eb \<Longrightarrow>
   \<exists>\<rho>. (\<forall>k<length ea. \<rho> (ea ! k) = eb ! k) \<and> inj_on \<rho> (set ea \<union> idents a)
      \<and> map (rename \<rho>) a = b"
proof (induction a arbitrary: ea eb b)
  case Nil
  then have "normalize_from eb b = []" by simp
  then have b: "b = []" by (simp add: normalize_from_Nil_iff)
  from env_renaming [OF Nil.prems(2,3,4)]
  obtain \<rho> where \<rho>: "\<forall>k<length ea. \<rho> (ea ! k) = eb ! k" "inj_on \<rho> (set ea)" by blast
  have "idents [] = {}" by (simp add: idents_def)
  with \<rho> b have "(\<forall>k<length ea. \<rho> (ea ! k) = eb ! k) \<and> inj_on \<rho> (set ea \<union> idents [])
      \<and> map (rename \<rho>) [] = b" by simp
  then show ?case by (rule exI [where x = \<rho>])
next
  case (Cons t ts)
  show ?case
  proof (cases "\<exists>x. t = Ident x")
    case False
    then have nf: "normalize_from ea (t # ts) = Plain t # normalize_from ea ts"
      by (cases t) auto
    with Cons.prems(1) have "normalize_from eb b = Plain t # normalize_from ea ts" by simp
    from normalize_from_Plain [OF this]
    obtain bs where b: "b = t # bs" and tl: "normalize_from ea ts = normalize_from eb bs"
      by blast
    from Cons.IH [OF tl Cons.prems(2,3,4)] obtain \<rho> where \<rho>:
      "\<forall>k<length ea. \<rho> (ea ! k) = eb ! k" "inj_on \<rho> (set ea \<union> idents ts)"
      "map (rename \<rho>) ts = bs" by blast
    have rt: "rename \<rho> t = t" using False by (cases t) auto
    have id: "idents (t # ts) = idents ts" using False by (intro idents_Cons_other) auto
    have inj: "inj_on \<rho> (set ea \<union> idents (t # ts))"
      using \<rho>(2) by (simp only: id)
    have "map (rename \<rho>) (t # ts) = b"
      using \<rho>(3) rt by (simp add: b)
    with \<rho>(1) inj
    have "(\<forall>k<length ea. \<rho> (ea ! k) = eb ! k) \<and> inj_on \<rho> (set ea \<union> idents (t # ts))
        \<and> map (rename \<rho>) (t # ts) = b"
      by blast
    then show ?thesis by (rule exI [where x = \<rho>])
  next
    case True
    then obtain x where t: "t = Ident x" by blast
    show ?thesis
    proof (cases "x \<in> set ea")
      case xin: True
      then have "normalize_from eb b
          = Placeholder (Suc (index_of ea x)) # normalize_from ea ts"
        using Cons.prems(1) t by simp
      from normalize_from_Placeholder [OF this]
      obtain y bs where b: "b = Ident y # bs"
        and c: "if y \<in> set eb
                then Suc (index_of ea x) = Suc (index_of eb y)
                     \<and> normalize_from ea ts = normalize_from eb bs
                else Suc (index_of ea x) = Suc (length eb)
                     \<and> normalize_from ea ts = normalize_from (eb @ [y]) bs"
        by blast
      have yin: "y \<in> set eb"
      proof (rule ccontr)
        assume "y \<notin> set eb"
        with c have "index_of ea x = length eb" by simp
        with index_of_less [OF xin] Cons.prems(2) show False by simp
      qed
      with c have ix: "index_of ea x = index_of eb y"
        and tl: "normalize_from ea ts = normalize_from eb bs" by simp_all
      from Cons.IH [OF tl Cons.prems(2,3,4)] obtain \<rho> where \<rho>:
        "\<forall>k<length ea. \<rho> (ea ! k) = eb ! k" "inj_on \<rho> (set ea \<union> idents ts)"
        "map (rename \<rho>) ts = bs" by blast
      have "\<rho> (ea ! index_of ea x) = eb ! index_of ea x"
        using \<rho>(1) index_of_less [OF xin] by blast
      then have "\<rho> x = eb ! index_of ea x"
        by (simp only: nth_index_of [OF xin])
      then have "\<rho> x = eb ! index_of eb y"
        by (simp only: ix)
      then have xy: "\<rho> x = y"
        by (simp only: nth_index_of [OF yin])
      have id: "set ea \<union> idents (t # ts) = set ea \<union> idents ts"
        using xin unfolding t idents_Cons_Ident by blast
      have inj: "inj_on \<rho> (set ea \<union> idents (t # ts))"
        using \<rho>(2) by (simp only: id)
      have "map (rename \<rho>) (t # ts) = b"
        using \<rho>(3) xy by (simp add: b t)
      with \<rho>(1) inj
      have "(\<forall>k<length ea. \<rho> (ea ! k) = eb ! k) \<and> inj_on \<rho> (set ea \<union> idents (t # ts))
          \<and> map (rename \<rho>) (t # ts) = b"
        by blast
      then show ?thesis by (rule exI [where x = \<rho>])
    next
      case xout: False
      then have "normalize_from eb b
          = Placeholder (Suc (length ea)) # normalize_from (ea @ [x]) ts"
        using Cons.prems(1) t by simp
      from normalize_from_Placeholder [OF this]
      obtain y bs where b: "b = Ident y # bs"
        and c: "if y \<in> set eb
                then Suc (length ea) = Suc (index_of eb y)
                     \<and> normalize_from (ea @ [x]) ts = normalize_from eb bs
                else Suc (length ea) = Suc (length eb)
                     \<and> normalize_from (ea @ [x]) ts = normalize_from (eb @ [y]) bs"
        by blast
      have yout: "y \<notin> set eb"
      proof
        assume yin: "y \<in> set eb"
        with c have "length ea = index_of eb y" by simp
        with index_of_less [OF yin] Cons.prems(2) show False by simp
      qed
      with c have tl: "normalize_from (ea @ [x]) ts = normalize_from (eb @ [y]) bs" by simp
      have len': "length (ea @ [x]) = length (eb @ [y])" using Cons.prems(2) by simp
      have da: "distinct (ea @ [x])" using Cons.prems(3) xout by simp
      have db: "distinct (eb @ [y])" using Cons.prems(4) yout by simp
      from Cons.IH [OF tl len' da db] obtain \<rho> where \<rho>:
        "\<forall>k<length (ea @ [x]). \<rho> ((ea @ [x]) ! k) = (eb @ [y]) ! k"
        "inj_on \<rho> (set (ea @ [x]) \<union> idents ts)" "map (rename \<rho>) ts = bs" by blast
      have "length ea < length (ea @ [x])" by simp
      with \<rho>(1) have "\<rho> ((ea @ [x]) ! length ea) = (eb @ [y]) ! length ea"
        by blast
      moreover have "(ea @ [x]) ! length ea = x" by (rule nth_append_length)
      moreover have "(eb @ [y]) ! length ea = y"
        unfolding Cons.prems(2) by (rule nth_append_length)
      ultimately have xy: "\<rho> x = y" by simp
      have old: "\<forall>k<length ea. \<rho> (ea ! k) = eb ! k"
      proof (intro allI impI)
        fix k assume k: "k < length ea"
        then have "k < length (ea @ [x])" by simp
        with \<rho>(1) have "\<rho> ((ea @ [x]) ! k) = (eb @ [y]) ! k" by blast
        moreover have "(ea @ [x]) ! k = ea ! k" using k by (simp add: nth_append)
        moreover have "(eb @ [y]) ! k = eb ! k" using k Cons.prems(2) by (simp add: nth_append)
        ultimately show "\<rho> (ea ! k) = eb ! k" by simp
      qed
      have id: "set ea \<union> idents (t # ts) = set (ea @ [x]) \<union> idents ts"
        unfolding t idents_Cons_Ident by auto
      have inj: "inj_on \<rho> (set ea \<union> idents (t # ts))"
        using \<rho>(2) by (simp only: id)
      have "map (rename \<rho>) (t # ts) = b"
        using \<rho>(3) xy by (simp add: b t)
      with old inj
      have "(\<forall>k<length ea. \<rho> (ea ! k) = eb ! k) \<and> inj_on \<rho> (set ea \<union> idents (t # ts))
          \<and> map (rename \<rho>) (t # ts) = b"
        by blast
      then show ?thesis by (rule exI [where x = \<rho>])
    qed
  qed
qed

lemma normalize_eq_imp_renaming:
  assumes "normalize_tokens a = normalize_tokens b"
  shows "\<exists>\<rho>. inj_on \<rho> (idents a) \<and> map (rename \<rho>) a = b"
  using normalize_from_eq_renaming [of "[]" a "[]" b] assms
  by (auto simp: normalize_tokens_def)

text \<open>A renaming changes no token other than identifiers.\<close>

lemma rename_erase: "rename (\<lambda>_. []) (rename \<rho> t) = rename (\<lambda>_. []) t"
  by (cases t) auto

lemma renaming_same_skeleton:
  assumes "map (rename \<rho>) a = b"
  shows "map (rename (\<lambda>_. [])) a = map (rename (\<lambda>_. [])) b"
  using assms by (auto simp: rename_erase)

subsection \<open>The snippets\<close>

lemma well_ordered_normal_form:
  "list_all (\<lambda>f. normalize_tokens (tokens_of f) = normalize_tokens (tokens_of student002))
     well_ordered_snippets"
  by code_simp

lemma shuffled_skeleton:
  "list_all (\<lambda>f. map (rename (\<lambda>_. [])) (tokens_of f)
                  \<noteq> map (rename (\<lambda>_. [])) (tokens_of student002))
     shuffled_snippets"
  by code_simp

lemma student002_well_ordered: "student002 \<in> set well_ordered_snippets"
  by (simp add: well_ordered_snippets_def)

text \<open>
  Claim C3, as the corpus has it. Of the 69 binary-search snippets, 64 differ from one
  another only in identifier names (the name of the function among them): for every two
  of them a
  renaming of identifiers, injective on the identifiers of the first, maps the token
  sequence of the first exactly onto that of the second. The other five are the
  line-shuffled clones; no renaming at all maps one of them onto one of the 64.
\<close>

theorem C3_renaming_family:
  "(\<forall>f \<in> set well_ordered_snippets. \<forall>g \<in> set well_ordered_snippets.
      \<exists>\<rho>. inj_on \<rho> (idents (tokens_of f)) \<and> map (rename \<rho>) (tokens_of f) = tokens_of g)
   \<and> (\<forall>f \<in> set shuffled_snippets. \<forall>g \<in> set well_ordered_snippets.
      \<not> (\<exists>\<rho>. map (rename \<rho>) (tokens_of f) = tokens_of g))
   \<and> length well_ordered_snippets = 64 \<and> length shuffled_snippets = 5"
proof (intro conjI ballI)
  fix f g assume f: "f \<in> set well_ordered_snippets" and g: "g \<in> set well_ordered_snippets"
  have "normalize_tokens (tokens_of f) = normalize_tokens (tokens_of g)"
    by (simp only: well_ordered_normal_form [unfolded list_all_iff, rule_format, OF f]
        well_ordered_normal_form [unfolded list_all_iff, rule_format, OF g])
  then show "\<exists>\<rho>. inj_on \<rho> (idents (tokens_of f)) \<and> map (rename \<rho>) (tokens_of f) = tokens_of g"
    by (rule normalize_eq_imp_renaming)
next
  fix f g assume f: "f \<in> set shuffled_snippets" and g: "g \<in> set well_ordered_snippets"
  show "\<not> (\<exists>\<rho>. map (rename \<rho>) (tokens_of f) = tokens_of g)"
  proof
    assume "\<exists>\<rho>. map (rename \<rho>) (tokens_of f) = tokens_of g"
    then obtain \<rho> where "map (rename \<rho>) (tokens_of f) = tokens_of g" ..
    then have 1: "map (rename (\<lambda>_. [])) (tokens_of f) = map (rename (\<lambda>_. [])) (tokens_of g)"
      by (rule renaming_same_skeleton)
    have "normalize_tokens (tokens_of g) = normalize_tokens (tokens_of student002)"
      by (rule well_ordered_normal_form [unfolded list_all_iff, rule_format, OF g])
    from normalize_eq_imp_renaming [OF this]
    obtain \<sigma> where "map (rename \<sigma>) (tokens_of g) = tokens_of student002"
      by blast
    then have 2: "map (rename (\<lambda>_. [])) (tokens_of g)
                = map (rename (\<lambda>_. [])) (tokens_of student002)"
      by (rule renaming_same_skeleton)
    have 3: "map (rename (\<lambda>_. [])) (tokens_of f)
           \<noteq> map (rename (\<lambda>_. [])) (tokens_of student002)"
      by (rule shuffled_skeleton [unfolded list_all_iff, rule_format, OF f])
    from 1 2 have "map (rename (\<lambda>_. [])) (tokens_of f)
           = map (rename (\<lambda>_. [])) (tokens_of student002)"
      by (rule trans)
    with 3 show False by (rule notE)
  qed
next
  show "length well_ordered_snippets = 64" by (simp add: well_ordered_snippets_def)
  show "length shuffled_snippets = 5" by (simp add: shuffled_snippets_def)
qed

theorem C3_renaming_family_witness:
  "student001_clone2 \<in> set well_ordered_snippets
   \<and> student002 \<in> set well_ordered_snippets
   \<and> student015_clone2 \<in> set shuffled_snippets
   \<and> (\<exists>\<rho>. inj_on \<rho> (idents (tokens_of student001_clone2))
          \<and> map (rename \<rho>) (tokens_of student001_clone2) = tokens_of student002)
   \<and> \<not> (\<exists>\<rho>. map (rename \<rho>) (tokens_of student015_clone2) = tokens_of student001_clone2)"
proof -
  have a: "student001_clone2 \<in> set well_ordered_snippets"
    by (simp add: well_ordered_snippets_def)
  have b: "student002 \<in> set well_ordered_snippets"
    by (simp add: well_ordered_snippets_def)
  have c: "student015_clone2 \<in> set shuffled_snippets"
    by (simp add: shuffled_snippets_def)
  note fam = C3_renaming_family [THEN conjunct1, rule_format, OF a b]
  note non = C3_renaming_family [THEN conjunct2, THEN conjunct1, rule_format, OF c a]
  from a b c fam non show ?thesis by (intro conjI)
qed

text \<open>
  The claim as stated, for every pair of snippets, fails for the pair the claim names:
  \<open>solvejd_cloneib\<close> with the identifiers \<open>vecb\<close> and \<open>goalb\<close>
  (\<open>binary_search_student015_clone2.cpp\<close>) is no renaming of \<open>solveoom\<close> with the
  identifiers \<open>numbers\<close> and \<open>threshold\<close> (\<open>binary_search_student002.cpp\<close>): the token
  after the first declaration is \<open>if\<close> in the one and \<open>while\<close> in the other.
\<close>

theorem C3_counterexample:
  "\<not> (\<exists>\<rho>. map (rename \<rho>) (tokens_of student015_clone2) = tokens_of student002)"
proof
  assume "\<exists>\<rho>. map (rename \<rho>) (tokens_of student015_clone2) = tokens_of student002"
  then obtain \<rho> where "map (rename \<rho>) (tokens_of student015_clone2) = tokens_of student002" ..
  then have "map (rename (\<lambda>_. [])) (tokens_of student015_clone2)
           = map (rename (\<lambda>_. [])) (tokens_of student002)"
    by (rule renaming_same_skeleton)
  moreover have "map (rename (\<lambda>_. [])) (tokens_of student015_clone2)
           \<noteq> map (rename (\<lambda>_. [])) (tokens_of student002)"
    by code_simp
  ultimately show False by (rule notE [rotated])
qed

section \<open>Claims about the shuffled clones\<close>






section \<open>Claims about binary search\<close>

lemma chk_in_range: "- 2147483648 \<le> x \<Longrightarrow> x \<le> 2147483647 \<Longrightarrow> chk x = Inr x"
  by (simp add: chk_def INT_MIN_def INT_MAX_def)

lemma sdiv2_nonneg: "0 \<le> d \<Longrightarrow> d sdiv 2 = d div (2::int)"
  by (simp add: signed_divide_int_def sgn_if)

lemma vec_at_in_range: "0 \<le> i \<Longrightarrow> i < int (length v) \<Longrightarrow> vec_at v i = Inr (v ! nat i)"
  by (simp add: vec_at_def vec_size_def)

lemma to_int_size_minus_1:
  "int (length v) \<le> INT_MAX \<Longrightarrow> to_int (to_size (vec_size v - 1)) = int (length v) - 1"
proof (cases "length v = 0")
  case True
  then show ?thesis by (simp add: to_int_def to_size_def vec_size_def)
next
  case False
  assume "int (length v) \<le> INT_MAX"
  with False have a: "0 \<le> int (length v) - 1" "int (length v) - 1 < 2 ^ 31"
    by (auto simp: INT_MAX_def)
  then have "to_size (vec_size v - 1) = int (length v) - 1"
    by (simp add: to_size_def vec_size_def)
  moreover have "to_int (int (length v) - 1) = int (length v) - 1"
    using a by (simp add: to_int_def)
  ultimately show ?thesis by simp
qed

lemma solveoom_loop_correct:
  shows "sorted numbers \<Longrightarrow> int (length numbers) \<le> INT_MAX \<Longrightarrow> 0 \<le> left \<Longrightarrow> right < int (length numbers) \<Longrightarrow> left \<le> right + 1 \<Longrightarrow>
     (\<forall>i. 0 \<le> i \<and> i < left \<longrightarrow> numbers ! nat i < threshold) \<Longrightarrow>
     (\<forall>i. right < i \<and> i < int (length numbers) \<longrightarrow> threshold < numbers ! nat i) \<Longrightarrow>
     (threshold \<in> set numbers \<longrightarrow>
        (\<exists>i. solveoom_loop numbers threshold left right = Inr i \<and> 0 \<le> i
             \<and> i < int (length numbers) \<and> numbers ! nat i = threshold)) \<and>
     (threshold \<notin> set numbers \<longrightarrow> solveoom_loop numbers threshold left right = Inr (- 1))"
proof (induction numbers threshold left right rule: solveoom_loop.induct)
  case (1 numbers threshold left right)
  note srt = \<open>sorted numbers\<close> and len = \<open>int (length numbers) \<le> INT_MAX\<close>
    and lo = \<open>0 \<le> left\<close> and hi = \<open>right < int (length numbers)\<close>
    and below = \<open>\<forall>i. 0 \<le> i \<and> i < left \<longrightarrow> numbers ! nat i < threshold\<close>
    and above = \<open>\<forall>i. right < i \<and> i < int (length numbers) \<longrightarrow> threshold < numbers ! nat i\<close>
  show ?case
  proof (cases "left \<le> right")
    case False
    have "threshold \<notin> set numbers"
    proof
      assume "threshold \<in> set numbers"
      then obtain k where k: "k < length numbers" "numbers ! k = threshold"
        by (auto simp: in_set_conv_nth)
      from False have "int k < left \<or> right < int k" by linarith
      with below above k show False by (metis nat_int of_nat_0_le_iff of_nat_less_iff order_less_irrefl)
    qed
    with False show ?thesis by simp
  next
    case True
    define mid where "mid = left + (right - left) div 2"
    have mid: "left \<le> mid" "mid \<le> right" unfolding mid_def using True by auto
    have n: "int (length numbers) \<le> 2147483647" using len by (simp add: INT_MAX_def)
    have c1: "chk (right - left) = Inr (right - left)"
      using True lo hi n by (intro chk_in_range) linarith+
    have "chk mid = Inr mid"
      using lo hi n mid by (intro chk_in_range) linarith+
    then have c2: "chk (left + (right - left) sdiv 2) = Inr mid"
      using True unfolding mid_def by (simp add: sdiv2_nonneg)
    have c3: "vec_at numbers mid = Inr (numbers ! nat mid)"
      using mid lo hi by (intro vec_at_in_range) auto
    have midn: "nat mid < length numbers" using mid lo hi by auto
    show ?thesis
    proof (cases "numbers ! nat mid = threshold")
      case eq: True
      then have "threshold \<in> set numbers" using midn by (auto simp: in_set_conv_nth)
      moreover have "solveoom_loop numbers threshold left right = Inr mid"
        using True c1 c2 c3 eq by simp
      ultimately show ?thesis using mid lo hi eq by auto
    next
      case ne: False
      show ?thesis
      proof (cases "numbers ! nat mid < threshold")
        case lt: True
        have c4: "chk (mid + 1) = Inr (mid + 1)"
          using mid lo hi n by (intro chk_in_range) linarith+
        have below': "\<forall>i. 0 \<le> i \<and> i < mid + 1 \<longrightarrow> numbers ! nat i < threshold"
        proof (intro allI impI)
          fix i assume i: "0 \<le> i \<and> i < mid + 1"
          then have "nat i \<le> nat mid" by auto
          with srt midn have "numbers ! nat i \<le> numbers ! nat mid"
            by (simp add: sorted_nth_mono)
          with lt show "numbers ! nat i < threshold" by simp
        qed
        have step: "solveoom_loop numbers threshold left right
                    = solveoom_loop numbers threshold (mid + 1) right"
          using True c1 c2 c3 c4 ne lt by simp
        have "(threshold \<in> set numbers \<longrightarrow>
            (\<exists>i. solveoom_loop numbers threshold (mid + 1) right = Inr i \<and> 0 \<le> i
             \<and> i < int (length numbers) \<and> numbers ! nat i = threshold)) \<and>
           (threshold \<notin> set numbers \<longrightarrow>
              solveoom_loop numbers threshold (mid + 1) right = Inr (- 1))"
          using srt len mid lo hi below' above
          by (intro "1.IH"(1) [OF True c1 c2 c3 ne lt c4]) auto
        with step show ?thesis by simp
      next
        case ge: False
        with ne have gt: "threshold < numbers ! nat mid" by simp
        have c4: "chk (mid - 1) = Inr (mid - 1)"
          using mid lo hi n by (intro chk_in_range) linarith+
        have above': "\<forall>i. mid - 1 < i \<and> i < int (length numbers) \<longrightarrow> threshold < numbers ! nat i"
        proof (intro allI impI)
          fix i assume i: "mid - 1 < i \<and> i < int (length numbers)"
          then have "nat mid \<le> nat i" "nat i < length numbers" using lo mid by auto
          with srt have "numbers ! nat mid \<le> numbers ! nat i"
            by (simp add: sorted_nth_mono)
          with gt show "threshold < numbers ! nat i" by simp
        qed
        have step: "solveoom_loop numbers threshold left right
                    = solveoom_loop numbers threshold left (mid - 1)"
          using True c1 c2 c3 c4 ne ge by simp
        have "(threshold \<in> set numbers \<longrightarrow>
            (\<exists>i. solveoom_loop numbers threshold left (mid - 1) = Inr i \<and> 0 \<le> i
             \<and> i < int (length numbers) \<and> numbers ! nat i = threshold)) \<and>
           (threshold \<notin> set numbers \<longrightarrow>
              solveoom_loop numbers threshold left (mid - 1) = Inr (- 1))"
          using srt len mid lo hi below above'
          by (intro "1.IH"(2) [OF True c1 c2 c3 ne ge c4]) auto
        with step show ?thesis by simp
      qed
    qed
  qed
qed

lemma searchBinary_loop_correct:
  shows "sorted nums \<Longrightarrow> int (length nums) \<le> 2 ^ 30 \<Longrightarrow> 0 \<le> start \<Longrightarrow> en < int (length nums) \<Longrightarrow> start \<le> en + 1 \<Longrightarrow>
     (\<forall>i. 0 \<le> i \<and> i < start \<longrightarrow> nums ! nat i < target) \<Longrightarrow>
     (\<forall>i. en < i \<and> i < int (length nums) \<longrightarrow> target < nums ! nat i) \<Longrightarrow>
     (target \<in> set nums \<longrightarrow>
        (\<exists>i. searchBinary_loop nums target start en = Inr i \<and> 0 \<le> i
             \<and> i < int (length nums) \<and> nums ! nat i = target)) \<and>
     (target \<notin> set nums \<longrightarrow> searchBinary_loop nums target start en = Inr (- 1))"
proof (induction nums target start en rule: searchBinary_loop.induct)
  case (1 nums target start en)
  note srt = \<open>sorted nums\<close> and len = \<open>int (length nums) \<le> 2 ^ 30\<close>
    and lo = \<open>0 \<le> start\<close> and hi = \<open>en < int (length nums)\<close>
    and below = \<open>\<forall>i. 0 \<le> i \<and> i < start \<longrightarrow> nums ! nat i < target\<close>
    and above = \<open>\<forall>i. en < i \<and> i < int (length nums) \<longrightarrow> target < nums ! nat i\<close>
  show ?case
  proof (cases "start \<le> en")
    case False
    have "target \<notin> set nums"
    proof
      assume "target \<in> set nums"
      then obtain k where k: "k < length nums" "nums ! k = target"
        by (auto simp: in_set_conv_nth)
      from False have "int k < start \<or> en < int k" by linarith
      with below above k show False by (metis nat_int of_nat_0_le_iff of_nat_less_iff order_less_irrefl)
    qed
    with False show ?thesis by simp
  next
    case True
    define middle where "middle = (start + en) div 2"
    have middle: "start \<le> middle" "middle \<le> en" unfolding middle_def using True by auto
    have n: "int (length nums) \<le> 1073741824" using len by simp
    have c1: "chk (start + en) = Inr (start + en)"
      using True lo hi n by (intro chk_in_range) linarith+
    have c2: "(start + en) sdiv 2 = middle"
      using True lo unfolding middle_def by (simp add: sdiv2_nonneg)
    have c3: "vec_at nums middle = Inr (nums ! nat middle)"
      using middle lo hi by (intro vec_at_in_range) auto
    have middlen: "nat middle < length nums" using middle lo hi by auto
    show ?thesis
    proof (cases "nums ! nat middle = target")
      case eq: True
      then have "target \<in> set nums" using middlen by (auto simp: in_set_conv_nth)
      moreover have "searchBinary_loop nums target start en = Inr middle"
        using True c1 c2 c3 eq by (simp add: Let_def)
      ultimately show ?thesis using middle lo hi eq by auto
    next
      case ne: False
      show ?thesis
      proof (cases "nums ! nat middle < target")
        case lt: True
        have c4: "chk (middle + 1) = Inr (middle + 1)"
          using middle lo hi n by (intro chk_in_range) linarith+
        have below': "\<forall>i. 0 \<le> i \<and> i < middle + 1 \<longrightarrow> nums ! nat i < target"
        proof (intro allI impI)
          fix i assume i: "0 \<le> i \<and> i < middle + 1"
          then have "nat i \<le> nat middle" by auto
          with srt middlen have "nums ! nat i \<le> nums ! nat middle"
            by (simp add: sorted_nth_mono)
          with lt show "nums ! nat i < target" by simp
        qed
        have step: "searchBinary_loop nums target start en
                    = searchBinary_loop nums target (middle + 1) en"
          using True c1 c2 c3 c4 ne lt by (simp add: Let_def)
        have "(target \<in> set nums \<longrightarrow>
            (\<exists>i. searchBinary_loop nums target (middle + 1) en = Inr i \<and> 0 \<le> i
             \<and> i < int (length nums) \<and> nums ! nat i = target)) \<and>
           (target \<notin> set nums \<longrightarrow>
              searchBinary_loop nums target (middle + 1) en = Inr (- 1))"
          using srt len middle lo hi below' above
          by (intro "1.IH"(1) [OF True c1 c2 [symmetric] c3 ne lt c4]) auto
        with step show ?thesis by simp
      next
        case ge: False
        with ne have gt: "target < nums ! nat middle" by simp
        have c4: "chk (middle - 1) = Inr (middle - 1)"
          using middle lo hi n by (intro chk_in_range) linarith+
        have above': "\<forall>i. middle - 1 < i \<and> i < int (length nums) \<longrightarrow> target < nums ! nat i"
        proof (intro allI impI)
          fix i assume i: "middle - 1 < i \<and> i < int (length nums)"
          then have "nat middle \<le> nat i" "nat i < length nums" using lo middle by auto
          with srt have "nums ! nat middle \<le> nums ! nat i"
            by (simp add: sorted_nth_mono)
          with gt show "target < nums ! nat i" by simp
        qed
        have step: "searchBinary_loop nums target start en
                    = searchBinary_loop nums target start (middle - 1)"
          using True c1 c2 c3 c4 ne ge by (simp add: Let_def)
        have "(target \<in> set nums \<longrightarrow>
            (\<exists>i. searchBinary_loop nums target start (middle - 1) = Inr i \<and> 0 \<le> i
             \<and> i < int (length nums) \<and> nums ! nat i = target)) \<and>
           (target \<notin> set nums \<longrightarrow>
              searchBinary_loop nums target start (middle - 1) = Inr (- 1))"
          using srt len middle lo hi below above'
          by (intro "1.IH"(2) [OF True c1 c2 [symmetric] c3 ne ge c4]) auto
        with step show ?thesis by simp
      qed
    qed
  qed
qed




lemma solveoom_loop_safe:
  "int (length numbers) \<le> INT_MAX \<Longrightarrow> 0 \<le> left \<Longrightarrow> right < int (length numbers) \<Longrightarrow>
   \<exists>i. solveoom_loop numbers threshold left right = Inr i \<and> - 1 \<le> i \<and> i < int (length numbers)"
proof (induction numbers threshold left right rule: solveoom_loop.induct)
  case (1 numbers threshold left right)
  note len = \<open>int (length numbers) \<le> INT_MAX\<close>
    and lo = \<open>0 \<le> left\<close> and hi = \<open>right < int (length numbers)\<close>
  show ?case
  proof (cases "left \<le> right")
    case False
    then show ?thesis by simp
  next
    case True
    define mid where "mid = left + (right - left) div 2"
    have mid: "left \<le> mid" "mid \<le> right" unfolding mid_def using True by auto
    have n: "int (length numbers) \<le> 2147483647" using len by (simp add: INT_MAX_def)
    have c1: "chk (right - left) = Inr (right - left)"
      using True lo hi n by (intro chk_in_range) linarith+
    have "chk mid = Inr mid"
      using lo hi n mid by (intro chk_in_range) linarith+
    then have c2: "chk (left + (right - left) sdiv 2) = Inr mid"
      using True unfolding mid_def by (simp add: sdiv2_nonneg)
    have c3: "vec_at numbers mid = Inr (numbers ! nat mid)"
      using mid lo hi by (intro vec_at_in_range) auto
    have c4: "chk (mid + 1) = Inr (mid + 1)"
      using mid lo hi n by (intro chk_in_range) linarith+
    have c5: "chk (mid - 1) = Inr (mid - 1)"
      using mid lo hi n by (intro chk_in_range) linarith+
    consider (eq) "numbers ! nat mid = threshold"
      | (lt) "numbers ! nat mid \<noteq> threshold" "numbers ! nat mid < threshold"
      | (gt) "numbers ! nat mid \<noteq> threshold" "\<not> numbers ! nat mid < threshold"
      by blast
    then show ?thesis
    proof cases
      case eq
      then have "solveoom_loop numbers threshold left right = Inr mid"
        using True c1 c2 c3 by simp
      then show ?thesis using mid lo hi by simp
    next
      case lt
      have "solveoom_loop numbers threshold left right
            = solveoom_loop numbers threshold (mid + 1) right"
        using True c1 c2 c3 c4 lt by simp
      moreover have "\<exists>i. solveoom_loop numbers threshold (mid + 1) right = Inr i
                       \<and> - 1 \<le> i \<and> i < int (length numbers)"
        using len mid lo hi by (intro "1.IH"(1) [OF True c1 c2 c3 lt c4]) auto
      ultimately show ?thesis by simp
    next
      case gt
      have "solveoom_loop numbers threshold left right
            = solveoom_loop numbers threshold left (mid - 1)"
        using True c1 c2 c3 c5 gt by simp
      moreover have "\<exists>i. solveoom_loop numbers threshold left (mid - 1) = Inr i
                       \<and> - 1 \<le> i \<and> i < int (length numbers)"
        using len mid lo hi by (intro "1.IH"(2) [OF True c1 c2 c3 gt c5]) auto
      ultimately show ?thesis by simp
    qed
  qed
qed

lemma searchBinary_loop_safe:
  "int (length nums) \<le> 2 ^ 30 \<Longrightarrow> 0 \<le> start \<Longrightarrow> en < int (length nums) \<Longrightarrow>
   \<exists>i. searchBinary_loop nums target start en = Inr i \<and> - 1 \<le> i \<and> i < int (length nums)"
proof (induction nums target start en rule: searchBinary_loop.induct)
  case (1 nums target start en)
  note len = \<open>int (length nums) \<le> 2 ^ 30\<close>
    and lo = \<open>0 \<le> start\<close> and hi = \<open>en < int (length nums)\<close>
  show ?case
  proof (cases "start \<le> en")
    case False
    then show ?thesis by simp
  next
    case True
    define middle where "middle = (start + en) div 2"
    have middle: "start \<le> middle" "middle \<le> en" unfolding middle_def using True by auto
    have n: "int (length nums) \<le> 1073741824" using len by simp
    have c1: "chk (start + en) = Inr (start + en)"
      using True lo hi n by (intro chk_in_range) linarith+
    have c2: "(start + en) sdiv 2 = middle"
      using True lo unfolding middle_def by (simp add: sdiv2_nonneg)
    have c3: "vec_at nums middle = Inr (nums ! nat middle)"
      using middle lo hi by (intro vec_at_in_range) auto
    have c4: "chk (middle + 1) = Inr (middle + 1)"
      using middle lo hi n by (intro chk_in_range) linarith+
    have c5: "chk (middle - 1) = Inr (middle - 1)"
      using middle lo hi n by (intro chk_in_range) linarith+
    consider (eq) "nums ! nat middle = target"
      | (lt) "nums ! nat middle \<noteq> target" "nums ! nat middle < target"
      | (gt) "nums ! nat middle \<noteq> target" "\<not> nums ! nat middle < target"
      by blast
    then show ?thesis
    proof cases
      case eq
      then have "searchBinary_loop nums target start en = Inr middle"
        using True c1 c2 c3 by (simp add: Let_def)
      then show ?thesis using middle lo hi by simp
    next
      case lt
      have "searchBinary_loop nums target start en
            = searchBinary_loop nums target (middle + 1) en"
        using True c1 c2 c3 c4 lt by (simp add: Let_def)
      moreover have "\<exists>i. searchBinary_loop nums target (middle + 1) en = Inr i
                       \<and> - 1 \<le> i \<and> i < int (length nums)"
        using len middle lo hi
        by (intro "1.IH"(1) [OF True c1 c2 [symmetric] c3 lt c4]) auto
      ultimately show ?thesis by simp
    next
      case gt
      have "searchBinary_loop nums target start en
            = searchBinary_loop nums target start (middle - 1)"
        using True c1 c2 c3 c5 gt by (simp add: Let_def)
      moreover have "\<exists>i. searchBinary_loop nums target start (middle - 1) = Inr i
                       \<and> - 1 \<le> i \<and> i < int (length nums)"
        using len middle lo hi
        by (intro "1.IH"(2) [OF True c1 c2 [symmetric] c3 gt c5]) auto
      ultimately show ?thesis by simp
    qed
  qed
qed

lemma to_int_size_minus_1_small:
  "int (length v) \<le> 2 ^ 30 \<Longrightarrow> to_int (to_size (vec_size v - 1)) = int (length v) - 1"
  by (rule to_int_size_minus_1) (simp add: INT_MAX_def)

text \<open>
  Claim C4, as the code has it. \<open>solveoom\<close> is a correct binary search on every sorted
  vector of at most \<open>INT_MAX\<close> elements, and \<open>searchBinary\<close> on every sorted vector of
  at most \<open>2 ^ 30\<close> elements: both return an index of the target when it occurs and
  \<open>-1\<close> when it does not.
\<close>

theorem C4_binary_search_correct:
  assumes "sorted v"
  shows "(int (length v) \<le> INT_MAX \<longrightarrow>
            (t \<in> set v \<longrightarrow> (\<exists>i. solveoom v t = Inr i \<and> 0 \<le> i \<and> i < int (length v)
                                  \<and> v ! nat i = t))
          \<and> (t \<notin> set v \<longrightarrow> solveoom v t = Inr (- 1)))
       \<and> (int (length v) \<le> 2 ^ 30 \<longrightarrow>
            (t \<in> set v \<longrightarrow> (\<exists>i. searchBinary v t = Inr i \<and> 0 \<le> i \<and> i < int (length v)
                                  \<and> v ! nat i = t))
          \<and> (t \<notin> set v \<longrightarrow> searchBinary v t = Inr (- 1)))"
proof (intro conjI impI)
  assume len: "int (length v) \<le> INT_MAX"
  have *: "(t \<in> set v \<longrightarrow>
        (\<exists>i. solveoom_loop v t 0 (int (length v) - 1) = Inr i \<and> 0 \<le> i
             \<and> i < int (length v) \<and> v ! nat i = t)) \<and>
     (t \<notin> set v \<longrightarrow> solveoom_loop v t 0 (int (length v) - 1) = Inr (- 1))"
    using assms len by (intro solveoom_loop_correct) auto
  { assume "t \<in> set v"
    with * show "\<exists>i. solveoom v t = Inr i \<and> 0 \<le> i \<and> i < int (length v) \<and> v ! nat i = t"
      by (simp add: solveoom_def to_int_size_minus_1 [OF len]) }
  { assume "t \<notin> set v"
    with * show "solveoom v t = Inr (- 1)"
      by (simp add: solveoom_def to_int_size_minus_1 [OF len]) }
next
  assume len: "int (length v) \<le> 2 ^ 30"
  have *: "(t \<in> set v \<longrightarrow>
        (\<exists>i. searchBinary_loop v t 0 (int (length v) - 1) = Inr i \<and> 0 \<le> i
             \<and> i < int (length v) \<and> v ! nat i = t)) \<and>
     (t \<notin> set v \<longrightarrow> searchBinary_loop v t 0 (int (length v) - 1) = Inr (- 1))"
    using assms len by (intro searchBinary_loop_correct) auto
  { assume "t \<in> set v"
    with * show "\<exists>i. searchBinary v t = Inr i \<and> 0 \<le> i \<and> i < int (length v) \<and> v ! nat i = t"
      by (simp add: searchBinary_def to_int_size_minus_1_small [OF len]) }
  { assume "t \<notin> set v"
    with * show "searchBinary v t = Inr (- 1)"
      by (simp add: searchBinary_def to_int_size_minus_1_small [OF len]) }
qed

theorem C4_binary_search_correct_witness:
  "sorted [2, 4, 6, 8, 10, 12, 14, 16 :: int]
   \<and> solveoom [2, 4, 6, 8, 10, 12, 14, 16] 10 = Inr 4
   \<and> searchBinary [2, 4, 6, 8, 10, 12, 14, 16] 10 = Inr 4
   \<and> solveoom [2, 4, 6, 8, 10, 12, 14, 16] 11 = Inr (- 1)
   \<and> searchBinary [2, 4, 6, 8, 10, 12, 14, 16] 11 = Inr (- 1)"
proof -
  have s: "sorted [2, 4, 6, 8, 10, 12, 14, 16 :: int]" by simp
  have a: "solveoom [2, 4, 6, 8, 10, 12, 14, 16] 10 = Inr 4" by code_simp
  have b: "searchBinary [2, 4, 6, 8, 10, 12, 14, 16] 10 = Inr 4" by code_simp
  from C4_binary_search_correct [OF s, of 11]
  have "solveoom [2, 4, 6, 8, 10, 12, 14, 16] 11 = Inr (- 1)
      \<and> searchBinary [2, 4, 6, 8, 10, 12, 14, 16] 11 = Inr (- 1)"
    by (simp add: INT_MAX_def)
  with s a b show ?thesis by simp
qed

text \<open>
  The claim as stated, for every sorted vector, fails: on a sorted vector of
  \<open>2 ^ 31 - 1\<close> elements that ends in the target, the second midpoint computation
  \<open>(start + end) / 2\<close> of \<open>searchBinary\<close> adds 1073741824 and 2147483646, which is
  not an \<open>int\<close>.
\<close>

theorem C4_counterexample:
  "sorted (replicate 2147483646 0 @ [1 :: int])
   \<and> 1 \<in> set (replicate 2147483646 0 @ [1 :: int])
   \<and> searchBinary (replicate 2147483646 0 @ [1]) 1 = Inl SignedOverflow"
proof -
  have "sorted (replicate 2147483646 0 @ [1 :: int])"
    by (simp add: sorted_append)
  moreover have "to_int (to_size (vec_size (replicate 2147483646 (0::int) @ [1]) - 1)) = 2147483646"
    by (simp add: to_int_def to_size_def vec_size_def)
  then have "searchBinary (replicate 2147483646 0 @ [1]) 1 = Inl SignedOverflow"
    by (simp add: searchBinary_def searchBinary_loop.simps chk_def INT_MIN_def INT_MAX_def
        vec_at_def vec_size_def signed_divide_int_def nth_append)
  ultimately show ?thesis by simp
qed

text \<open>
  Claim C8, as the code has it. On every vector, sorted or not, of at most \<open>INT_MAX\<close>
  elements \<open>solveoom\<close> returns, and on every vector of at most \<open>2 ^ 30\<close> elements
  \<open>searchBinary\<close> returns: no element access is out of bounds and no \<open>int\<close>
  operation overflows (either would be an \<open>Inl\<close> result), and the value returned is
  \<open>-1\<close> or an index of the vector. Both functions are total: the loops are defined
  by well-founded recursion on \<open>right - left + 1\<close>. On the empty vector the loop
  condition fails at once and the result is \<open>-1\<close>.
\<close>

theorem C8_binary_search_safe:
  "(int (length v) \<le> INT_MAX \<longrightarrow>
      (\<exists>i. solveoom v t = Inr i \<and> - 1 \<le> i \<and> i < int (length v)))
   \<and> (int (length v) \<le> 2 ^ 30 \<longrightarrow>
      (\<exists>i. searchBinary v t = Inr i \<and> - 1 \<le> i \<and> i < int (length v)))
   \<and> solveoom [] t = Inr (- 1)
   \<and> searchBinary [] t = Inr (- 1)"
proof (intro conjI impI)
  assume len: "int (length v) \<le> INT_MAX"
  show "\<exists>i. solveoom v t = Inr i \<and> - 1 \<le> i \<and> i < int (length v)"
    unfolding solveoom_def to_int_size_minus_1 [OF len]
    using len by (intro solveoom_loop_safe) auto
next
  assume len: "int (length v) \<le> 2 ^ 30"
  show "\<exists>i. searchBinary v t = Inr i \<and> - 1 \<le> i \<and> i < int (length v)"
    unfolding searchBinary_def to_int_size_minus_1_small [OF len]
    using len by (intro searchBinary_loop_safe) auto
next
  show "solveoom [] t = Inr (- 1)"
    by (simp add: solveoom_def to_int_def to_size_def vec_size_def)
next
  show "searchBinary [] t = Inr (- 1)"
    by (simp add: searchBinary_def to_int_def to_size_def vec_size_def)
qed

theorem C8_binary_search_safe_witness:
  "int (length [5, 1, 4 :: int]) \<le> 2 ^ 30
   \<and> (\<exists>i. solveoom [5, 1, 4] 4 = Inr i \<and> - 1 \<le> i \<and> i < 3)
   \<and> (\<exists>i. searchBinary [5, 1, 4] 4 = Inr i \<and> - 1 \<le> i \<and> i < 3)"
  using C8_binary_search_safe [of "[5, 1, 4]" 4]
  by (simp add: INT_MAX_def)

text \<open>
  The claim as stated, for every vector, fails: on \<open>2 ^ 31 - 1\<close> zeros and the target 1
  the run of \<open>searchBinary\<close> leaves defined behaviour at its second midpoint.
\<close>

theorem C8_counterexample:
  "searchBinary (replicate 2147483647 0) 1 = Inl SignedOverflow"
proof -
  have "to_int (to_size (vec_size (replicate 2147483647 (0::int)) - 1)) = 2147483646"
    by (simp add: to_int_def to_size_def vec_size_def)
  then show ?thesis
    by (simp add: searchBinary_def searchBinary_loop.simps chk_def INT_MIN_def INT_MAX_def
        vec_at_def vec_size_def signed_divide_int_def)
qed

text \<open>
  The bound of \<open>solveoom\<close> is needed as well. On \<open>2 ^ 31\<close> zeros and the target 1 the
  search reaches \<open>left = right = mid = INT_MAX\<close> and \<open>mid + 1\<close> overflows; on
  \<open>2 ^ 31 + 1\<close> zeros the conversion of \<open>numbers.size() - 1\<close> to \<open>int\<close> is negative,
  the loop is not entered, and the target 0 is reported absent.
\<close>

lemma solveoom_length_2_31:
  "solveoom (replicate 2147483648 0) 1 = Inl SignedOverflow"
proof -
  have "to_int (to_size (vec_size (replicate 2147483648 (0::int)) - 1)) = 2147483647"
    by (simp add: to_int_def to_size_def vec_size_def)
  then show ?thesis
    by (simp add: solveoom_def solveoom_loop.simps chk_def INT_MIN_def INT_MAX_def
        vec_at_def vec_size_def signed_divide_int_def)
qed

lemma solveoom_length_2_31_plus_1:
  "solveoom (replicate 2147483649 0) 0 = Inr (- 1)"
proof -
  have "to_int (to_size (vec_size (replicate 2147483649 (0::int)) - 1)) = - 2147483648"
    by (simp add: to_int_def to_size_def vec_size_def)
  then show ?thesis
    by (simp add: solveoom_def solveoom_loop.simps)
qed
section \<open>Claims about two-sum\<close>

lemma to_size_id: "0 \<le> i \<Longrightarrow> i \<le> 2147483647 \<Longrightarrow> to_size i = i"
  by (simp add: to_size_def)

lemma solvedps_inner_correct:
  "int (length nums) \<le> INT_MAX \<Longrightarrow> 0 \<le> i \<Longrightarrow> i < b \<Longrightarrow> b \<le> int (length nums) \<Longrightarrow>
   (\<forall>j. b \<le> j \<and> j < int (length nums) \<longrightarrow>
        INT_MIN \<le> nums ! nat i + nums ! nat j \<and> nums ! nat i + nums ! nat j \<le> INT_MAX) \<Longrightarrow>
   ((\<forall>j. b \<le> j \<and> j < int (length nums) \<longrightarrow> nums ! nat i + nums ! nat j \<noteq> sum_val)
      \<longrightarrow> solvedps_inner nums sum_val i b = Inr None)
   \<and> (\<forall>j. b \<le> j \<and> j < int (length nums) \<and> nums ! nat i + nums ! nat j = sum_val
          \<and> (\<forall>j'. b \<le> j' \<and> j' < j \<longrightarrow> nums ! nat i + nums ! nat j' \<noteq> sum_val)
      \<longrightarrow> solvedps_inner nums sum_val i b = Inr (Some [i, j]))"
proof (induction nums sum_val i b rule: solvedps_inner.induct)
  case (1 nums sum_val i b)
  note len = \<open>int (length nums) \<le> INT_MAX\<close> and i0 = \<open>0 \<le> i\<close> and ib = \<open>i < b\<close>
    and bn = \<open>b \<le> int (length nums)\<close>
    and nov = \<open>\<forall>j. b \<le> j \<and> j < int (length nums) \<longrightarrow>
        INT_MIN \<le> nums ! nat i + nums ! nat j \<and> nums ! nat i + nums ! nat j \<le> INT_MAX\<close>
  have n: "int (length nums) \<le> 2147483647" using len by (simp add: INT_MAX_def)
  show ?case
  proof (cases "b < int (length nums)")
    case False
    with bn have "b = int (length nums)" by simp
    then have "\<not> to_size b < vec_size nums"
      using n by (simp add: to_size_def vec_size_def)
    then have "solvedps_inner nums sum_val i b = Inr None" by simp
    with False show ?thesis by auto
  next
    case True
    have cond: "to_size b < vec_size nums"
      using True i0 ib n by (simp add: to_size_def vec_size_def)
    have a1: "vec_at nums i = Inr (nums ! nat i)"
      using i0 ib True by (simp add: vec_at_def vec_size_def)
    have a2: "vec_at nums b = Inr (nums ! nat b)"
      using i0 ib True by (simp add: vec_at_def vec_size_def)
    have a3: "chk (nums ! nat i + nums ! nat b) = Inr (nums ! nat i + nums ! nat b)"
      using nov True by (simp add: chk_def)
    have a4: "chk (b + 1) = Inr (b + 1)"
      using True i0 ib n by (simp add: chk_def INT_MIN_def INT_MAX_def)
    show ?thesis
    proof (cases "nums ! nat i + nums ! nat b = sum_val")
      case eq: True
      have r: "solvedps_inner nums sum_val i b = Inr (Some [i, b])"
        using cond a1 a2 a3 eq by simp
      have "\<forall>j. b \<le> j \<and> j < int (length nums) \<and> nums ! nat i + nums ! nat j = sum_val
          \<and> (\<forall>j'. b \<le> j' \<and> j' < j \<longrightarrow> nums ! nat i + nums ! nat j' \<noteq> sum_val)
          \<longrightarrow> j = b"
        using eq by (metis order_le_less order_refl)
      with r eq True show ?thesis by auto
    next
      case ne: False
      have step: "solvedps_inner nums sum_val i b = solvedps_inner nums sum_val i (b + 1)"
        using cond a1 a2 a3 a4 ne by simp
      have IH: "((\<forall>j. b + 1 \<le> j \<and> j < int (length nums) \<longrightarrow> nums ! nat i + nums ! nat j \<noteq> sum_val)
           \<longrightarrow> solvedps_inner nums sum_val i (b + 1) = Inr None)
         \<and> (\<forall>j. b + 1 \<le> j \<and> j < int (length nums) \<and> nums ! nat i + nums ! nat j = sum_val
          \<and> (\<forall>j'. b + 1 \<le> j' \<and> j' < j \<longrightarrow> nums ! nat i + nums ! nat j' \<noteq> sum_val)
          \<longrightarrow> solvedps_inner nums sum_val i (b + 1) = Inr (Some [i, j]))"
        using len i0 ib True nov
        by (intro "1.IH" [OF cond a1 a2 a3 ne a4]) auto
      show ?thesis
      proof (intro conjI impI allI)
        assume "\<forall>j. b \<le> j \<and> j < int (length nums) \<longrightarrow> nums ! nat i + nums ! nat j \<noteq> sum_val"
        then show "solvedps_inner nums sum_val i b = Inr None"
          using IH step by auto
      next
        fix j
        assume j: "b \<le> j \<and> j < int (length nums) \<and> nums ! nat i + nums ! nat j = sum_val
          \<and> (\<forall>j'. b \<le> j' \<and> j' < j \<longrightarrow> nums ! nat i + nums ! nat j' \<noteq> sum_val)"
        with ne have "b \<noteq> j" by auto
        with j have "b + 1 \<le> j" by simp
        with j have "solvedps_inner nums sum_val i (b + 1) = Inr (Some [i, j])"
          using IH by auto
        with step show "solvedps_inner nums sum_val i b = Inr (Some [i, j])" by simp
      qed
    qed
  qed
qed



lemma solvedps_outer_correct:
  "int (length nums) \<le> INT_MAX \<Longrightarrow> 0 \<le> i \<Longrightarrow> i \<le> int (length nums) \<Longrightarrow>
   (\<forall>i' j. i \<le> i' \<and> i' < j \<and> j < int (length nums) \<longrightarrow>
        INT_MIN \<le> nums ! nat i' + nums ! nat j \<and> nums ! nat i' + nums ! nat j \<le> INT_MAX) \<Longrightarrow>
   ((\<forall>i' j. i \<le> i' \<and> i' < j \<and> j < int (length nums)
        \<longrightarrow> nums ! nat i' + nums ! nat j \<noteq> sum_val)
      \<longrightarrow> solvedps_outer nums sum_val i = Inr [])
   \<and> (\<forall>i' j. i \<le> i' \<and> i' < j \<and> j < int (length nums)
          \<and> nums ! nat i' + nums ! nat j = sum_val
          \<and> (\<forall>k l. i \<le> k \<and> k < l \<and> l < int (length nums)
                 \<and> nums ! nat k + nums ! nat l = sum_val \<longrightarrow> i' < k \<or> (i' = k \<and> j \<le> l))
      \<longrightarrow> solvedps_outer nums sum_val i = Inr [i', j])"
proof (induction nums sum_val i rule: solvedps_outer.induct)
  case (1 nums sum_val i)
  note len = \<open>int (length nums) \<le> INT_MAX\<close> and i0 = \<open>0 \<le> i\<close>
    and bn = \<open>i \<le> int (length nums)\<close>
    and nov = \<open>\<forall>i' j. i \<le> i' \<and> i' < j \<and> j < int (length nums) \<longrightarrow>
        INT_MIN \<le> nums ! nat i' + nums ! nat j \<and> nums ! nat i' + nums ! nat j \<le> INT_MAX\<close>
  have n: "int (length nums) \<le> 2147483647" using len by (simp add: INT_MAX_def)
  show ?case
  proof (cases "i < int (length nums)")
    case False
    with bn have "i = int (length nums)" by simp
    then have "\<not> to_size i < vec_size nums"
      using n by (simp add: to_size_def vec_size_def)
    then have "solvedps_outer nums sum_val i = Inr []" by simp
    with False show ?thesis by auto
  next
    case True
    have cond: "to_size i < vec_size nums"
      using True i0 n by (simp add: to_size_def vec_size_def)
    have a1: "chk (i + 1) = Inr (i + 1)"
      using True i0 n by (simp add: chk_def INT_MIN_def INT_MAX_def)
    have inner:
      "((\<forall>j. i + 1 \<le> j \<and> j < int (length nums) \<longrightarrow> nums ! nat i + nums ! nat j \<noteq> sum_val)
          \<longrightarrow> solvedps_inner nums sum_val i (i + 1) = Inr None)
       \<and> (\<forall>j. i + 1 \<le> j \<and> j < int (length nums) \<and> nums ! nat i + nums ! nat j = sum_val
            \<and> (\<forall>j'. i + 1 \<le> j' \<and> j' < j \<longrightarrow> nums ! nat i + nums ! nat j' \<noteq> sum_val)
          \<longrightarrow> solvedps_inner nums sum_val i (i + 1) = Inr (Some [i, j]))"
      using len i0 True nov by (intro solvedps_inner_correct) auto
    show ?thesis
    proof (cases "\<exists>j. i < j \<and> j < int (length nums) \<and> nums ! nat i + nums ! nat j = sum_val")
      case ex: True
      define J where "J = {j. i < j \<and> j < int (length nums) \<and> nums ! nat i + nums ! nat j = sum_val}"
      have "J \<subseteq> {i <..< int (length nums)}" by (auto simp: J_def)
      then have fin: "finite J" by (rule finite_subset) simp
      from ex have ne: "J \<noteq> {}" by (auto simp: J_def)
      define j0 where "j0 = Min J"
      have j0J: "j0 \<in> J" unfolding j0_def using fin ne by (rule Min_in)
      have j0least: "\<And>j. j \<in> J \<Longrightarrow> j0 \<le> j" unfolding j0_def using fin by (rule Min_le)
      have j0: "i < j0" "j0 < int (length nums)" "nums ! nat i + nums ! nat j0 = sum_val"
        using j0J by (auto simp: J_def)
      have "\<forall>j'. i + 1 \<le> j' \<and> j' < j0 \<longrightarrow> nums ! nat i + nums ! nat j' \<noteq> sum_val"
      proof (intro allI impI notI)
        fix j' assume "i + 1 \<le> j' \<and> j' < j0" "nums ! nat i + nums ! nat j' = sum_val"
        then have "j' \<in> J" using j0 by (auto simp: J_def)
        with j0least have "j0 \<le> j'" by blast
        with \<open>i + 1 \<le> j' \<and> j' < j0\<close> show False by simp
      qed
      with inner j0 have "solvedps_inner nums sum_val i (i + 1) = Inr (Some [i, j0])"
        by auto
      then have r: "solvedps_outer nums sum_val i = Inr [i, j0]"
        using cond a1 by simp
      show ?thesis
      proof (intro conjI impI allI)
        assume "\<forall>i' j. i \<le> i' \<and> i' < j \<and> j < int (length nums)
            \<longrightarrow> nums ! nat i' + nums ! nat j \<noteq> sum_val"
        with j0 show "solvedps_outer nums sum_val i = Inr []" by auto
      next
        fix i' j
        assume h: "i \<le> i' \<and> i' < j \<and> j < int (length nums)
          \<and> nums ! nat i' + nums ! nat j = sum_val
          \<and> (\<forall>k l. i \<le> k \<and> k < l \<and> l < int (length nums)
                 \<and> nums ! nat k + nums ! nat l = sum_val \<longrightarrow> i' < k \<or> (i' = k \<and> j \<le> l))"
        then have L: "\<And>k l. i \<le> k \<Longrightarrow> k < l \<Longrightarrow> l < int (length nums)
              \<Longrightarrow> nums ! nat k + nums ! nat l = sum_val \<Longrightarrow> i' < k \<or> (i' = k \<and> j \<le> l)"
          by blast
        have "i' < i \<or> (i' = i \<and> j \<le> j0)" using L [of i j0] j0 by simp
        with h have i': "i' = i" and jj: "j \<le> j0" by auto
        from h i' have "j \<in> J" by (auto simp: J_def)
        with j0least jj have "j = j0" by fastforce
        with r i' show "solvedps_outer nums sum_val i = Inr [i', j]" by simp
      qed
    next
      case nex: False
      then have "solvedps_inner nums sum_val i (i + 1) = Inr None"
        using inner by auto
      then have inn: "solvedps_inner nums sum_val i (i + 1) = Inr None" .
      have step: "solvedps_outer nums sum_val i = solvedps_outer nums sum_val (i + 1)"
        using cond a1 inn by simp
      have IH: "((\<forall>i' j. i + 1 \<le> i' \<and> i' < j \<and> j < int (length nums)
            \<longrightarrow> nums ! nat i' + nums ! nat j \<noteq> sum_val)
          \<longrightarrow> solvedps_outer nums sum_val (i + 1) = Inr [])
        \<and> (\<forall>i' j. i + 1 \<le> i' \<and> i' < j \<and> j < int (length nums)
            \<and> nums ! nat i' + nums ! nat j = sum_val
            \<and> (\<forall>k l. i + 1 \<le> k \<and> k < l \<and> l < int (length nums)
                 \<and> nums ! nat k + nums ! nat l = sum_val \<longrightarrow> i' < k \<or> (i' = k \<and> j \<le> l))
          \<longrightarrow> solvedps_outer nums sum_val (i + 1) = Inr [i', j])"
        using len i0 True nov
        by (intro "1.IH" [OF cond a1 inn refl a1]) auto
      show ?thesis
      proof (intro conjI impI allI)
        assume "\<forall>i' j. i \<le> i' \<and> i' < j \<and> j < int (length nums)
            \<longrightarrow> nums ! nat i' + nums ! nat j \<noteq> sum_val"
        then show "solvedps_outer nums sum_val i = Inr []"
          using IH step by auto
      next
        fix i' j
        assume h: "i \<le> i' \<and> i' < j \<and> j < int (length nums)
          \<and> nums ! nat i' + nums ! nat j = sum_val
          \<and> (\<forall>k l. i \<le> k \<and> k < l \<and> l < int (length nums)
                 \<and> nums ! nat k + nums ! nat l = sum_val \<longrightarrow> i' < k \<or> (i' = k \<and> j \<le> l))"
        with nex have "i' \<noteq> i" by auto
        with h have "i + 1 \<le> i'" by simp
        with h have "solvedps_outer nums sum_val (i + 1) = Inr [i', j]"
          using IH by auto
        with step show "solvedps_outer nums sum_val i = Inr [i', j]" by simp
      qed
    qed
  qed
qed


text \<open>
  Claim C5, as the code has it. For every vector of at most \<open>INT_MAX\<close> elements in which
  no sum of two elements at distinct positions leaves the range of \<open>int\<close>, and every
  target: \<open>solvedps\<close> returns the empty vector when no pair of positions \<open>i < j\<close> has
  \<open>nums[i] + nums[j] == sum_val\<close>, returns the lexicographically least such pair when
  there is one, and so returns the empty vector exactly when there is none.
\<close>

theorem C5_solvedps_correct:
  assumes "int (length nums) \<le> INT_MAX"
    and "\<forall>i j. 0 \<le> i \<and> i < j \<and> j < int (length nums) \<longrightarrow>
           INT_MIN \<le> nums ! nat i + nums ! nat j \<and> nums ! nat i + nums ! nat j \<le> INT_MAX"
  shows "((\<forall>i j. 0 \<le> i \<and> i < j \<and> j < int (length nums)
              \<longrightarrow> nums ! nat i + nums ! nat j \<noteq> sum_val)
            \<longrightarrow> solvedps nums sum_val = Inr [])
       \<and> (\<forall>i j. 0 \<le> i \<and> i < j \<and> j < int (length nums)
              \<and> nums ! nat i + nums ! nat j = sum_val
              \<and> (\<forall>k l. 0 \<le> k \<and> k < l \<and> l < int (length nums)
                     \<and> nums ! nat k + nums ! nat l = sum_val \<longrightarrow> i < k \<or> (i = k \<and> j \<le> l))
            \<longrightarrow> solvedps nums sum_val = Inr [i, j])
       \<and> (solvedps nums sum_val = Inr [] \<longleftrightarrow>
            (\<forall>i j. 0 \<le> i \<and> i < j \<and> j < int (length nums)
              \<longrightarrow> nums ! nat i + nums ! nat j \<noteq> sum_val))"
proof -
  let ?match = "\<lambda>i j. 0 \<le> i \<and> i < j \<and> j < int (length nums)
                  \<and> nums ! nat i + nums ! nat j = sum_val"
  have outer:
    "((\<forall>i j. 0 \<le> i \<and> i < j \<and> j < int (length nums)
          \<longrightarrow> nums ! nat i + nums ! nat j \<noteq> sum_val)
        \<longrightarrow> solvedps_outer nums sum_val 0 = Inr [])
     \<and> (\<forall>i j. 0 \<le> i \<and> i < j \<and> j < int (length nums)
          \<and> nums ! nat i + nums ! nat j = sum_val
          \<and> (\<forall>k l. 0 \<le> k \<and> k < l \<and> l < int (length nums)
                 \<and> nums ! nat k + nums ! nat l = sum_val \<longrightarrow> i < k \<or> (i = k \<and> j \<le> l))
        \<longrightarrow> solvedps_outer nums sum_val 0 = Inr [i, j])"
    using assms by (intro solvedps_outer_correct) auto
  have none: "(\<forall>i j. 0 \<le> i \<and> i < j \<and> j < int (length nums)
          \<longrightarrow> nums ! nat i + nums ! nat j \<noteq> sum_val) \<longrightarrow> solvedps nums sum_val = Inr []"
    using outer by (simp add: solvedps_def)
  have least: "\<forall>i j. 0 \<le> i \<and> i < j \<and> j < int (length nums)
          \<and> nums ! nat i + nums ! nat j = sum_val
          \<and> (\<forall>k l. 0 \<le> k \<and> k < l \<and> l < int (length nums)
                 \<and> nums ! nat k + nums ! nat l = sum_val \<longrightarrow> i < k \<or> (i = k \<and> j \<le> l))
        \<longrightarrow> solvedps nums sum_val = Inr [i, j]"
    using outer by (simp add: solvedps_def)
  have "solvedps nums sum_val \<noteq> Inr []" if ex: "\<exists>i j. ?match i j"
  proof -
    define I where "I = {i. \<exists>j. ?match i j}"
    have "I \<subseteq> {0 ..< int (length nums)}" by (auto simp: I_def)
    then have finI: "finite I" by (rule finite_subset) simp
    from ex have "I \<noteq> {}" by (auto simp: I_def)
    define i0 where "i0 = Min I"
    have "i0 \<in> I" unfolding i0_def using finI \<open>I \<noteq> {}\<close> by (rule Min_in)
    have i0least: "\<And>i. i \<in> I \<Longrightarrow> i0 \<le> i" unfolding i0_def using finI by (rule Min_le)
    define J where "J = {j. ?match i0 j}"
    have "J \<subseteq> {0 ..< int (length nums)}" by (auto simp: J_def)
    then have finJ: "finite J" by (rule finite_subset) simp
    from \<open>i0 \<in> I\<close> have "J \<noteq> {}" by (auto simp: I_def J_def)
    define j0 where "j0 = Min J"
    have "j0 \<in> J" unfolding j0_def using finJ \<open>J \<noteq> {}\<close> by (rule Min_in)
    have j0least: "\<And>j. j \<in> J \<Longrightarrow> j0 \<le> j" unfolding j0_def using finJ by (rule Min_le)
    have m: "?match i0 j0" using \<open>j0 \<in> J\<close> by (simp add: J_def)
    have "i0 < k \<or> (i0 = k \<and> j0 \<le> l)" if "?match k l" for k l
    proof -
      from that have "k \<in> I" by (auto simp: I_def)
      then have "i0 \<le> k" by (rule i0least)
      moreover have "j0 \<le> l" if "i0 = k"
        using that \<open>?match k l\<close> by (intro j0least) (simp add: J_def)
      ultimately show ?thesis by auto
    qed
    with m least have "solvedps nums sum_val = Inr [i0, j0]" by blast
    then show ?thesis by simp
  qed
  with none least show ?thesis by blast
qed

theorem C5_solvedps_correct_witness:
  "int (length [3, 2, 4, 1 :: int]) \<le> INT_MAX
   \<and> solvedps [3, 2, 4, 1] 5 = Inr [0, 1]
   \<and> solvedps [3, 2, 4, 1] 50 = Inr []"
proof -
  let ?v = "[3, 2, 4, 1 :: int]"
  have len: "int (length ?v) \<le> INT_MAX" by (simp add: INT_MAX_def)
  have idx: "0 \<le> j \<and> j < 4 \<longleftrightarrow> j = 0 \<or> j = 1 \<or> j = 2 \<or> j = 3" for j :: int by auto
  have nov: "\<forall>i j. 0 \<le> i \<and> i < j \<and> j < int (length ?v) \<longrightarrow>
           INT_MIN \<le> ?v ! nat i + ?v ! nat j \<and> ?v ! nat i + ?v ! nat j \<le> INT_MAX"
  proof (intro allI impI)
    fix i j :: int
    assume "0 \<le> i \<and> i < j \<and> j < int (length ?v)"
    then have "(i = 0 \<or> i = 1 \<or> i = 2 \<or> i = 3) \<and> (j = 0 \<or> j = 1 \<or> j = 2 \<or> j = 3)"
      by auto
    then show "INT_MIN \<le> ?v ! nat i + ?v ! nat j \<and> ?v ! nat i + ?v ! nat j \<le> INT_MAX"
      by (auto simp: INT_MIN_def INT_MAX_def)
  qed
  have a: "solvedps ?v 5 = Inr [0, 1]" by code_simp
  have "\<forall>i j. 0 \<le> i \<and> i < j \<and> j < int (length ?v) \<longrightarrow> ?v ! nat i + ?v ! nat j \<noteq> 50"
  proof (intro allI impI)
    fix i j :: int
    assume "0 \<le> i \<and> i < j \<and> j < int (length ?v)"
    then have "(i = 0 \<or> i = 1 \<or> i = 2 \<or> i = 3) \<and> (j = 0 \<or> j = 1 \<or> j = 2 \<or> j = 3)"
      by auto
    then show "?v ! nat i + ?v ! nat j \<noteq> 50" by auto
  qed
  with C5_solvedps_correct [OF len nov, of 50] have "solvedps ?v 50 = Inr []" by blast
  with len a show ?thesis by simp
qed

text \<open>
  The claim as stated, for every vector and target, fails: in \<open>{2147483647, 1}\<close> no two
  elements add up to \<open>-2147483648\<close>, but the run does not return the empty vector; the
  sum \<open>nums[0] + nums[1]\<close> is a signed overflow (and where it wraps around, the result
  is the pair \<open>{0, 1}\<close>).
\<close>

theorem C5_counterexample:
  "[2147483647, 1] ! 0 + [2147483647, 1] ! 1 \<noteq> (- 2147483648 :: int)
   \<and> solvedps [2147483647, 1] (- 2147483648) = Inl SignedOverflow"
  by (simp add: solvedps_def solvedps_outer.simps solvedps_inner.simps chk_def
      INT_MIN_def INT_MAX_def vec_at_def vec_size_def to_size_def)
section \<open>Claims about the sorting programs\<close>

text \<open>
  Claim C6. After the sorting loop of \<open>Student_8_SelectionSort.cpp\<close> (selection sort) and
  of \<open>Student_3_DebugMode.cpp\<close> (bubble sort) the array holds the elements
  64, 34, 25, 12, 22 of the initial array in nondecreasing order, and the last thing both
  programs print is the element sequence 12 22 25 34 64. Neither run reads or writes
  outside the array.
\<close>

theorem C6_sorting_programs:
  "selection_sort_loop arr_init 5 0 = Inr [12, 22, 25, 34, 64]
   \<and> map_sum id fst (bubble_sort_loop arr_init 5 0 [OutStr ''Starting Sort...'', OutEndl])
       = Inr [12, 22, 25, 34, 64]
   \<and> mset [12, 22, 25, 34, 64] = mset arr_init
   \<and> sorted [12, 22, 25, 34, 64 :: int]
   \<and> selection_sort_main =
       Inr [OutInt 12, OutStr '' '', OutInt 22, OutStr '' '', OutInt 25, OutStr '' '',
            OutInt 34, OutStr '' '', OutInt 64, OutStr '' '']
   \<and> map_sum id final_ints bubble_sort_main = Inr [12, 22, 25, 34, 64]"
proof -
  have sel: "selection_sort_loop arr_init 5 0 = Inr [12, 22, 25, 34, 64]"
    by code_simp
  have bub: "map_sum id fst (bubble_sort_loop arr_init 5 0 [OutStr ''Starting Sort...'', OutEndl])
       = Inr [12, 22, 25, 34, 64]"
    by code_simp
  have ms: "mset [12, 22, 25, 34, 64] = mset arr_init"
    by (simp add: arr_init_def)
  have so: "sorted [12, 22, 25, 34, 64 :: int]"
    by simp
  have selm: "selection_sort_main =
       Inr [OutInt 12, OutStr '' '', OutInt 22, OutStr '' '', OutInt 25, OutStr '' '',
            OutInt 34, OutStr '' '', OutInt 64, OutStr '' '']"
    by code_simp
  have bubm: "map_sum id final_ints bubble_sort_main = Inr [12, 22, 25, 34, 64]"
    by code_simp
  from sel bub ms so selm bubm show ?thesis
    by (intro conjI)
qed
section \<open>Claims about the linked-list reversal\<close>

lemma linked_unique: "linked h p cs \<Longrightarrow> linked h p cs' \<Longrightarrow> cs = cs'"
proof (induction cs arbitrary: p cs')
  case Nil
  then show ?case by (cases cs') auto
next
  case (Cons c cs)
  obtain a x where c: "c = (a, x)" by (cases c)
  from Cons.prems(1) c have p: "p = Some a" by simp
  with Cons.prems(2) obtain c' cs'' where cs': "cs' = c' # cs''" by (cases cs') auto
  obtain a' x' where c': "c' = (a', x')" by (cases c')
  from Cons.prems c c' cs' p show ?case
    by (auto split: option.splits dest: Cons.IH)
qed

lemma linked_suffix: "linked h p (cs @ cs') \<Longrightarrow> \<exists>q. linked h q cs'"
  by (induction cs arbitrary: p) (auto split: option.splits)

text \<open>A list that ends in null visits no node twice.\<close>

lemma linked_head_notin:
  assumes "linked h (Some a) ((a, x) # cs)"
  shows "a \<notin> fst ` set cs"
proof
  assume "a \<in> fst ` set cs"
  then obtain y where "(a, y) \<in> set cs" by auto
  then obtain us vs where cs: "cs = us @ (a, y) # vs"
    by (auto simp: in_set_conv_decomp)
  with assms have "linked h (Some a) (((a, x) # us) @ (a, y) # vs)" by simp
  then obtain q where q: "linked h q ((a, y) # vs)"
    by (rule linked_suffix [THEN exE])
  then have "q = Some a" by simp
  with q assms have "(a, y) # vs = (a, x) # cs"
    by (auto dest: linked_unique simp del: linked.simps)
  with cs show False by (auto dest: arg_cong [where f = length])
qed

lemma linked_upd_other:
  "a \<notin> fst ` set cs \<Longrightarrow> linked (h(a \<mapsto> n)) p cs = linked h p cs"
  by (induction cs arbitrary: p) (auto split: option.splits)

text \<open>
  The loop invariant: the part still to visit and the part already reversed are two
  disjoint lists; when the loop returns, the first has been reversed onto the second.
\<close>

lemma solvejxa_loop_correct:
  "linked h head cs \<Longrightarrow> linked h prev ps \<Longrightarrow> fst ` set cs \<inter> fst ` set ps = {} \<Longrightarrow>
   \<exists>h' p'. solvejxa_loop h prev head = Some (Inr (h', p')) \<and> linked h' p' (rev cs @ ps)"
proof (induction cs arbitrary: h head prev ps)
  case Nil
  then show ?case by (simp add: solvejxa_loop.simps)
next
  case (Cons c cs)
  obtain a x where c: "c = (a, x)" by (cases c)
  from Cons.prems(1) c obtain node where
    hd: "head = Some a" and ha: "h a = Some node" and vx: "val node = x"
    and tl: "linked h (next_ptr node) cs"
    by (auto split: option.splits)
  from Cons.prems(1) c hd have notin: "a \<notin> fst ` set cs"
    using linked_head_notin by blast
  from Cons.prems(3) c have notin_ps: "a \<notin> fst ` set ps" by auto
  let ?h = "h(a \<mapsto> node\<lparr>next_ptr := prev\<rparr>)"
  have 1: "linked ?h (next_ptr node) cs"
    using tl notin by (simp add: linked_upd_other)
  have 2: "linked ?h (Some a) ((a, x) # ps)"
    using Cons.prems(2) notin_ps vx by (simp add: linked_upd_other)
  have 3: "fst ` set cs \<inter> fst ` set ((a, x) # ps) = {}"
    using Cons.prems(3) c notin by auto
  from Cons.IH [OF 1 2 3] obtain h' p' where
    "solvejxa_loop ?h (Some a) (next_ptr node) = Some (Inr (h', p'))"
    "linked h' p' (rev cs @ (a, x) # ps)" by blast
  then show ?case using hd ha c
    by (subst solvejxa_loop.simps) simp
qed

text \<open>
  Claim C7. For every finite singly linked list, \<open>solvejxa\<close> returns, and what it returns
  points to a list made of the same nodes in reverse order, so the sequence of values is
  the reverse of the input's; on the empty list (a null \<open>head\<close>) it returns null.
\<close>

theorem C7_solvejxa_reverses:
  assumes "linked h head cells"
  shows "\<exists>h' p'. solvejxa h head = Some (Inr (h', p'))
           \<and> linked h' p' (rev cells)
           \<and> map snd (rev cells) = rev (map snd cells)
           \<and> (head = None \<longrightarrow> p' = None)"
proof -
  from solvejxa_loop_correct [of h head cells None "[]"] assms
  obtain h' p' where r: "solvejxa h head = Some (Inr (h', p'))" "linked h' p' (rev cells)"
    by (auto simp: solvejxa_def)
  have "head = None \<longrightarrow> p' = None"
    using r(1) by (auto simp: solvejxa_def solvejxa_loop.simps)
  with r show ?thesis by (auto simp: rev_map)
qed

theorem C7_solvejxa_reverses_witness:
  "linked heap3 (Some 1) [(1, 10), (2, 20), (5, 30)]
   \<and> (\<exists>h' p'. solvejxa heap3 (Some 1) = Some (Inr (h', p'))
         \<and> linked h' p' [(5, 30), (2, 20), (1, 10)])
   \<and> linked heap3 None []
   \<and> (\<exists>h'. solvejxa heap3 None = Some (Inr (h', None)))"
proof -
  have l: "linked heap3 (Some 1) [(1, 10), (2, 20), (5, 30)]"
    by (simp add: heap3_def)
  have e: "linked heap3 None []"
    by simp
  from C7_solvejxa_reverses [OF l] C7_solvejxa_reverses [OF e] l e
  show ?thesis by auto
qed

end
